theory Spec2Isabelle
  imports Main "HOL-Library.Word" "HOL-Library.Signed_Division"
begin

section \<open>Machine integers and byte buffers\<close>

text \<open>
  The C++ fixed-width integers are words: \<open>+\<close> wraps, \<open>sint\<close> reads a word as
  two's complement, \<open><s\<close> and \<open>\<le>s\<close> are the signed comparisons, \<open>ucast\<close> to a
  narrower word is the truncation a \<open>static_cast\<close> performs. A buffer is the list of its
  bytes; its \<open>size()\<close> is the length of the list as an \<open>int64_t\<close>.
\<close>

type_synonym uint8 = "8 word"
type_synonym int16 = "16 word"
type_synonym int32 = "32 word"
type_synonym uint32 = "32 word"
type_synonym int64 = "64 word"
type_synonym buffer = "uint8 list"

definition size64 :: "'a list \<Rightarrow> int64" where
  "size64 xs = of_nat (length xs)"

section \<open>metadata.cc: FileMetaData::version\<close>

datatype ParquetVersion = PARQUET_1_0 | PARQUET_2_0

text \<open>
  \<open>FileMetaDataImpl::version()\<close> hands out the \<open>int32_t\<close> field \<open>version\<close> of the
  Thrift footer, and \<open>FileMetaData::version()\<close> switches on it: case 1, case 2, and a
  default that falls out of the switch to the final \<open>return PARQUET_1_0\<close>.
\<close>

definition FileMetaData_version :: "int32 \<Rightarrow> ParquetVersion" where
  "FileMetaData_version v =
     (if v = 1 then PARQUET_1_0
      else if v = 2 then PARQUET_2_0
      else PARQUET_1_0)"

section \<open>internal\_file\_encryptor.h: Encryptor::EncryptColumnMetaData\<close>

text \<open>
  Modelled from the spec: the class \<open>ColumnEncryptionProperties\<close> is declared in
  \<open>encryption.h\<close>, which is not among the sources. The code under study reads it through
  three getters only, \<open>is_encrypted()\<close>, \<open>is_encrypted_with_footer_key()\<close> and
  \<open>key_metadata()\<close>; the record holds what they return. A null \<open>shared_ptr\<close> is
  \<open>None\<close>.
\<close>

record ColumnEncryptionProperties =
  is_encrypted :: bool
  is_encrypted_with_footer_key :: bool
  key_metadata :: buffer

definition EncryptColumnMetaData ::
  "bool \<Rightarrow> ColumnEncryptionProperties option \<Rightarrow> bool" where
  "EncryptColumnMetaData encrypted_footer column_encryption_properties =
     (case column_encryption_properties of
        None \<Rightarrow> False
      | Some p \<Rightarrow>
          if \<not> is_encrypted p then False
          else if \<not> encrypted_footer then True
          else \<not> is_encrypted_with_footer_key p)"

section \<open>Types of the format\<close>

text \<open>
  Modelled from the spec: the enumerations of \<open>types.h\<close> and of the generated Thrift
  header, and the classes \<open>EncodedStatistics\<close>, \<open>CompressedDataPage\<close>,
  \<open>DictionaryPage\<close>, \<open>ColumnDescriptor\<close> and \<open>WriterProperties\<close>, are declared in
  files that are not among the sources. Each is the record of the fields and getters the
  code under study uses. A Thrift \<open>__isset\<close> flag that the code sets or clears on its own is
  a field of its own; an optional field that is only ever set together with its flag is an
  \<open>option\<close>.
\<close>

datatype Type = BOOLEAN | INT32 | INT64 | INT96 | FLOAT | DOUBLE | BYTE_ARRAY
  | FIXED_LEN_BYTE_ARRAY

datatype Encoding = PLAIN | PLAIN_DICTIONARY | RLE | BIT_PACKED | DELTA_BINARY_PACKED
  | DELTA_LENGTH_BYTE_ARRAY | DELTA_BYTE_ARRAY | RLE_DICTIONARY

datatype Compression = UNCOMPRESSED | SNAPPY | GZIP | LZO | BROTLI | LZ4 | ZSTD

datatype SortOrder = SIGNED | UNSIGNED | UNKNOWN

datatype PageType = DATA_PAGE | INDEX_PAGE | DICTIONARY_PAGE | DATA_PAGE_V2

record EncodedStatistics =
  has_min :: bool
  has_max :: bool
  has_null_count :: bool
  has_distinct_count :: bool
  stats_min :: buffer
  stats_max :: buffer
  null_count :: int64
  distinct_count :: int64
  is_signed :: bool

record format_Statistics =
  st_max :: "buffer option"
  st_min :: "buffer option"
  st_null_count :: "int64 option"
  st_distinct_count :: "int64 option"
  st_max_value :: "buffer option"
  st_min_value :: "buffer option"

text \<open>thrift.h, \<open>ToThrift(const EncodedStatistics&)\<close>.\<close>

definition ToThrift_Statistics :: "EncodedStatistics \<Rightarrow> format_Statistics" where
  "ToThrift_Statistics stats =
     \<lparr>st_max = (if has_max stats \<and> is_signed stats then Some (stats_max stats) else None),
      st_min = (if has_min stats \<and> is_signed stats then Some (stats_min stats) else None),
      st_null_count = (if has_null_count stats then Some (null_count stats) else None),
      st_distinct_count =
        (if has_distinct_count stats then Some (distinct_count stats) else None),
      st_max_value = (if has_max stats then Some (stats_max stats) else None),
      st_min_value = (if has_min stats then Some (stats_min stats) else None)\<rparr>"

record format_ColumnMetaData =
  md_type :: Type
  md_encodings :: "Encoding list"
  md_path_in_schema :: "string list"
  md_codec :: Compression
  md_num_values :: int64
  md_total_uncompressed_size :: int64
  md_total_compressed_size :: int64
  md_data_page_offset :: int64
  md_index_page_offset :: int64
  md_isset_index_page_offset :: bool
  md_dictionary_page_offset :: int64
  md_isset_dictionary_page_offset :: bool
  md_statistics :: format_Statistics
  md_isset_statistics :: bool
  md_isset_encoding_stats :: bool

datatype format_ColumnCryptoMetaData =
    ENCRYPTION_WITH_FOOTER_KEY
  | ENCRYPTION_WITH_COLUMN_KEY "string list" buffer

record format_ColumnChunk =
  cc_file_path :: "string option"
  cc_file_offset :: int64
  cc_meta_data :: format_ColumnMetaData
  cc_isset_meta_data :: bool
  cc_crypto_metadata :: "format_ColumnCryptoMetaData option"
  cc_encrypted_column_metadata :: "buffer option"

record format_DataPageHeader =
  dph_num_values :: int32
  dph_encoding :: Encoding
  dph_definition_level_encoding :: Encoding
  dph_repetition_level_encoding :: Encoding
  dph_statistics :: format_Statistics

record format_DictionaryPageHeader =
  dict_num_values :: int32
  dict_encoding :: Encoding
  dict_is_sorted :: bool

record format_PageHeader =
  ph_type :: PageType
  ph_uncompressed_page_size :: int32
  ph_compressed_page_size :: int32
  ph_data_page_header :: "format_DataPageHeader option"
  ph_dictionary_page_header :: "format_DictionaryPageHeader option"

record CompressedDataPage =
  page_buffer :: buffer
  page_num_values :: int32
  page_encoding :: Encoding
  page_definition_level_encoding :: Encoding
  page_repetition_level_encoding :: Encoding
  page_uncompressed_size :: int64
  page_statistics :: EncodedStatistics

record DictionaryPage =
  dpage_buffer :: buffer
  dpage_num_values :: int32
  dpage_encoding :: Encoding
  dpage_is_sorted :: bool

record ColumnDescriptor =
  descr_physical_type :: Type
  descr_path :: "string list"
  descr_max_definition_level :: int16
  descr_max_repetition_level :: int16
  descr_sort_order :: SortOrder

text \<open>
  The writer properties as the getters answer for the column at hand
  (\<open>encoding(path)\<close>, \<open>compression(path)\<close>, \<open>max_statistics_size(path)\<close>, ...).
  \<open>props_encrypted_footer\<close> is \<open>file_encryption_properties()->encrypted_footer()\<close>.
\<close>

record WriterProperties =
  props_version :: ParquetVersion
  props_encoding :: Encoding
  props_dictionary_index_encoding :: Encoding
  props_dictionary_page_encoding :: Encoding
  props_compression :: Compression
  props_dictionary_enabled :: bool
  props_statistics_enabled :: bool
  props_data_pagesize :: int64
  props_dictionary_pagesize_limit :: int64
  props_write_batch_size :: int64
  props_max_statistics_size :: nat
  props_column_encryption_properties :: "ColumnEncryptionProperties option"
  props_encrypted_footer :: bool

section \<open>Collaborators outside the sources\<close>

text \<open>
  An \<open>Encryptor\<close> (internal\_file\_encryptor.h) holds a key, the file AAD and the current
  AAD, which \<open>UpdateAad\<close> replaces. What \<open>Encrypt\<close> computes is the AES primitive's
  business: it is a parameter below.
\<close>

record Encryptor =
  enc_key :: buffer
  enc_file_aad :: buffer
  enc_aad :: buffer

definition UpdateAad :: "buffer \<Rightarrow> Encryptor \<Rightarrow> Encryptor" where
  "UpdateAad aad e = e\<lparr>enc_aad := aad\<rparr>"

text \<open>
  The state of an \<open>RleEncoder\<close> is what it was built with and the levels it has accepted
  since. Whether it accepts one more (\<open>Put\<close> returns true) and which bytes its buffer holds
  after \<open>Flush\<close> (\<open>len()\<close> is their number) are parameters below.
\<close>

record RleEncoder =
  rle_buffer_len :: int32
  rle_bit_width :: int32
  rle_values :: "int16 list"

datatype module_type = kColumnMetaData | kDataPage | kDictionaryPage | kDataPageHeader
  | kDictionaryPageHeader

text \<open>
  The Thrift compact-protocol serializer, the AES primitive, the AAD helpers of
  \<open>encryption_internal.h\<close>, the compression codecs, \<open>BitUtil::Log2\<close>, the \<open>RleEncoder\<close> and
  \<open>sizeof(format::PageHeader)\<close> are not part of the sources. They are parameters:
  every theorem below holds for whatever they compute.
  \<open>PARQUET_ENCRYPTION\<close> is the build flag of the \<open>#ifdef\<close> blocks. A serialized Thrift
  object is taken to be shorter than \<open>2^31\<close> bytes, so that the \<open>uint32_t\<close> and \<open>int\<close>
  lengths \<open>ThriftSerializer\<close> passes around are the length of the list.
\<close>

record io_env =
  PARQUET_ENCRYPTION :: bool
  SerializeObject_PageHeader :: "format_PageHeader \<Rightarrow> buffer"
  SerializeObject_ColumnMetaData :: "format_ColumnMetaData \<Rightarrow> buffer"
  SerializeObject_ColumnChunk :: "format_ColumnChunk \<Rightarrow> buffer"
  AesEncrypt :: "Encryptor \<Rightarrow> buffer \<Rightarrow> buffer"
  CreateModuleAad :: "buffer \<Rightarrow> module_type \<Rightarrow> int16 \<Rightarrow> int16 \<Rightarrow> int16 \<Rightarrow> buffer"
  QuickUpdatePageAad :: "buffer \<Rightarrow> int16 \<Rightarrow> buffer"
  GetCodecFromArrow :: "Compression \<Rightarrow> (buffer \<Rightarrow> buffer) option"
  BitUtil_Log2 :: "int32 \<Rightarrow> int32"
  RleEncoder_MaxBufferSize :: "int32 \<Rightarrow> int32 \<Rightarrow> int32"
  RleEncoder_MinBufferSize :: "int32 \<Rightarrow> int32"
  RleEncoder_Put_ok :: "RleEncoder \<Rightarrow> int16 \<Rightarrow> bool"
  RleEncoder_buffer :: "RleEncoder \<Rightarrow> buffer"
  sizeof_PageHeader :: int64

text \<open>
  What can go wrong inside the writer: \<open>ColumnChunkMetaDataBuilderImpl::Finish\<close>
  dereferences its \<open>encryptor\<close> argument without a null check.
\<close>

datatype writer_failure = NullEncryptor

section \<open>The output sink\<close>

text \<open>
  An \<open>ArrowOutputStream\<close> as an append-only byte stream: \<open>os_offset\<close> is the position of
  the first byte this model sees (what was written before is of no concern), \<open>os_data\<close>
  the bytes appended since. The streams here are in-memory or file streams whose \<open>Tell\<close> and
  \<open>Write\<close> succeed, so the \<open>PARQUET_THROW_NOT_OK\<close> around them never throws.
\<close>

record OutputStream =
  os_offset :: int64
  os_data :: buffer

definition Tell :: "OutputStream \<Rightarrow> int64" where
  "Tell s = os_offset s + size64 (os_data s)"

definition Write :: "buffer \<Rightarrow> OutputStream \<Rightarrow> OutputStream" where
  "Write bytes s = s\<lparr>os_data := os_data s @ bytes\<rparr>"

text \<open>
  \<open>ThriftSerializer::Serialize(obj, out, encryptor)\<close>, given the serialized bytes of
  \<open>obj\<close>: they go to the sink as they are, or encrypted when the build has encryption and
  an encryptor is passed. It returns the number of bytes written.
\<close>

definition Serialize ::
  "io_env \<Rightarrow> buffer \<Rightarrow> Encryptor option \<Rightarrow> OutputStream \<Rightarrow> int64 \<times> OutputStream" where
  "Serialize env out_buffer encryptor out =
     (case (if PARQUET_ENCRYPTION env then encryptor else None) of
        None \<Rightarrow> (size64 out_buffer, Write out_buffer out)
      | Some e \<Rightarrow>
          (let cipher_buffer = AesEncrypt env e out_buffer
           in (size64 cipher_buffer, Write cipher_buffer out)))"

section \<open>metadata.cc: ColumnChunkMetaDataBuilder\<close>

record ColumnChunkMetaDataBuilder =
  b_column_chunk :: format_ColumnChunk
  b_properties :: WriterProperties
  b_column :: ColumnDescriptor

text \<open>
  \<open>Init\<close> on a default-constructed \<open>format::ColumnChunk\<close>: every number is 0, every list
  empty, every \<open>__isset\<close> flag false.
\<close>

definition empty_Statistics :: format_Statistics where
  "empty_Statistics =
     \<lparr>st_max = None, st_min = None, st_null_count = None, st_distinct_count = None,
      st_max_value = None, st_min_value = None\<rparr>"

definition ColumnChunkMetaDataBuilder_Init ::
  "WriterProperties \<Rightarrow> ColumnDescriptor \<Rightarrow> ColumnChunkMetaDataBuilder" where
  "ColumnChunkMetaDataBuilder_Init props column =
     \<lparr>b_column_chunk =
        \<lparr>cc_file_path = None, cc_file_offset = 0,
         cc_meta_data =
           \<lparr>md_type = descr_physical_type column, md_encodings = [],
            md_path_in_schema = descr_path column, md_codec = props_compression props,
            md_num_values = 0, md_total_uncompressed_size = 0,
            md_total_compressed_size = 0, md_data_page_offset = 0,
            md_index_page_offset = 0, md_isset_index_page_offset = False,
            md_dictionary_page_offset = 0, md_isset_dictionary_page_offset = False,
            md_statistics = empty_Statistics, md_isset_statistics = False,
            md_isset_encoding_stats = False\<rparr>,
         cc_isset_meta_data = False, cc_crypto_metadata = None,
         cc_encrypted_column_metadata = None\<rparr>,
      b_properties = props, b_column = column\<rparr>"

definition SetStatistics ::
  "EncodedStatistics \<Rightarrow> ColumnChunkMetaDataBuilder \<Rightarrow> ColumnChunkMetaDataBuilder" where
  "SetStatistics val b =
     b\<lparr>b_column_chunk := (b_column_chunk b)
        \<lparr>cc_meta_data := (cc_meta_data (b_column_chunk b))
           \<lparr>md_statistics := ToThrift_Statistics val, md_isset_statistics := True\<rparr>\<rparr>\<rparr>"

text \<open>The first block of \<open>Finish\<close>: offsets, counts and sizes.\<close>

definition Finish_offsets ::
  "int64 \<Rightarrow> int64 \<Rightarrow> int64 \<Rightarrow> int64 \<Rightarrow> int64 \<Rightarrow> int64 \<Rightarrow>
   format_ColumnChunk \<Rightarrow> format_ColumnChunk" where
  "Finish_offsets num_values dictionary_page_offset index_page_offset data_page_offset
       compressed_size uncompressed_size cc =
     (let cc1 =
            (if 0 < sint dictionary_page_offset
             then cc\<lparr>cc_meta_data := (cc_meta_data cc)
                       \<lparr>md_dictionary_page_offset := dictionary_page_offset,
                        md_isset_dictionary_page_offset := True\<rparr>,
                     cc_file_offset := dictionary_page_offset + compressed_size\<rparr>
             else cc\<lparr>cc_file_offset := data_page_offset + compressed_size\<rparr>);
          cc2 = cc1\<lparr>cc_isset_meta_data := True,
                    cc_meta_data := (cc_meta_data cc1)\<lparr>md_num_values := num_values\<rparr>\<rparr>;
          cc3 =
            (if 0 \<le> sint index_page_offset
             then cc2\<lparr>cc_meta_data := (cc_meta_data cc2)
                        \<lparr>md_index_page_offset := index_page_offset,
                         md_isset_index_page_offset := True\<rparr>\<rparr>
             else cc2)
      in cc3\<lparr>cc_meta_data := (cc_meta_data cc3)
               \<lparr>md_data_page_offset := data_page_offset,
                md_total_uncompressed_size := uncompressed_size,
                md_total_compressed_size := compressed_size\<rparr>\<rparr>)"

text \<open>The second block: the encodings the chunk reports.\<close>

definition Finish_encodings :: "WriterProperties \<Rightarrow> bool \<Rightarrow> bool \<Rightarrow> Encoding list" where
  "Finish_encodings props has_dictionary dictionary_fallback =
     (if has_dictionary
      then [props_dictionary_index_encoding props,
            (if props_version props = PARQUET_1_0 then PLAIN
             else props_dictionary_page_encoding props)]
      else [props_encoding props])
     @ [RLE]
     @ (if dictionary_fallback then [PLAIN] else [])"

text \<open>
  The third block, compiled under \<open>PARQUET_ENCRYPTION\<close>: the crypto metadata of an
  encrypted column, and the separately encrypted \<open>ColumnMetaData\<close>. The encryptor is
  dereferenced only when the metadata is encrypted separately.
\<close>

definition Finish_encryption ::
  "io_env \<Rightarrow> WriterProperties \<Rightarrow> ColumnDescriptor \<Rightarrow> Encryptor option \<Rightarrow>
   format_ColumnChunk \<Rightarrow> writer_failure + format_ColumnChunk" where
  "Finish_encryption env props column encryptor cc =
     (case props_column_encryption_properties props of
        None \<Rightarrow> Inr cc
      | Some encrypt_md \<Rightarrow>
          if \<not> is_encrypted encrypt_md then Inr cc
          else
            (let ccmd =
                   (if is_encrypted_with_footer_key encrypt_md
                    then ENCRYPTION_WITH_FOOTER_KEY
                    else ENCRYPTION_WITH_COLUMN_KEY (descr_path column)
                           (key_metadata encrypt_md));
                 cc1 = cc\<lparr>cc_crypto_metadata := Some ccmd\<rparr>;
                 encrypted_footer = props_encrypted_footer props;
                 encrypt_metadata =
                   (\<not> encrypted_footer \<or> \<not> is_encrypted_with_footer_key encrypt_md)
             in if \<not> encrypt_metadata then Inr cc1
                else
                  (case encryptor of
                     None \<Rightarrow> Inl NullEncryptor
                   | Some e \<Rightarrow>
                       (let serialized_data =
                              SerializeObject_ColumnMetaData env (cc_meta_data cc1);
                            encrypted_data = AesEncrypt env e serialized_data;
                            cc2 = cc1\<lparr>cc_encrypted_column_metadata := Some encrypted_data\<rparr>
                        in if encrypted_footer
                           then Inr (cc2\<lparr>cc_isset_meta_data := False\<rparr>)
                           else Inr (cc2\<lparr>cc_isset_meta_data := True,
                                        cc_meta_data := (cc_meta_data cc2)
                                          \<lparr>md_isset_statistics := False,
                                           md_isset_encoding_stats := False\<rparr>\<rparr>)))))"

definition Finish ::
  "io_env \<Rightarrow> int64 \<Rightarrow> int64 \<Rightarrow> int64 \<Rightarrow> int64 \<Rightarrow> int64 \<Rightarrow> int64 \<Rightarrow> bool \<Rightarrow> bool \<Rightarrow>
   Encryptor option \<Rightarrow> ColumnChunkMetaDataBuilder \<Rightarrow>
   writer_failure + ColumnChunkMetaDataBuilder" where
  "Finish env num_values dictionary_page_offset index_page_offset data_page_offset
       compressed_size uncompressed_size has_dictionary dictionary_fallback encryptor b =
     (let cc1 = Finish_offsets num_values dictionary_page_offset index_page_offset
                  data_page_offset compressed_size uncompressed_size (b_column_chunk b);
          cc2 = cc1\<lparr>cc_meta_data := (cc_meta_data cc1)
                    \<lparr>md_encodings :=
                       Finish_encodings (b_properties b) has_dictionary
                         dictionary_fallback\<rparr>\<rparr>
      in if PARQUET_ENCRYPTION env
         then (case Finish_encryption env (b_properties b) (b_column b) encryptor cc2 of
                 Inl err \<Rightarrow> Inl err
               | Inr cc3 \<Rightarrow> Inr (b\<lparr>b_column_chunk := cc3\<rparr>))
         else Inr (b\<lparr>b_column_chunk := cc2\<rparr>))"

text \<open>\<open>WriteTo\<close> serializes the column chunk to the sink, unencrypted.\<close>

definition WriteTo ::
  "io_env \<Rightarrow> ColumnChunkMetaDataBuilder \<Rightarrow> OutputStream \<Rightarrow> OutputStream" where
  "WriteTo env b sink =
     snd (Serialize env (SerializeObject_ColumnChunk env (b_column_chunk b)) None sink)"

text \<open>
  The reader's view of a chunk (\<open>ColumnChunkMetaDataImpl\<close>): \<open>has_dictionary_page()\<close> is
  the \<open>__isset\<close> flag of the dictionary page offset.
\<close>

definition has_dictionary_page :: "format_ColumnChunk \<Rightarrow> bool" where
  "has_dictionary_page cc = md_isset_dictionary_page_offset (cc_meta_data cc)"

section \<open>column\_writer.cc: SerializedPageWriter\<close>

text \<open>
  The writer's members, \<open>sink_\<close> first. \<open>metadata_\<close> points to the builder that the
  column writer points to as well: the model keeps the one builder here, and the column
  writer reaches it through its pager. The two encryptors are objects of the page writer's
  own. \<open>pw_pages\<close> is not a member: it lists, in order, the Thrift page headers this
  writer has serialized to its sink, each with the number of bytes its serialization took
  (\<open>header_size\<close>), so that properties of the pages of a chunk can be stated.
\<close>

record SerializedPageWriter =
  pw_sink :: OutputStream
  pw_metadata :: ColumnChunkMetaDataBuilder
  pw_num_values :: int64
  pw_dictionary_page_offset :: int64
  pw_data_page_offset :: int64
  pw_total_uncompressed_size :: int64
  pw_total_compressed_size :: int64
  pw_page_ordinal :: int16
  pw_row_group_ordinal :: int16
  pw_column_ordinal :: int16
  pw_compressor :: "(buffer \<Rightarrow> buffer) option"
  pw_data_pageAAD :: buffer
  pw_data_page_headerAAD :: buffer
  pw_meta_encryptor :: "Encryptor option"
  pw_data_encryptor :: "Encryptor option"
  pw_pages :: "(format_PageHeader \<times> int64) list"

definition InitEncryption :: "io_env \<Rightarrow> SerializedPageWriter \<Rightarrow> SerializedPageWriter" where
  "InitEncryption env pw =
     (let pw1 =
            (case pw_data_encryptor pw of
               None \<Rightarrow> pw
             | Some e \<Rightarrow>
                 pw\<lparr>pw_data_pageAAD :=
                      CreateModuleAad env (enc_file_aad e) kDataPage
                        (pw_row_group_ordinal pw) (pw_column_ordinal pw) (- 1)\<rparr>)
      in (case pw_meta_encryptor pw1 of
            None \<Rightarrow> pw1
          | Some e \<Rightarrow>
              pw1\<lparr>pw_data_page_headerAAD :=
                    CreateModuleAad env (enc_file_aad e) kDataPageHeader
                      (pw_row_group_ordinal pw1) (pw_column_ordinal pw1) (- 1)\<rparr>))"

definition SerializedPageWriter_new ::
  "io_env \<Rightarrow> OutputStream \<Rightarrow> Compression \<Rightarrow> ColumnChunkMetaDataBuilder \<Rightarrow> int16 \<Rightarrow> int16 \<Rightarrow>
   Encryptor option \<Rightarrow> Encryptor option \<Rightarrow> SerializedPageWriter" where
  "SerializedPageWriter_new env sink codec metadata row_group_ordinal column_chunk_ordinal
       meta_encryptor data_encryptor =
     (let pw =
            \<lparr>pw_sink = sink, pw_metadata = metadata, pw_num_values = 0,
             pw_dictionary_page_offset = 0, pw_data_page_offset = 0,
             pw_total_uncompressed_size = 0, pw_total_compressed_size = 0,
             pw_page_ordinal = 0, pw_row_group_ordinal = row_group_ordinal,
             pw_column_ordinal = column_chunk_ordinal,
             pw_compressor = GetCodecFromArrow env codec,
             pw_data_pageAAD = [], pw_data_page_headerAAD = [],
             pw_meta_encryptor = meta_encryptor, pw_data_encryptor = data_encryptor,
             pw_pages = []\<rparr>
      in if (data_encryptor \<noteq> None \<or> meta_encryptor \<noteq> None) \<and> PARQUET_ENCRYPTION env
         then InitEncryption env pw else pw)"

text \<open>
  \<open>UpdateEncryption\<close>. Its callers test the encryptor it dereferences for null first, so
  the branch on \<open>None\<close> is never taken; there it leaves the writer as it is.
\<close>

definition UpdateEncryption ::
  "io_env \<Rightarrow> module_type \<Rightarrow> SerializedPageWriter \<Rightarrow> SerializedPageWriter" where
  "UpdateEncryption env module pw =
     (case module of
        kColumnMetaData \<Rightarrow>
          pw\<lparr>pw_meta_encryptor :=
               map_option (\<lambda>e. UpdateAad (CreateModuleAad env (enc_file_aad e) module
                  (pw_row_group_ordinal pw) (pw_column_ordinal pw) (- 1)) e)
                 (pw_meta_encryptor pw)\<rparr>
      | kDataPage \<Rightarrow>
          (let aad = QuickUpdatePageAad env (pw_data_pageAAD pw) (pw_page_ordinal pw)
           in pw\<lparr>pw_data_pageAAD := aad,
                 pw_data_encryptor := map_option (UpdateAad aad) (pw_data_encryptor pw)\<rparr>)
      | kDataPageHeader \<Rightarrow>
          (let aad = QuickUpdatePageAad env (pw_data_page_headerAAD pw) (pw_page_ordinal pw)
           in pw\<lparr>pw_data_page_headerAAD := aad,
                 pw_meta_encryptor := map_option (UpdateAad aad) (pw_meta_encryptor pw)\<rparr>)
      | kDictionaryPageHeader \<Rightarrow>
          pw\<lparr>pw_meta_encryptor :=
               map_option (\<lambda>e. UpdateAad (CreateModuleAad env (enc_file_aad e) module
                  (pw_row_group_ordinal pw) (pw_column_ordinal pw) (- 1)) e)
                 (pw_meta_encryptor pw)\<rparr>
      | kDictionaryPage \<Rightarrow>
          pw\<lparr>pw_data_encryptor :=
               map_option (\<lambda>e. UpdateAad (CreateModuleAad env (enc_file_aad e) module
                  (pw_row_group_ordinal pw) (pw_column_ordinal pw) (- 1)) e)
                 (pw_data_encryptor pw)\<rparr>)"

text \<open>
  The payload of a page as it goes to the sink: the compressed bytes, their length cut to
  an \<open>int32_t\<close>, or, with a data encryptor in an encryption build, the ciphertext of that
  many bytes and its length. \<open>Write(buffer, len)\<close> then writes the first \<open>len\<close> bytes.
\<close>

definition encrypt_page ::
  "io_env \<Rightarrow> module_type \<Rightarrow> buffer \<Rightarrow> SerializedPageWriter \<Rightarrow>
   (buffer \<times> int32) \<times> SerializedPageWriter" where
  "encrypt_page env module compressed_data pw =
     (let output_data_len = (ucast (size64 compressed_data) :: int32)
      in if PARQUET_ENCRYPTION env \<and> pw_data_encryptor pw \<noteq> None
         then (let pw1 = UpdateEncryption env module pw;
                   encrypted_data_buffer =
                     (case pw_data_encryptor pw1 of
                        None \<Rightarrow> []
                      | Some e \<Rightarrow>
                          AesEncrypt env e
                            (take (nat (sint output_data_len)) compressed_data))
               in ((encrypted_data_buffer, ucast (size64 encrypted_data_buffer)), pw1))
         else ((compressed_data, output_data_len), pw))"

definition has_compressor :: "SerializedPageWriter \<Rightarrow> bool" where
  "has_compressor pw = (pw_compressor pw \<noteq> None)"

definition Compress :: "SerializedPageWriter \<Rightarrow> buffer \<Rightarrow> buffer" where
  "Compress pw src_buffer =
     (case pw_compressor pw of None \<Rightarrow> src_buffer | Some codec \<Rightarrow> codec src_buffer)"

definition WriteDictionaryPage ::
  "io_env \<Rightarrow> DictionaryPage \<Rightarrow> SerializedPageWriter \<Rightarrow> int64 \<times> SerializedPageWriter" where
  "WriteDictionaryPage env page pw =
     (let uncompressed_size = size64 (dpage_buffer page);
          compressed_data =
            (if has_compressor pw then Compress pw (dpage_buffer page)
             else dpage_buffer page);
          dict_page_header =
            \<lparr>dict_num_values = dpage_num_values page, dict_encoding = dpage_encoding page,
             dict_is_sorted = dpage_is_sorted page\<rparr>;
          ((output_data_buffer, output_data_len), pw1) =
            encrypt_page env kDictionaryPage compressed_data pw;
          page_header =
            \<lparr>ph_type = DICTIONARY_PAGE,
             ph_uncompressed_page_size = ucast uncompressed_size,
             ph_compressed_page_size = output_data_len,
             ph_data_page_header = None,
             ph_dictionary_page_header = Some dict_page_header\<rparr>;
          start_pos = Tell (pw_sink pw1);
          pw2 = (if pw_dictionary_page_offset pw1 = 0
                 then pw1\<lparr>pw_dictionary_page_offset := start_pos\<rparr> else pw1);
          pw3 = (if PARQUET_ENCRYPTION env \<and> pw_meta_encryptor pw2 \<noteq> None
                 then UpdateEncryption env kDictionaryPageHeader pw2 else pw2);
          (header_size, sink1) =
            Serialize env (SerializeObject_PageHeader env page_header)
              (pw_meta_encryptor pw3) (pw_sink pw3);
          sink2 = Write (take (nat (sint output_data_len)) output_data_buffer) sink1;
          pw4 = pw3\<lparr>pw_sink := sink2,
                    pw_total_uncompressed_size :=
                      pw_total_uncompressed_size pw3 + (uncompressed_size + header_size),
                    pw_total_compressed_size :=
                      pw_total_compressed_size pw3 + (scast output_data_len + header_size),
                    pw_pages := pw_pages pw3 @ [(page_header, header_size)]\<rparr>;
          final_pos = Tell (pw_sink pw4)
      in (final_pos - start_pos, pw4))"

definition WriteDataPage ::
  "io_env \<Rightarrow> CompressedDataPage \<Rightarrow> SerializedPageWriter \<Rightarrow> int64 \<times> SerializedPageWriter" where
  "WriteDataPage env page pw =
     (let uncompressed_size = page_uncompressed_size page;
          compressed_data = page_buffer page;
          data_page_header =
            \<lparr>dph_num_values = page_num_values page, dph_encoding = page_encoding page,
             dph_definition_level_encoding = page_definition_level_encoding page,
             dph_repetition_level_encoding = page_repetition_level_encoding page,
             dph_statistics = ToThrift_Statistics (page_statistics page)\<rparr>;
          ((output_data_buffer, output_data_len), pw1) =
            encrypt_page env kDataPage compressed_data pw;
          page_header =
            \<lparr>ph_type = DATA_PAGE,
             ph_uncompressed_page_size = ucast uncompressed_size,
             ph_compressed_page_size = output_data_len,
             ph_data_page_header = Some data_page_header,
             ph_dictionary_page_header = None\<rparr>;
          start_pos = Tell (pw_sink pw1);
          pw2 = (if pw_data_page_offset pw1 = 0
                 then pw1\<lparr>pw_data_page_offset := start_pos\<rparr> else pw1);
          pw3 = (if PARQUET_ENCRYPTION env \<and> pw_meta_encryptor pw2 \<noteq> None
                 then UpdateEncryption env kDataPageHeader pw2 else pw2);
          (header_size, sink1) =
            Serialize env (SerializeObject_PageHeader env page_header)
              (pw_meta_encryptor pw3) (pw_sink pw3);
          sink2 = Write (take (nat (sint output_data_len)) output_data_buffer) sink1;
          pw4 = pw3\<lparr>pw_sink := sink2,
                    pw_total_uncompressed_size :=
                      pw_total_uncompressed_size pw3 + (uncompressed_size + header_size),
                    pw_total_compressed_size :=
                      pw_total_compressed_size pw3 + (scast output_data_len + header_size),
                    pw_num_values := pw_num_values pw3 + scast (page_num_values page),
                    pw_page_ordinal := pw_page_ordinal pw3 + 1,
                    pw_pages := pw_pages pw3 @ [(page_header, header_size)]\<rparr>;
          current_pos = Tell (pw_sink pw4)
      in (current_pos - start_pos, pw4))"

text \<open>\<open>SerializedPageWriter::Close\<close>: finish the metadata, then write it to the sink.\<close>

definition SerializedPageWriter_Close ::
  "io_env \<Rightarrow> bool \<Rightarrow> bool \<Rightarrow> SerializedPageWriter \<Rightarrow>
   writer_failure + SerializedPageWriter" where
  "SerializedPageWriter_Close env has_dictionary fallback pw =
     (let pw1 = (if PARQUET_ENCRYPTION env \<and> pw_meta_encryptor pw \<noteq> None
                 then UpdateEncryption env kColumnMetaData pw else pw)
      in case Finish env (pw_num_values pw1) (pw_dictionary_page_offset pw1) (- 1)
                (pw_data_page_offset pw1) (pw_total_compressed_size pw1)
                (pw_total_uncompressed_size pw1) has_dictionary fallback
                (pw_meta_encryptor pw1) (pw_metadata pw1) of
           Inl err \<Rightarrow> Inl err
         | Inr metadata \<Rightarrow>
             Inr (pw1\<lparr>pw_metadata := metadata,
                      pw_sink := WriteTo env metadata (pw_sink pw1)\<rparr>))"

section \<open>column\_writer.cc: BufferedPageWriter\<close>

text \<open>
  The buffered writer owns a \<open>SerializedPageWriter\<close> on an in-memory sink that starts at
  position 0, and the final sink. Its \<open>Close\<close> passes no encryptor to \<open>Finish\<close>.
\<close>

record BufferedPageWriter =
  bpw_final_sink :: OutputStream
  bpw_pager :: SerializedPageWriter

definition CreateOutputStream :: OutputStream where
  "CreateOutputStream = \<lparr>os_offset = 0, os_data = []\<rparr>"

definition BufferedPageWriter_new ::
  "io_env \<Rightarrow> OutputStream \<Rightarrow> Compression \<Rightarrow> ColumnChunkMetaDataBuilder \<Rightarrow> int16 \<Rightarrow> int16 \<Rightarrow>
   Encryptor option \<Rightarrow> Encryptor option \<Rightarrow> BufferedPageWriter" where
  "BufferedPageWriter_new env sink codec metadata row_group_ordinal current_column_ordinal
       meta_encryptor data_encryptor =
     \<lparr>bpw_final_sink = sink,
      bpw_pager = SerializedPageWriter_new env CreateOutputStream codec metadata
                    row_group_ordinal current_column_ordinal meta_encryptor
                    data_encryptor\<rparr>"

definition BufferedPageWriter_Close ::
  "io_env \<Rightarrow> bool \<Rightarrow> bool \<Rightarrow> BufferedPageWriter \<Rightarrow> writer_failure + BufferedPageWriter" where
  "BufferedPageWriter_Close env has_dictionary fallback bpw =
     (let final_position = Tell (bpw_final_sink bpw);
          pager = bpw_pager bpw
      in case Finish env (pw_num_values pager)
                (pw_dictionary_page_offset pager + final_position) (- 1)
                (pw_data_page_offset pager + final_position)
                (pw_total_compressed_size pager) (pw_total_uncompressed_size pager)
                has_dictionary fallback None (pw_metadata pager) of
           Inl err \<Rightarrow> Inl err
         | Inr metadata \<Rightarrow>
             (let in_memory_sink = WriteTo env metadata (pw_sink pager);
                  buffer = os_data in_memory_sink
              in Inr (bpw\<lparr>bpw_pager := pager\<lparr>pw_metadata := metadata,
                                              pw_sink := in_memory_sink\<rparr>,
                          bpw_final_sink := Write buffer (bpw_final_sink bpw)\<rparr>)))"

section \<open>column\_writer.cc: PageWriter\<close>

text \<open>The two implementations of the abstract \<open>PageWriter\<close>, and its virtual calls.\<close>

datatype PageWriter = Streaming SerializedPageWriter | Buffering BufferedPageWriter

definition PageWriter_Open ::
  "io_env \<Rightarrow> OutputStream \<Rightarrow> Compression \<Rightarrow> ColumnChunkMetaDataBuilder \<Rightarrow> int16 \<Rightarrow> int16 \<Rightarrow>
   bool \<Rightarrow> Encryptor option \<Rightarrow> Encryptor option \<Rightarrow> PageWriter" where
  "PageWriter_Open env sink codec metadata row_group_ordinal column_chunk_ordinal
       buffered_row_group meta_encryptor data_encryptor =
     (if buffered_row_group
      then Buffering (BufferedPageWriter_new env sink codec metadata row_group_ordinal
                        column_chunk_ordinal meta_encryptor data_encryptor)
      else Streaming (SerializedPageWriter_new env sink codec metadata row_group_ordinal
                        column_chunk_ordinal meta_encryptor data_encryptor))"

fun serialized :: "PageWriter \<Rightarrow> SerializedPageWriter" where
  "serialized (Streaming pw) = pw"
| "serialized (Buffering bpw) = bpw_pager bpw"

fun map_serialized ::
  "(SerializedPageWriter \<Rightarrow> SerializedPageWriter) \<Rightarrow> PageWriter \<Rightarrow> PageWriter" where
  "map_serialized f (Streaming pw) = Streaming (f pw)"
| "map_serialized f (Buffering bpw) = Buffering (bpw\<lparr>bpw_pager := f (bpw_pager bpw)\<rparr>)"

definition pager_WriteDataPage ::
  "io_env \<Rightarrow> CompressedDataPage \<Rightarrow> PageWriter \<Rightarrow> int64 \<times> PageWriter" where
  "pager_WriteDataPage env page pager =
     (let (n, pw) = WriteDataPage env page (serialized pager)
      in (n, map_serialized (\<lambda>_. pw) pager))"

definition pager_WriteDictionaryPage ::
  "io_env \<Rightarrow> DictionaryPage \<Rightarrow> PageWriter \<Rightarrow> int64 \<times> PageWriter" where
  "pager_WriteDictionaryPage env page pager =
     (let (n, pw) = WriteDictionaryPage env page (serialized pager)
      in (n, map_serialized (\<lambda>_. pw) pager))"

fun pager_Close ::
  "io_env \<Rightarrow> bool \<Rightarrow> bool \<Rightarrow> PageWriter \<Rightarrow> writer_failure + PageWriter" where
  "pager_Close env has_dictionary fallback (Streaming pw) =
     map_sum id Streaming (SerializedPageWriter_Close env has_dictionary fallback pw)"
| "pager_Close env has_dictionary fallback (Buffering bpw) =
     map_sum id Buffering (BufferedPageWriter_Close env has_dictionary fallback bpw)"

definition pager_metadata :: "PageWriter \<Rightarrow> ColumnChunkMetaDataBuilder" where
  "pager_metadata pager = pw_metadata (serialized pager)"

section \<open>column\_writer.cc: LevelEncoder\<close>

text \<open>
  The column writer encodes levels with \<open>Encoding::RLE\<close> only, and that is the case
  modelled: \<open>Init\<close> builds the \<open>RleEncoder\<close>, so \<open>Encode\<close> finds it initialised, and
  neither throws. \<open>Encode\<close> puts levels one by one, stops at the first the encoder refuses,
  flushes and records the length.
\<close>

record LevelEncoder =
  le_bit_width :: int32
  le_rle_length :: int32
  le_rle_encoder :: RleEncoder

definition LevelEncoder_MaxBufferSize :: "io_env \<Rightarrow> int16 \<Rightarrow> int32 \<Rightarrow> int32" where
  "LevelEncoder_MaxBufferSize env max_level num_buffered_values =
     (let bit_width = BitUtil_Log2 env (scast max_level + 1)
      in RleEncoder_MaxBufferSize env bit_width num_buffered_values
         + RleEncoder_MinBufferSize env bit_width)"

definition LevelEncoder_Init :: "io_env \<Rightarrow> int16 \<Rightarrow> int32 \<Rightarrow> int32 \<Rightarrow> LevelEncoder" where
  "LevelEncoder_Init env max_level num_buffered_values data_size =
     (let bit_width = BitUtil_Log2 env (scast max_level + 1)
      in \<lparr>le_bit_width = bit_width, le_rle_length = 0,
          le_rle_encoder =
            \<lparr>rle_buffer_len = data_size, rle_bit_width = bit_width, rle_values = []\<rparr>\<rparr>)"

fun put_levels :: "io_env \<Rightarrow> int16 list \<Rightarrow> RleEncoder \<Rightarrow> int32 \<times> RleEncoder" where
  "put_levels env [] r = (0, r)"
| "put_levels env (l # ls) r =
     (if \<not> RleEncoder_Put_ok env r l then (0, r)
      else (let (num_encoded, r') = put_levels env ls (r\<lparr>rle_values := rle_values r @ [l]\<rparr>)
            in (num_encoded + 1, r')))"

definition LevelEncoder_Encode ::
  "io_env \<Rightarrow> int32 \<Rightarrow> int16 list \<Rightarrow> LevelEncoder \<Rightarrow> int32 \<times> LevelEncoder" where
  "LevelEncoder_Encode env batch_size levels le =
     (let (num_encoded, r) =
            put_levels env (take (nat (sint batch_size)) levels) (le_rle_encoder le)
      in (num_encoded,
          le\<lparr>le_rle_encoder := r,
             le_rle_length := ucast (size64 (RleEncoder_buffer env r))\<rparr>))"

section \<open>column\_writer.cc: ColumnWriterImpl and TypedColumnWriterImpl\<close>

text \<open>
  The value encoders and the typed statistics are collaborators outside the sources. An
  encoder is what \<open>MakeEncoder\<close> was called with and the calls made on it since; what it
  answers is a parameter, a function of that history. \<open>'v\<close> is the value type of the
  column, \<open>'s\<close> the state of a \<open>TypedStatistics\<close> object.
\<close>

datatype 'v encoder_call = Put "'v list" | FlushValues

record 'v Encoder =
  e_type :: Type
  e_encoding :: Encoding
  e_use_dictionary :: bool
  e_calls :: "'v encoder_call list"

definition MakeEncoder :: "Type \<Rightarrow> Encoding \<Rightarrow> bool \<Rightarrow> 'v Encoder" where
  "MakeEncoder type_num encoding use_dictionary =
     \<lparr>e_type = type_num, e_encoding = encoding, e_use_dictionary = use_dictionary,
      e_calls = []\<rparr>"

record ('v, 's) typed_env =
  EstimatedDataEncodedSize :: "'v Encoder \<Rightarrow> int64"
  FlushValues_buffer :: "'v Encoder \<Rightarrow> buffer"
  dict_encoded_size :: "'v Encoder \<Rightarrow> int32"
  WriteDict :: "'v Encoder \<Rightarrow> buffer"
  num_entries :: "'v Encoder \<Rightarrow> int32"
  Statistics_Make :: "ColumnDescriptor \<Rightarrow> 's"
  Statistics_Update :: "'v list \<Rightarrow> int64 \<Rightarrow> int64 \<Rightarrow> 's \<Rightarrow> 's"
  Statistics_Merge :: "'s \<Rightarrow> 's \<Rightarrow> 's"
  Statistics_Reset :: "'s \<Rightarrow> 's"
  Statistics_Encode :: "'s \<Rightarrow> EncodedStatistics"
  ApplyStatSizeLimits :: "nat \<Rightarrow> EncodedStatistics \<Rightarrow> EncodedStatistics"
  is_set :: "EncodedStatistics \<Rightarrow> bool"

text \<open>
  The members of \<open>ColumnWriterImpl\<close> and \<open>TypedColumnWriterImpl\<close>. \<open>metadata_\<close> is
  the builder held by the pager (\<open>pager_metadata\<close>). The level sinks hold \<open>int16_t\<close>
  levels. \<open>level_encoder_\<close> is initialised anew at each use and is no field here.
  \<open>cw_values_put\<close> is not a member: it lists every value handed to the encoder's \<open>Put\<close>
  so far, in order, so that what reaches the value encoder can be stated.
\<close>

record ('v, 's) ColumnWriterImpl =
  cw_descr :: ColumnDescriptor
  cw_pager :: PageWriter
  cw_has_dictionary :: bool
  cw_encoding :: Encoding
  cw_properties :: WriterProperties
  cw_num_buffered_values :: int64
  cw_num_buffered_encoded_values :: int64
  cw_rows_written :: int32
  cw_total_bytes_written :: int64
  cw_total_compressed_bytes :: int64
  cw_closed :: bool
  cw_fallback :: bool
  cw_definition_levels_sink :: "int16 list"
  cw_repetition_levels_sink :: "int16 list"
  cw_definition_levels_rle :: buffer
  cw_repetition_levels_rle :: buffer
  cw_uncompressed_data :: buffer
  cw_compressed_data :: buffer
  cw_data_pages :: "CompressedDataPage list"
  cw_current_encoder :: "'v Encoder"
  cw_page_statistics :: "'s option"
  cw_chunk_statistics :: "'s option"
  cw_values_put :: "'v list"

definition TypedColumnWriterImpl_new ::
  "('v, 's) typed_env \<Rightarrow> PageWriter \<Rightarrow> bool \<Rightarrow> Encoding \<Rightarrow> WriterProperties \<Rightarrow>
   ('v, 's) ColumnWriterImpl" where
  "TypedColumnWriterImpl_new tenv pager use_dictionary encoding properties =
     (let descr = b_column (pager_metadata pager);
          stats = (if props_statistics_enabled properties \<and> descr_sort_order descr \<noteq> UNKNOWN
                   then Some (Statistics_Make tenv descr) else None)
      in \<lparr>cw_descr = descr, cw_pager = pager, cw_has_dictionary = use_dictionary,
          cw_encoding = encoding, cw_properties = properties,
          cw_num_buffered_values = 0, cw_num_buffered_encoded_values = 0,
          cw_rows_written = 0, cw_total_bytes_written = 0, cw_total_compressed_bytes = 0,
          cw_closed = False, cw_fallback = False,
          cw_definition_levels_sink = [], cw_repetition_levels_sink = [],
          cw_definition_levels_rle = [], cw_repetition_levels_rle = [],
          cw_uncompressed_data = [], cw_compressed_data = [], cw_data_pages = [],
          cw_current_encoder =
            MakeEncoder (descr_physical_type descr) encoding use_dictionary,
          cw_page_statistics = stats, cw_chunk_statistics = stats,
          cw_values_put = []\<rparr>)"

text \<open>\<open>ColumnWriter::Make\<close>: no dictionary for booleans.\<close>

definition ColumnWriter_Make ::
  "('v, 's) typed_env \<Rightarrow> PageWriter \<Rightarrow> WriterProperties \<Rightarrow> ('v, 's) ColumnWriterImpl" where
  "ColumnWriter_Make tenv pager properties =
     (let descr = b_column (pager_metadata pager);
          use_dictionary = (props_dictionary_enabled properties \<and>
                            descr_physical_type descr \<noteq> BOOLEAN);
          encoding = (if use_dictionary then props_dictionary_index_encoding properties
                      else props_encoding properties)
      in TypedColumnWriterImpl_new tenv pager use_dictionary encoding properties)"

definition WriteDefinitionLevels ::
  "int64 \<Rightarrow> int16 list \<Rightarrow> ('v, 's) ColumnWriterImpl \<Rightarrow> ('v, 's) ColumnWriterImpl" where
  "WriteDefinitionLevels num_levels levels st =
     st\<lparr>cw_definition_levels_sink :=
          cw_definition_levels_sink st @ take (nat (sint num_levels)) levels\<rparr>"

definition WriteRepetitionLevels ::
  "int64 \<Rightarrow> int16 list \<Rightarrow> ('v, 's) ColumnWriterImpl \<Rightarrow> ('v, 's) ColumnWriterImpl" where
  "WriteRepetitionLevels num_levels levels st =
     st\<lparr>cw_repetition_levels_sink :=
          cw_repetition_levels_sink st @ take (nat (sint num_levels)) levels\<rparr>"

text \<open>
  \<open>Resize(n, false)\<close> keeps the bytes that fit and leaves the new ones unspecified (0
  here; nothing reads them before they are written). An \<open>int32_t\<close> stored through a
  pointer cast lies in memory little-endian on the hosts the library builds for.
\<close>

definition Resize :: "int64 \<Rightarrow> buffer \<Rightarrow> buffer" where
  "Resize n buf = take (nat (sint n)) buf @ replicate (nat (sint n) - length buf) 0"

definition le32 :: "int32 \<Rightarrow> buffer" where
  "le32 w = [ucast w, ucast (drop_bit 8 w), ucast (drop_bit 16 w), ucast (drop_bit 24 w)]"

text \<open>
  \<open>RleEncodeLevels\<close>: the destination is resized, the encoder writes the levels from
  byte 4 on, the length goes into bytes 0 to 3. It returns the destination and the encoded
  size, length prefix included.
\<close>

definition RleEncodeLevels ::
  "io_env \<Rightarrow> int16 list \<Rightarrow> buffer \<Rightarrow> int16 \<Rightarrow> int64 \<Rightarrow> buffer \<times> int64" where
  "RleEncodeLevels env src_buffer dest_buffer max_level num_buffered_values =
     (let rle_size =
            scast (LevelEncoder_MaxBufferSize env max_level (ucast num_buffered_values)) + 4;
          dest1 = Resize rle_size dest_buffer;
          level_encoder =
            LevelEncoder_Init env max_level (ucast num_buffered_values)
              (ucast (size64 dest1 - 4));
          (encoded, level_encoder1) =
            LevelEncoder_Encode env (ucast num_buffered_values) src_buffer level_encoder;
          rle_bytes = RleEncoder_buffer env (le_rle_encoder level_encoder1);
          dest2 = le32 (le_rle_length level_encoder1) @ rle_bytes
                  @ drop (4 + length rle_bytes) dest1;
          encoded_size = scast (le_rle_length level_encoder1) + 4
      in (dest2, encoded_size))"

definition default_EncodedStatistics :: EncodedStatistics where
  "default_EncodedStatistics =
     \<lparr>has_min = False, has_max = False, has_null_count = False,
      has_distinct_count = False, stats_min = [], stats_max = [], null_count = 0,
      distinct_count = 0, is_signed = True\<rparr>"

definition GetPageStatistics ::
  "('v, 's) typed_env \<Rightarrow> ('v, 's) ColumnWriterImpl \<Rightarrow> EncodedStatistics" where
  "GetPageStatistics tenv st =
     (case cw_page_statistics st of
        None \<Rightarrow> default_EncodedStatistics
      | Some page_statistics_obj \<Rightarrow> Statistics_Encode tenv page_statistics_obj)"

definition GetChunkStatistics ::
  "('v, 's) typed_env \<Rightarrow> ('v, 's) ColumnWriterImpl \<Rightarrow> EncodedStatistics" where
  "GetChunkStatistics tenv st =
     (case cw_chunk_statistics st of
        None \<Rightarrow> default_EncodedStatistics
      | Some chunk_statistics_obj \<Rightarrow> Statistics_Encode tenv chunk_statistics_obj)"

text \<open>
  \<open>ResetPageStatistics\<close> tests the chunk statistics for null and then dereferences the
  page statistics; the constructor sets both or neither.
\<close>

definition ResetPageStatistics ::
  "('v, 's) typed_env \<Rightarrow> ('v, 's) ColumnWriterImpl \<Rightarrow> ('v, 's) ColumnWriterImpl" where
  "ResetPageStatistics tenv st =
     (case (cw_chunk_statistics st, cw_page_statistics st) of
        (Some chunk_statistics_obj, Some page_statistics_obj) \<Rightarrow>
          st\<lparr>cw_chunk_statistics :=
               Some (Statistics_Merge tenv chunk_statistics_obj page_statistics_obj),
             cw_page_statistics := Some (Statistics_Reset tenv page_statistics_obj)\<rparr>
      | _ \<Rightarrow> st)"

definition ColumnWriter_WriteDataPage ::
  "io_env \<Rightarrow> CompressedDataPage \<Rightarrow> ('v, 's) ColumnWriterImpl \<Rightarrow> ('v, 's) ColumnWriterImpl" where
  "ColumnWriter_WriteDataPage env page st =
     (let (n, pager) = pager_WriteDataPage env page (cw_pager st)
      in st\<lparr>cw_pager := pager, cw_total_bytes_written := cw_total_bytes_written st + n\<rparr>)"

text \<open>\<open>GetValuesBuffer\<close> is \<open>current_encoder_->FlushValues()\<close>.\<close>

definition GetValuesBuffer ::
  "('v, 's) typed_env \<Rightarrow> ('v, 's) ColumnWriterImpl \<Rightarrow> buffer \<times> ('v, 's) ColumnWriterImpl" where
  "GetValuesBuffer tenv st =
     (FlushValues_buffer tenv (cw_current_encoder st),
      st\<lparr>cw_current_encoder := (cw_current_encoder st)
           \<lparr>e_calls := e_calls (cw_current_encoder st) @ [FlushValues]\<rparr>\<rparr>)"

definition AddDataPage ::
  "io_env \<Rightarrow> ('v, 's) typed_env \<Rightarrow> ('v, 's) ColumnWriterImpl \<Rightarrow> ('v, 's) ColumnWriterImpl" where
  "AddDataPage env tenv st =
     (let (values, st1) = GetValuesBuffer tenv st;
          max_definition_level = descr_max_definition_level (cw_descr st1);
          max_repetition_level = descr_max_repetition_level (cw_descr st1);
          (definition_levels_rle, definition_levels_rle_size) =
            (if 0 < sint max_definition_level
             then RleEncodeLevels env (cw_definition_levels_sink st1)
                    (cw_definition_levels_rle st1) max_definition_level
                    (cw_num_buffered_values st1)
             else (cw_definition_levels_rle st1, 0));
          (repetition_levels_rle, repetition_levels_rle_size) =
            (if 0 < sint max_repetition_level
             then RleEncodeLevels env (cw_repetition_levels_sink st1)
                    (cw_repetition_levels_rle st1) max_repetition_level
                    (cw_num_buffered_values st1)
             else (cw_repetition_levels_rle st1, 0));
          uncompressed_size =
            definition_levels_rle_size + repetition_levels_rle_size + size64 values;
          uncompressed_data =
            take (nat (sint repetition_levels_rle_size)) repetition_levels_rle
            @ take (nat (sint definition_levels_rle_size)) definition_levels_rle
            @ values;
          page_stats =
            (ApplyStatSizeLimits tenv (props_max_statistics_size (cw_properties st1))
               (GetPageStatistics tenv st1))
            \<lparr>is_signed := (SIGNED = descr_sort_order (cw_descr st1))\<rparr>;
          st2 = (ResetPageStatistics tenv st1)
                  \<lparr>cw_definition_levels_rle := definition_levels_rle,
                   cw_repetition_levels_rle := repetition_levels_rle,
                   cw_uncompressed_data := uncompressed_data\<rparr>;
          st3 = (if has_compressor (serialized (cw_pager st2))
                 then st2\<lparr>cw_compressed_data :=
                           Compress (serialized (cw_pager st2)) uncompressed_data\<rparr>
                 else st2);
          compressed_data =
            (if has_compressor (serialized (cw_pager st2)) then cw_compressed_data st3
             else uncompressed_data);
          page =
            \<lparr>page_buffer = compressed_data,
             page_num_values = ucast (cw_num_buffered_values st3),
             page_encoding = cw_encoding st3,
             page_definition_level_encoding = RLE,
             page_repetition_level_encoding = RLE,
             page_uncompressed_size = uncompressed_size,
             page_statistics = page_stats\<rparr>;
          st4 = (if cw_has_dictionary st3 \<and> \<not> cw_fallback st3
                 then st3\<lparr>cw_total_compressed_bytes :=
                           cw_total_compressed_bytes st3
                           + (scast (ucast (size64 (page_buffer page)) :: int32)
                              + sizeof_PageHeader env),
                         cw_data_pages := cw_data_pages st3 @ [page]\<rparr>
                 else ColumnWriter_WriteDataPage env page st3)
      in st4\<lparr>cw_definition_levels_sink := [], cw_repetition_levels_sink := [],
             cw_num_buffered_values := 0, cw_num_buffered_encoded_values := 0\<rparr>)"

text \<open>The loop of \<open>FlushBufferedDataPages\<close> over \<open>data_pages_\<close>.\<close>

fun write_data_pages ::
  "io_env \<Rightarrow> CompressedDataPage list \<Rightarrow> ('v, 's) ColumnWriterImpl \<Rightarrow>
   ('v, 's) ColumnWriterImpl" where
  "write_data_pages env [] st = st"
| "write_data_pages env (page # pages) st =
     write_data_pages env pages (ColumnWriter_WriteDataPage env page st)"

definition FlushBufferedDataPages ::
  "io_env \<Rightarrow> ('v, 's) typed_env \<Rightarrow> ('v, 's) ColumnWriterImpl \<Rightarrow> ('v, 's) ColumnWriterImpl" where
  "FlushBufferedDataPages env tenv st =
     (let st1 = (if 0 < sint (cw_num_buffered_values st) then AddDataPage env tenv st
                 else st);
          st2 = write_data_pages env (cw_data_pages st1) st1
      in st2\<lparr>cw_data_pages := [], cw_total_compressed_bytes := 0\<rparr>)"

definition ColumnWriter_WriteDictionaryPage ::
  "io_env \<Rightarrow> ('v, 's) typed_env \<Rightarrow> ('v, 's) ColumnWriterImpl \<Rightarrow> ('v, 's) ColumnWriterImpl" where
  "ColumnWriter_WriteDictionaryPage env tenv st =
     (let dict_encoder = cw_current_encoder st;
          page =
            \<lparr>dpage_buffer = WriteDict tenv dict_encoder,
             dpage_num_values = num_entries tenv dict_encoder,
             dpage_encoding = props_dictionary_page_encoding (cw_properties st),
             dpage_is_sorted = False\<rparr>;
          (n, pager) = pager_WriteDictionaryPage env page (cw_pager st)
      in st\<lparr>cw_pager := pager, cw_total_bytes_written := cw_total_bytes_written st + n\<rparr>)"

definition CheckDictionarySizeLimit ::
  "io_env \<Rightarrow> ('v, 's) typed_env \<Rightarrow> ('v, 's) ColumnWriterImpl \<Rightarrow> ('v, 's) ColumnWriterImpl" where
  "CheckDictionarySizeLimit env tenv st =
     (if sint (props_dictionary_pagesize_limit (cw_properties st))
           \<le> sint (dict_encoded_size tenv (cw_current_encoder st))
      then (let st1 = ColumnWriter_WriteDictionaryPage env tenv st;
                st2 = FlushBufferedDataPages env tenv st1
            in st2\<lparr>cw_fallback := True,
                   cw_current_encoder :=
                     MakeEncoder (descr_physical_type (cw_descr st2)) PLAIN False,
                   cw_encoding := PLAIN\<rparr>)
      else st)"

definition ColumnWriter_Close ::
  "io_env \<Rightarrow> ('v, 's) typed_env \<Rightarrow> ('v, 's) ColumnWriterImpl \<Rightarrow>
   writer_failure + (int64 \<times> ('v, 's) ColumnWriterImpl)" where
  "ColumnWriter_Close env tenv st =
     (if \<not> cw_closed st
      then (let st1 = st\<lparr>cw_closed := True\<rparr>;
                st2 = (if cw_has_dictionary st1 \<and> \<not> cw_fallback st1
                       then ColumnWriter_WriteDictionaryPage env tenv st1 else st1);
                st3 = FlushBufferedDataPages env tenv st2;
                chunk_statistics =
                  (ApplyStatSizeLimits tenv (props_max_statistics_size (cw_properties st3))
                     (GetChunkStatistics tenv st3))
                  \<lparr>is_signed := (SIGNED = descr_sort_order (cw_descr st3))\<rparr>;
                st4 = (if 0 < sint (cw_rows_written st3) \<and> is_set tenv chunk_statistics
                       then st3\<lparr>cw_pager :=
                                 map_serialized
                                   (\<lambda>pw. pw\<lparr>pw_metadata :=
                                              SetStatistics chunk_statistics (pw_metadata pw)\<rparr>)
                                   (cw_pager st3)\<rparr>
                       else st3)
            in case pager_Close env (cw_has_dictionary st4) (cw_fallback st4) (cw_pager st4) of
                 Inl err \<Rightarrow> Inl err
               | Inr pager \<Rightarrow>
                   Inr (cw_total_bytes_written st4, st4\<lparr>cw_pager := pager\<rparr>))
      else Inr (cw_total_bytes_written st, st))"

text \<open>
  \<open>WriteValues\<close> hands the first \<open>num_values\<close> values to \<open>Put\<close>, the count cast to
  \<open>int\<close>.
\<close>

definition WriteValues ::
  "int64 \<Rightarrow> 'v list \<Rightarrow> ('v, 's) ColumnWriterImpl \<Rightarrow> ('v, 's) ColumnWriterImpl" where
  "WriteValues num_values vals st =
     (let put = take (nat (sint (ucast num_values :: int32))) vals
      in st\<lparr>cw_current_encoder := (cw_current_encoder st)
              \<lparr>e_calls := e_calls (cw_current_encoder st) @ [Put put]\<rparr>,
            cw_values_put := cw_values_put st @ put\<rparr>)"

text \<open>
  The two counting loops of \<open>WriteMiniBatch\<close>, over the levels \<open>0 .. num_values - 1\<close>:
  one more value to write for each definition level equal to the maximum, one more row for
  each repetition level 0.
\<close>

fun count_values_to_write :: "int16 \<Rightarrow> int16 list \<Rightarrow> int64 \<Rightarrow> int64" where
  "count_values_to_write max_definition_level [] values_to_write = values_to_write"
| "count_values_to_write max_definition_level (l # ls) values_to_write =
     count_values_to_write max_definition_level ls
       (if l = max_definition_level then values_to_write + 1 else values_to_write)"

fun count_rows :: "int16 list \<Rightarrow> int32 \<Rightarrow> int32" where
  "count_rows [] rows_written = rows_written"
| "count_rows (l # ls) rows_written =
     count_rows ls (if l = 0 then rows_written + 1 else rows_written)"

definition WriteMiniBatch ::
  "io_env \<Rightarrow> ('v, 's) typed_env \<Rightarrow> int64 \<Rightarrow> int16 list \<Rightarrow> int16 list \<Rightarrow> 'v list \<Rightarrow>
   ('v, 's) ColumnWriterImpl \<Rightarrow> int64 \<times> ('v, 's) ColumnWriterImpl" where
  "WriteMiniBatch env tenv num_values def_levels rep_levels vals st =
     (let max_definition_level = descr_max_definition_level (cw_descr st);
          max_repetition_level = descr_max_repetition_level (cw_descr st);
          values_to_write =
            (if 0 < sint max_definition_level
             then count_values_to_write max_definition_level
                    (take (nat (sint num_values)) def_levels) 0
             else num_values);
          st1 = (if 0 < sint max_definition_level
                 then WriteDefinitionLevels num_values def_levels st else st);
          st2 = (if 0 < sint max_repetition_level
                 then WriteRepetitionLevels num_values rep_levels
                        (st1\<lparr>cw_rows_written :=
                               count_rows (take (nat (sint num_values)) rep_levels)
                                 (cw_rows_written st1)\<rparr>)
                 else st1\<lparr>cw_rows_written := cw_rows_written st1 + ucast num_values\<rparr>);
          st3 = WriteValues values_to_write vals st2;
          st4 = (case cw_page_statistics st3 of
                   None \<Rightarrow> st3
                 | Some page_statistics_obj \<Rightarrow>
                     st3\<lparr>cw_page_statistics :=
                           Some (Statistics_Update tenv vals values_to_write
                                   (num_values - values_to_write) page_statistics_obj)\<rparr>);
          st5 = st4\<lparr>cw_num_buffered_values := cw_num_buffered_values st4 + num_values,
                    cw_num_buffered_encoded_values :=
                      cw_num_buffered_encoded_values st4 + values_to_write\<rparr>;
          st6 = (if sint (props_data_pagesize (cw_properties st5))
                      \<le> sint (EstimatedDataEncodedSize tenv (cw_current_encoder st5))
                 then AddDataPage env tenv st5 else st5);
          st7 = (if cw_has_dictionary st6 \<and> \<not> cw_fallback st6
                 then CheckDictionarySizeLimit env tenv st6 else st6)
      in (values_to_write, st7))"

text \<open>
  \<open>WriteBatch\<close> cuts a batch into mini-batches of \<open>write_batch_size\<close> levels and a
  remainder. The quotient and the remainder are those of C++ (\<open>sdiv\<close>, \<open>smod\<close>: towards
  zero); a \<open>write_batch_size\<close> of 0 is a division by zero in the source, and 0 here. The
  pointers into the level and value arrays are the lists from that index on.
\<close>

fun write_mini_batches ::
  "io_env \<Rightarrow> ('v, 's) typed_env \<Rightarrow> nat \<Rightarrow> int64 \<Rightarrow> int64 \<Rightarrow> int64 \<Rightarrow> int16 list \<Rightarrow>
   int16 list \<Rightarrow> 'v list \<Rightarrow> ('v, 's) ColumnWriterImpl \<Rightarrow>
   int64 \<times> ('v, 's) ColumnWriterImpl" where
  "write_mini_batches env tenv 0 round write_batch_size value_offset def_levels rep_levels
       vals st = (value_offset, st)"
| "write_mini_batches env tenv (Suc rounds) round write_batch_size value_offset def_levels
       rep_levels vals st =
     (let offset = round * write_batch_size;
          (num_values, st1) =
            WriteMiniBatch env tenv write_batch_size (drop (nat (sint offset)) def_levels)
              (drop (nat (sint offset)) rep_levels) (drop (nat (sint value_offset)) vals) st
      in write_mini_batches env tenv rounds (round + 1) write_batch_size
           (value_offset + num_values) def_levels rep_levels vals st1)"

definition WriteBatch ::
  "io_env \<Rightarrow> ('v, 's) typed_env \<Rightarrow> int64 \<Rightarrow> int16 list \<Rightarrow> int16 list \<Rightarrow> 'v list \<Rightarrow>
   ('v, 's) ColumnWriterImpl \<Rightarrow> ('v, 's) ColumnWriterImpl" where
  "WriteBatch env tenv num_values def_levels rep_levels vals st =
     (let write_batch_size = props_write_batch_size (cw_properties st);
          num_batches = (word_of_int (sint num_values sdiv sint write_batch_size) :: int32);
          num_remaining = (word_of_int (sint num_values smod sint write_batch_size) :: int64);
          (value_offset, st1) =
            write_mini_batches env tenv (nat (sint num_batches)) 0 write_batch_size 0
              def_levels rep_levels vals st;
          offset = scast num_batches * write_batch_size
      in snd (WriteMiniBatch env tenv num_remaining (drop (nat (sint offset)) def_levels)
                (drop (nat (sint offset)) rep_levels) (drop (nat (sint value_offset)) vals)
                st1))"

section \<open>file\_reader.cc: SerializedFile::ParseMetaData\<close>

text \<open>
  Modelled from the spec: the magic constants \<open>kParquetMagic\<close> and \<open>kParquetEMagic\<close>
  are defined in a header that is not among the sources; the spec gives them as \<open>PAR1\<close>
  and \<open>PARE\<close>.
\<close>

definition kParquetMagic :: buffer where
  "kParquetMagic = [0x50, 0x41, 0x52, 0x31]"

definition kParquetEMagic :: buffer where
  "kParquetEMagic = [0x50, 0x41, 0x52, 0x45]"

definition kDefaultFooterReadSize :: int64 where
  "kDefaultFooterReadSize = 64 * 1024"

definition kFooterSize :: uint32 where
  "kFooterSize = 8"

text \<open>
  One constructor for each \<open>throw\<close> of the functions modelled, in the order of the source,
  and one for what the collaborators throw.
\<close>

datatype ParquetException =
    InvalidFileSizeZero
  | SmallerThanStandardFooter
  | CorruptFooter
  | EncryptedFileNeedsEncryptionSupport
  | FileLessThanMetadataSize
  | CouldNotReadMetadataBytes
  | DecryptionPropertiesOnPlaintextFile
  | NoDecryptionProperties
  | ThrownByCollaborator string

text \<open>
  What a call comes to: it throws, it returns, or it builds a view of \<open>footer_buffer\<close>
  that lies outside the buffer (\<open>SliceBuffer\<close> checks nothing), at this offset and of this
  length, and reads it: from there on the behaviour of the C++ is undefined.
\<close>

datatype 'a outcome = Throws ParquetException | OutOfBounds int64 uint32 | Returns 'a

text \<open>
  The source is a file of bytes: \<open>GetSize\<close> is its length and \<open>ReadAt\<close> returns the
  bytes that exist in the range asked for. \<open>SafeLoadAs<uint32_t>\<close> reads four bytes
  little-endian.
\<close>

definition ReadAt :: "int64 \<Rightarrow> int64 \<Rightarrow> buffer \<Rightarrow> buffer" where
  "ReadAt position nbytes file = take (nat (sint nbytes)) (drop (nat (sint position)) file)"

definition SafeLoadAs_uint32 :: "buffer \<Rightarrow> uint32" where
  "SafeLoadAs_uint32 bytes =
     of_nat (unat (bytes ! 0) + 256 * unat (bytes ! 1) + 65536 * unat (bytes ! 2)
             + 16777216 * unat (bytes ! 3))"

text \<open>
  The Thrift deserializer, the decryption properties and everything that works on a footer
  once its bytes are found are parameters. \<open>FileMetaData_Make\<close> is
  \<open>FileMetaData::Make\<close> on the plaintext footer bytes; \<open>PlaintextFooterChecks\<close> is
  \<open>ParseMetaDataOfEncryptedFileWithPlaintextFooter\<close>; \<open>DecryptFooter\<close> is what
  \<open>ParseMetaDataOfEncryptedFileWithEncryptedFooter\<close> does with the file and the bytes of
  the crypto metadata once it has found decryption properties.
\<close>

record 'md reader_env =
  reader_PARQUET_ENCRYPTION :: bool
  FileMetaData_Make :: "buffer \<Rightarrow> ParquetException + 'md"
  is_encryption_algorithm_set :: "'md \<Rightarrow> bool"
  has_file_decryption_properties :: bool
  plaintext_files_allowed :: bool
  PlaintextFooterChecks :: "'md \<Rightarrow> buffer \<Rightarrow> ParquetException option"
  DecryptFooter :: "buffer \<Rightarrow> buffer \<Rightarrow> ParquetException + 'md"

text \<open>
  \<open>ParseUnencryptedFileMetadata\<close> and \<open>ParseMetaDataOfEncryptedFileWithEncryptedFooter\<close>
  open with the same statements, which find the bytes of the footer: the length is read
  from the four bytes before the magic; \<open>kFooterSize + metadata_len\<close> is a sum of two
  \<open>uint32_t\<close>, computed in 32 bits, and then compared with the \<open>int64_t\<close> sizes.
\<close>

definition footer_bytes :: "buffer \<Rightarrow> int64 \<Rightarrow> int64 \<Rightarrow> buffer \<Rightarrow> buffer outcome" where
  "footer_bytes footer_buffer footer_read_size file_size file =
     (let metadata_len =
            SafeLoadAs_uint32
              (take 4 (drop (nat (sint footer_read_size) - unat kFooterSize) footer_buffer));
          metadata_start = file_size - ucast kFooterSize - ucast metadata_len
      in if sint file_size < uint (kFooterSize + metadata_len)
         then Throws FileLessThanMetadataSize
         else if uint (metadata_len + kFooterSize) \<le> sint footer_read_size
         then (let offset = footer_read_size - ucast metadata_len - ucast kFooterSize
               in if 0 \<le> sint offset \<and>
                     sint offset + uint metadata_len \<le> int (length footer_buffer)
                  then Returns (take (unat metadata_len) (drop (nat (sint offset)) footer_buffer))
                  else OutOfBounds offset metadata_len)
         else (let metadata_buffer = ReadAt metadata_start (ucast metadata_len) file
               in if size64 metadata_buffer \<noteq> ucast metadata_len
                  then Throws CouldNotReadMetadataBytes
                  else Returns metadata_buffer))"

definition ParseUnencryptedFileMetadata ::
  "'md reader_env \<Rightarrow> buffer \<Rightarrow> int64 \<Rightarrow> int64 \<Rightarrow> buffer \<Rightarrow> (buffer \<times> 'md) outcome" where
  "ParseUnencryptedFileMetadata renv footer_buffer footer_read_size file_size file =
     (case footer_bytes footer_buffer footer_read_size file_size file of
        Throws e \<Rightarrow> Throws e
      | OutOfBounds offset len \<Rightarrow> OutOfBounds offset len
      | Returns metadata_buffer \<Rightarrow>
          (case FileMetaData_Make renv metadata_buffer of
             Inl e \<Rightarrow> Throws e
           | Inr file_metadata \<Rightarrow> Returns (metadata_buffer, file_metadata)))"

text \<open>
  With an encrypted footer the view of \<open>footer_buffer\<close> is only built before the
  decryption properties are tested: its first reader is \<open>FileCryptoMetaData::Make\<close>,
  after that test, so that a view outside the buffer is reached only when decryption
  properties are present.
\<close>

definition ParseMetaDataOfEncryptedFileWithEncryptedFooter ::
  "'md reader_env \<Rightarrow> buffer \<Rightarrow> int64 \<Rightarrow> int64 \<Rightarrow> buffer \<Rightarrow> 'md outcome" where
  "ParseMetaDataOfEncryptedFileWithEncryptedFooter renv footer_buffer footer_read_size
       file_size file =
     (case footer_bytes footer_buffer footer_read_size file_size file of
        Throws e \<Rightarrow> Throws e
      | OutOfBounds offset len \<Rightarrow>
          if \<not> has_file_decryption_properties renv then Throws NoDecryptionProperties
          else OutOfBounds offset len
      | Returns crypto_metadata_buffer \<Rightarrow>
          if \<not> has_file_decryption_properties renv then Throws NoDecryptionProperties
          else (case DecryptFooter renv file crypto_metadata_buffer of
                  Inl e \<Rightarrow> Throws e
                | Inr file_metadata \<Rightarrow> Returns file_metadata))"

definition ParseMetaData :: "'md reader_env \<Rightarrow> buffer \<Rightarrow> 'md outcome" where
  "ParseMetaData renv file =
     (let file_size = size64 file
      in if file_size = 0 then Throws InvalidFileSizeZero
         else if sint file_size < uint kFooterSize then Throws SmallerThanStandardFooter
         else
           (let footer_read_size =
                  (if sint file_size \<le> sint kDefaultFooterReadSize then file_size
                   else kDefaultFooterReadSize);
                footer_buffer = ReadAt (file_size - footer_read_size) footer_read_size file;
                magic = take 4 (drop (nat (sint footer_read_size) - 4) footer_buffer)
            in if size64 footer_buffer \<noteq> footer_read_size \<or>
                  (magic \<noteq> kParquetMagic \<and> magic \<noteq> kParquetEMagic)
               then Throws CorruptFooter
               else if \<not> reader_PARQUET_ENCRYPTION renv \<and> magic = kParquetEMagic
               then Throws EncryptedFileNeedsEncryptionSupport
               else if \<not> reader_PARQUET_ENCRYPTION renv
               then (case ParseUnencryptedFileMetadata renv footer_buffer footer_read_size
                            file_size file of
                       Throws e \<Rightarrow> Throws e
                     | OutOfBounds offset len \<Rightarrow> OutOfBounds offset len
                     | Returns (metadata_buffer, file_metadata) \<Rightarrow> Returns file_metadata)
               else if magic = kParquetMagic
               then (case ParseUnencryptedFileMetadata renv footer_buffer footer_read_size
                            file_size file of
                       Throws e \<Rightarrow> Throws e
                     | OutOfBounds offset len \<Rightarrow> OutOfBounds offset len
                     | Returns (metadata_buffer, file_metadata) \<Rightarrow>
                         if \<not> is_encryption_algorithm_set renv file_metadata
                         then (if has_file_decryption_properties renv \<and>
                                  \<not> plaintext_files_allowed renv
                               then Throws DecryptionPropertiesOnPlaintextFile
                               else Returns file_metadata)
                         else (case PlaintextFooterChecks renv file_metadata metadata_buffer of
                                 Some e \<Rightarrow> Throws e
                               | None \<Rightarrow> Returns file_metadata))
               else ParseMetaDataOfEncryptedFileWithEncryptedFooter renv footer_buffer
                      footer_read_size file_size file))"

section \<open>Sequences of page writes, and sums over the pages of a chunk\<close>

text \<open>
  A chunk is the sequence of pages handed to its page writer. \<open>write_pages\<close> runs such a
  sequence; the sums range over the page headers the writer has serialized.
  \<open>page_fits\<close> says that the uncompressed size of a page fits the \<open>int32_t\<close> field
  of the page header, as the format requires.
\<close>

datatype page_write = WriteDictionary DictionaryPage | WriteData CompressedDataPage

fun write_page :: "io_env \<Rightarrow> page_write \<Rightarrow> SerializedPageWriter \<Rightarrow> SerializedPageWriter" where
  "write_page env (WriteDictionary page) pw = snd (WriteDictionaryPage env page pw)"
| "write_page env (WriteData page) pw = snd (WriteDataPage env page pw)"

definition write_pages ::
  "io_env \<Rightarrow> page_write list \<Rightarrow> SerializedPageWriter \<Rightarrow> SerializedPageWriter" where
  "write_pages env ops pw = fold (write_page env) ops pw"

definition sum_uncompressed_page_size :: "(format_PageHeader \<times> int64) list \<Rightarrow> int64" where
  "sum_uncompressed_page_size pages =
     sum_list (map (\<lambda>(h, header_size). scast (ph_uncompressed_page_size h)) pages)"

definition sum_compressed_page_size :: "(format_PageHeader \<times> int64) list \<Rightarrow> int64" where
  "sum_compressed_page_size pages =
     sum_list (map (\<lambda>(h, header_size). scast (ph_compressed_page_size h)) pages)"

definition sum_header_size :: "(format_PageHeader \<times> int64) list \<Rightarrow> int64" where
  "sum_header_size pages = sum_list (map snd pages)"

fun page_fits :: "page_write \<Rightarrow> bool" where
  "page_fits (WriteDictionary page) = (length (dpage_buffer page) < 2 ^ 31)"
| "page_fits (WriteData page) =
     (- (2 ^ 31) \<le> sint (page_uncompressed_size page) \<and>
      sint (page_uncompressed_size page) < 2 ^ 31)"

definition page_totals :: "SerializedPageWriter \<Rightarrow> bool" where
  "page_totals pw =
     (pw_total_uncompressed_size pw =
        sum_uncompressed_page_size (pw_pages pw) + sum_header_size (pw_pages pw) \<and>
      pw_total_compressed_size pw =
        sum_compressed_page_size (pw_pages pw) + sum_header_size (pw_pages pw))"

text \<open>
  The same for the data pages a column writer hands to its pager.
\<close>

definition pager_write_data_pages ::
  "io_env \<Rightarrow> CompressedDataPage list \<Rightarrow> PageWriter \<Rightarrow> PageWriter" where
  "pager_write_data_pages env pages pager =
     fold (\<lambda>page pg. snd (pager_WriteDataPage env page pg)) pages pager"

section \<open>Counts of a mini-batch and the layout of a page\<close>

text \<open>
  What the claims count: the positions among the first \<open>num_levels\<close> whose definition
  level is the maximum (all positions when the maximum is 0), and those whose repetition
  level is 0 (all positions when the maximum repetition level is 0).
\<close>

definition values_to_write_count :: "int16 \<Rightarrow> int64 \<Rightarrow> int16 list \<Rightarrow> nat" where
  "values_to_write_count max_definition_level num_levels def_levels =
     (if 0 < sint max_definition_level
      then length (filter (\<lambda>l. l = max_definition_level)
                     (take (nat (sint num_levels)) def_levels))
      else nat (sint num_levels))"

definition rows_count :: "int16 \<Rightarrow> int64 \<Rightarrow> int16 list \<Rightarrow> nat" where
  "rows_count max_repetition_level num_levels rep_levels =
     (if 0 < sint max_repetition_level
      then length (filter (\<lambda>l. l = 0) (take (nat (sint num_levels)) rep_levels))
      else nat (sint num_levels))"

text \<open>
  A block of RLE bytes behind its 4-byte little-endian length, and the RLE bytes the level
  encoder produces for the first \<open>num_buffered_values\<close> levels of a sink: the encoder is
  initialised on a destination of \<open>MaxBufferSize + 4\<close> bytes, less the 4 of the prefix.
\<close>

definition framed :: "buffer \<Rightarrow> buffer" where
  "framed rle = le32 (ucast (size64 rle)) @ rle"

definition rle_of_levels :: "io_env \<Rightarrow> int16 \<Rightarrow> int64 \<Rightarrow> int16 list \<Rightarrow> buffer" where
  "rle_of_levels env max_level num_buffered_values levels =
     (let rle_size =
            (scast (LevelEncoder_MaxBufferSize env max_level (ucast num_buffered_values)) + 4
             :: int64);
          level_encoder =
            LevelEncoder_Init env max_level (ucast num_buffered_values)
              (ucast ((of_nat (nat (sint rle_size)) :: int64) - 4))
      in RleEncoder_buffer env
           (le_rle_encoder
              (snd (LevelEncoder_Encode env (ucast num_buffered_values) levels
                      level_encoder))))"

section \<open>A small concrete setting\<close>

text \<open>
  Stand-ins for the collaborators, to run the model on concrete inputs: a page header
  serializes to three bytes, nothing is compressed or encrypted, and the RLE encoder
  stores one byte per level.
\<close>

definition example_env :: io_env where
  "example_env =
     \<lparr>PARQUET_ENCRYPTION = False,
      SerializeObject_PageHeader =
        (\<lambda>h. [0x15, ucast (ph_uncompressed_page_size h), ucast (ph_compressed_page_size h)]),
      SerializeObject_ColumnMetaData = (\<lambda>md. [0x19]),
      SerializeObject_ColumnChunk = (\<lambda>cc. [0x16]),
      AesEncrypt = (\<lambda>e plaintext. plaintext),
      CreateModuleAad = (\<lambda>file_aad module rg col page. file_aad),
      QuickUpdatePageAad = (\<lambda>aad page. aad),
      GetCodecFromArrow = (\<lambda>codec. None),
      BitUtil_Log2 = (\<lambda>x. 1),
      RleEncoder_MaxBufferSize = (\<lambda>bit_width n. n + 8),
      RleEncoder_MinBufferSize = (\<lambda>bit_width. 8),
      RleEncoder_Put_ok = (\<lambda>r l. True),
      RleEncoder_buffer = (\<lambda>r. map ucast (rle_values r)),
      sizeof_PageHeader = 64\<rparr>"

definition example_properties :: WriterProperties where
  "example_properties =
     \<lparr>props_version = PARQUET_1_0, props_encoding = PLAIN,
      props_dictionary_index_encoding = PLAIN_DICTIONARY,
      props_dictionary_page_encoding = PLAIN_DICTIONARY,
      props_compression = UNCOMPRESSED, props_dictionary_enabled = True,
      props_statistics_enabled = False, props_data_pagesize = 1048576,
      props_dictionary_pagesize_limit = 1048576, props_write_batch_size = 1024,
      props_max_statistics_size = 4096, props_column_encryption_properties = None,
      props_encrypted_footer = False\<rparr>"

definition example_column :: ColumnDescriptor where
  "example_column =
     \<lparr>descr_physical_type = INT32, descr_path = [''a''],
      descr_max_definition_level = 1, descr_max_repetition_level = 1,
      descr_sort_order = SIGNED\<rparr>"

definition example_page :: "buffer \<Rightarrow> CompressedDataPage" where
  "example_page bytes =
     \<lparr>page_buffer = bytes, page_num_values = ucast (size64 bytes), page_encoding = PLAIN,
      page_definition_level_encoding = RLE, page_repetition_level_encoding = RLE,
      page_uncompressed_size = size64 bytes, page_statistics = default_EncodedStatistics\<rparr>"

definition example_pager :: "bool \<Rightarrow> PageWriter" where
  "example_pager buffered =
     PageWriter_Open example_env \<lparr>os_offset = 4, os_data = []\<rparr> UNCOMPRESSED
       (ColumnChunkMetaDataBuilder_Init example_properties example_column) 0 0 buffered
       None None"


text \<open>
  A value encoder over bytes: the data it holds are the values put since the last flush,
  one byte each; its dictionary holds the distinct values put so far. Statistics are not
  collected.
\<close>

fun buffered_values :: "'v encoder_call list \<Rightarrow> 'v list \<Rightarrow> 'v list" where
  "buffered_values [] acc = acc"
| "buffered_values (Put vs # calls) acc = buffered_values calls (acc @ vs)"
| "buffered_values (FlushValues # calls) acc = buffered_values calls []"

fun all_values :: "'v encoder_call list \<Rightarrow> 'v list" where
  "all_values [] = []"
| "all_values (Put vs # calls) = vs @ all_values calls"
| "all_values (FlushValues # calls) = all_values calls"

definition example_tenv :: "(uint8, unit) typed_env" where
  "example_tenv =
     \<lparr>EstimatedDataEncodedSize = (\<lambda>e. size64 (buffered_values (e_calls e) [])),
      FlushValues_buffer = (\<lambda>e. buffered_values (e_calls e) []),
      dict_encoded_size = (\<lambda>e. ucast (size64 (remdups (all_values (e_calls e))))),
      WriteDict = (\<lambda>e. remdups (all_values (e_calls e))),
      num_entries = (\<lambda>e. ucast (size64 (remdups (all_values (e_calls e))))),
      Statistics_Make = (\<lambda>descr. ()),
      Statistics_Update = (\<lambda>vals not_null nulls s. s),
      Statistics_Merge = (\<lambda>chunk page. chunk),
      Statistics_Reset = (\<lambda>s. s),
      Statistics_Encode = (\<lambda>s. default_EncodedStatistics),
      ApplyStatSizeLimits = (\<lambda>max_size stats. stats),
      is_set = (\<lambda>stats. has_min stats \<or> has_max stats \<or> has_null_count stats \<or>
                          has_distinct_count stats)\<rparr>"

text \<open>
  A dictionary-encoding writer on the example pager whose dictionary may hold two bytes,
  and the same writer without a dictionary.
\<close>

definition example_writer :: "bool \<Rightarrow> bool \<Rightarrow> (uint8, unit) ColumnWriterImpl" where
  "example_writer buffered use_dictionary =
     TypedColumnWriterImpl_new example_tenv (example_pager buffered) use_dictionary
       (if use_dictionary then PLAIN_DICTIONARY else PLAIN)
       (example_properties\<lparr>props_dictionary_pagesize_limit := 2, props_data_pagesize := 4\<rparr>)"

text \<open>
  A build with encryption, and a column encrypted with its own key in a file whose footer
  is encrypted: the metadata of such a column is encrypted separately. The writer of this
  column gets both encryptors, as \<open>PageWriter::Open\<close> hands them on.
\<close>

definition encrypting_env :: io_env where
  "encrypting_env = example_env\<lparr>PARQUET_ENCRYPTION := True\<rparr>"

definition encrypted_properties :: WriterProperties where
  "encrypted_properties =
     example_properties
       \<lparr>props_column_encryption_properties :=
          Some \<lparr>is_encrypted = True, is_encrypted_with_footer_key = False,
                key_metadata = [0x6B]\<rparr>,
        props_encrypted_footer := True\<rparr>"

definition encrypted_writer :: "bool \<Rightarrow> (uint8, unit) ColumnWriterImpl" where
  "encrypted_writer buffered =
     TypedColumnWriterImpl_new example_tenv
       (PageWriter_Open encrypting_env \<lparr>os_offset = 4, os_data = []\<rparr> UNCOMPRESSED
          (ColumnChunkMetaDataBuilder_Init encrypted_properties example_column) 0 0 buffered
          (Some \<lparr>enc_key = [1], enc_file_aad = [2], enc_aad = []\<rparr>)
          (Some \<lparr>enc_key = [1], enc_file_aad = [2], enc_aad = []\<rparr>))
       False PLAIN encrypted_properties"

text \<open>
  A writer that collects statistics, over a value encoder whose encoded statistics carry
  a null count.
\<close>

definition statistics_tenv :: "(uint8, unit) typed_env" where
  "statistics_tenv =
     example_tenv\<lparr>Statistics_Encode :=
                     (\<lambda>s. default_EncodedStatistics\<lparr>has_null_count := True\<rparr>)\<rparr>"

definition statistics_writer :: "bool \<Rightarrow> (uint8, unit) ColumnWriterImpl" where
  "statistics_writer buffered =
     TypedColumnWriterImpl_new statistics_tenv (example_pager buffered) False PLAIN
       (example_properties\<lparr>props_statistics_enabled := True\<rparr>)"

text \<open>
  A reader built without encryption whose footer parser accepts every buffer.
\<close>

definition example_reader :: "unit reader_env" where
  "example_reader =
     \<lparr>reader_PARQUET_ENCRYPTION = False,
      FileMetaData_Make = (\<lambda>_. Inr ()),
      is_encryption_algorithm_set = (\<lambda>_. False),
      has_file_decryption_properties = False,
      plaintext_files_allowed = True,
      PlaintextFooterChecks = (\<lambda>_ _. None),
      DecryptFooter = (\<lambda>_ _. Inr ())\<rparr>"

section \<open>Properties of the footer version and of the metadata-encryption rule\<close>

text \<open>
  C10. \<open>FileMetaData::version()\<close> has no failing branch: for every stored 32-bit value
  it returns a version, which is \<open>PARQUET_2_0\<close> exactly when the stored field is 2 and
  \<open>PARQUET_1_0\<close> for every other value (1, 0, negative, above 2).
\<close>

theorem FileMetaData_version_total:
  "(FileMetaData_version v = PARQUET_2_0) = (sint v = 2) \<and>
   (FileMetaData_version v = PARQUET_1_0) = (sint v \<noteq> 2) \<and>
   FileMetaData_version 1 = PARQUET_1_0 \<and>
   FileMetaData_version 0 = PARQUET_1_0 \<and>
   FileMetaData_version (- 1) = PARQUET_1_0 \<and>
   FileMetaData_version 3 = PARQUET_1_0"
proof -
  have two: "(v = 2) = (sint v = 2)"
  proof
    assume "v = 2" then show "sint v = 2" by simp
  next
    assume "sint v = 2"
    then have "sint v = sint (2 :: int32)" by simp
    then show "v = 2" by (rule signed_word_eqI)
  qed
  show ?thesis
    unfolding FileMetaData_version_def using two by auto
qed

text \<open>
  C9. \<open>EncryptColumnMetaData\<close> answers true exactly when the column's encryption
  properties exist and mark the column encrypted, and the footer is plaintext or the column
  is not encrypted with the footer key.
\<close>

theorem EncryptColumnMetaData_iff:
  "EncryptColumnMetaData encrypted_footer props =
     (\<exists>p. props = Some p \<and> is_encrypted p \<and>
          (\<not> encrypted_footer \<or> \<not> is_encrypted_with_footer_key p))"
  by (cases props) (auto simp: EncryptColumnMetaData_def)

theorem EncryptColumnMetaData_iff_witness:
  "EncryptColumnMetaData True
     (Some \<lparr>is_encrypted = True, is_encrypted_with_footer_key = False, key_metadata = []\<rparr>) \<and>
   \<not> EncryptColumnMetaData True
     (Some \<lparr>is_encrypted = True, is_encrypted_with_footer_key = True, key_metadata = []\<rparr>) \<and>
   EncryptColumnMetaData False
     (Some \<lparr>is_encrypted = True, is_encrypted_with_footer_key = True, key_metadata = []\<rparr>) \<and>
   \<not> EncryptColumnMetaData False None"
  using EncryptColumnMetaData_iff [of True
      "Some \<lparr>is_encrypted = True, is_encrypted_with_footer_key = False, key_metadata = []\<rparr>"]
    EncryptColumnMetaData_iff [of True
      "Some \<lparr>is_encrypted = True, is_encrypted_with_footer_key = True, key_metadata = []\<rparr>"]
    EncryptColumnMetaData_iff [of False
      "Some \<lparr>is_encrypted = True, is_encrypted_with_footer_key = True, key_metadata = []\<rparr>"]
    EncryptColumnMetaData_iff [of False None]
  by simp

section \<open>Properties of ColumnChunkMetaDataBuilder::Finish\<close>

lemmas example_defs = example_env_def example_properties_def example_column_def
  example_page_def example_pager_def

lemmas pager_defs = PageWriter_Open_def SerializedPageWriter_new_def BufferedPageWriter_new_def
  CreateOutputStream_def ColumnChunkMetaDataBuilder_Init_def pager_WriteDataPage_def
  pager_WriteDictionaryPage_def WriteDataPage_def WriteDictionaryPage_def encrypt_page_def
  Serialize_def Tell_def Write_def size64_def has_compressor_def Compress_def
  SerializedPageWriter_Close_def BufferedPageWriter_Close_def Finish_def Finish_offsets_def
  Finish_encodings_def WriteTo_def pager_metadata_def has_dictionary_page_def
  ToThrift_Statistics_def default_EncodedStatistics_def empty_Statistics_def


lemma Finish_offsets_fields:
  "cc_file_offset (Finish_offsets n d i a c u cc) = (if 0 < sint d then d + c else a + c)"
  "md_isset_dictionary_page_offset (cc_meta_data (Finish_offsets n d i a c u cc)) =
     (0 < sint d \<or> md_isset_dictionary_page_offset (cc_meta_data cc))"
  "md_dictionary_page_offset (cc_meta_data (Finish_offsets n d i a c u cc)) =
     (if 0 < sint d then d else md_dictionary_page_offset (cc_meta_data cc))"
  "md_data_page_offset (cc_meta_data (Finish_offsets n d i a c u cc)) = a"
  "md_total_compressed_size (cc_meta_data (Finish_offsets n d i a c u cc)) = c"
  "md_total_uncompressed_size (cc_meta_data (Finish_offsets n d i a c u cc)) = u"
  "md_num_values (cc_meta_data (Finish_offsets n d i a c u cc)) = n"
  "md_isset_statistics (cc_meta_data (Finish_offsets n d i a c u cc)) =
     md_isset_statistics (cc_meta_data cc)"
  by (simp_all add: Finish_offsets_def Let_def)

lemma Finish_encryption_keeps:
  assumes "Finish_encryption env props column encryptor cc = Inr cc'"
  shows "cc_file_offset cc' = cc_file_offset cc"
    and "md_isset_dictionary_page_offset (cc_meta_data cc') =
         md_isset_dictionary_page_offset (cc_meta_data cc)"
    and "md_dictionary_page_offset (cc_meta_data cc') = md_dictionary_page_offset (cc_meta_data cc)"
    and "md_data_page_offset (cc_meta_data cc') = md_data_page_offset (cc_meta_data cc)"
    and "md_total_compressed_size (cc_meta_data cc') = md_total_compressed_size (cc_meta_data cc)"
    and "md_total_uncompressed_size (cc_meta_data cc') = md_total_uncompressed_size (cc_meta_data cc)"
    and "md_isset_statistics (cc_meta_data cc') \<Longrightarrow> md_isset_statistics (cc_meta_data cc)"
  using assms
  by (auto simp: Finish_encryption_def Let_def split: option.splits if_splits)

lemma Finish_cases:
  assumes "Finish env n d i a c u hdict fb encryptor b = Inr b'"
  obtains cc' where "b' = b\<lparr>b_column_chunk := cc'\<rparr>"
    and "cc_file_offset cc' = cc_file_offset (Finish_offsets n d i a c u (b_column_chunk b))"
    and "md_isset_dictionary_page_offset (cc_meta_data cc') =
         md_isset_dictionary_page_offset (cc_meta_data (Finish_offsets n d i a c u (b_column_chunk b)))"
    and "md_dictionary_page_offset (cc_meta_data cc') =
         md_dictionary_page_offset (cc_meta_data (Finish_offsets n d i a c u (b_column_chunk b)))"
    and "md_data_page_offset (cc_meta_data cc') =
         md_data_page_offset (cc_meta_data (Finish_offsets n d i a c u (b_column_chunk b)))"
    and "md_total_compressed_size (cc_meta_data cc') =
         md_total_compressed_size (cc_meta_data (Finish_offsets n d i a c u (b_column_chunk b)))"
    and "md_total_uncompressed_size (cc_meta_data cc') =
         md_total_uncompressed_size (cc_meta_data (Finish_offsets n d i a c u (b_column_chunk b)))"
    and "md_isset_statistics (cc_meta_data cc') \<Longrightarrow>
         md_isset_statistics (cc_meta_data (b_column_chunk b))"
proof (cases "PARQUET_ENCRYPTION env")
  case False
  define cc2 where "cc2 = (Finish_offsets n d i a c u (b_column_chunk b))
      \<lparr>cc_meta_data := (cc_meta_data (Finish_offsets n d i a c u (b_column_chunk b)))
         \<lparr>md_encodings := Finish_encodings (b_properties b) hdict fb\<rparr>\<rparr>"
  from assms False have b': "b' = b\<lparr>b_column_chunk := cc2\<rparr>"
    by (auto simp: Finish_def Let_def cc2_def)
  show thesis
  proof (rule that [of cc2])
    show "b' = b\<lparr>b_column_chunk := cc2\<rparr>" by (rule b')
  qed (simp_all add: cc2_def Finish_offsets_fields)
next
  case True
  define cc2 where "cc2 = (Finish_offsets n d i a c u (b_column_chunk b))
      \<lparr>cc_meta_data := (cc_meta_data (Finish_offsets n d i a c u (b_column_chunk b)))
         \<lparr>md_encodings := Finish_encodings (b_properties b) hdict fb\<rparr>\<rparr>"
  from assms True obtain cc3 where
    enc: "Finish_encryption env (b_properties b) (b_column b) encryptor cc2 = Inr cc3"
    and b': "b' = b\<lparr>b_column_chunk := cc3\<rparr>"
    by (auto simp: Finish_def Let_def cc2_def split: sum.splits)
  show thesis
  proof (rule that [of cc3])
    show "b' = b\<lparr>b_column_chunk := cc3\<rparr>" by (rule b')
    show "md_isset_statistics (cc_meta_data (b_column_chunk b))"
      if "md_isset_statistics (cc_meta_data cc3)"
      using Finish_encryption_keeps(7) [OF enc that]
      by (simp add: cc2_def Finish_offsets_fields)
  qed (simp_all add: Finish_encryption_keeps [OF enc] cc2_def)
qed

lemma Finish_fields:
  assumes "Finish env n d i a c u hdict fb encryptor b = Inr b'"
  shows "cc_file_offset (b_column_chunk b') = (if 0 < sint d then d + c else a + c)"
    and "md_isset_dictionary_page_offset (cc_meta_data (b_column_chunk b')) =
         (0 < sint d \<or> md_isset_dictionary_page_offset (cc_meta_data (b_column_chunk b)))"
    and "md_dictionary_page_offset (cc_meta_data (b_column_chunk b')) =
         (if 0 < sint d then d else md_dictionary_page_offset (cc_meta_data (b_column_chunk b)))"
    and "md_data_page_offset (cc_meta_data (b_column_chunk b')) = a"
    and "md_total_compressed_size (cc_meta_data (b_column_chunk b')) = c"
    and "md_total_uncompressed_size (cc_meta_data (b_column_chunk b')) = u"
proof -
  from assms obtain cc' where b': "b' = b\<lparr>b_column_chunk := cc'\<rparr>"
    and eqs: "cc_file_offset cc' = cc_file_offset (Finish_offsets n d i a c u (b_column_chunk b))"
      "md_isset_dictionary_page_offset (cc_meta_data cc') =
         md_isset_dictionary_page_offset (cc_meta_data (Finish_offsets n d i a c u (b_column_chunk b)))"
      "md_dictionary_page_offset (cc_meta_data cc') =
         md_dictionary_page_offset (cc_meta_data (Finish_offsets n d i a c u (b_column_chunk b)))"
      "md_data_page_offset (cc_meta_data cc') =
         md_data_page_offset (cc_meta_data (Finish_offsets n d i a c u (b_column_chunk b)))"
      "md_total_compressed_size (cc_meta_data cc') =
         md_total_compressed_size (cc_meta_data (Finish_offsets n d i a c u (b_column_chunk b)))"
      "md_total_uncompressed_size (cc_meta_data cc') =
         md_total_uncompressed_size (cc_meta_data (Finish_offsets n d i a c u (b_column_chunk b)))"
    by (rule Finish_cases)
  have cc': "b_column_chunk b' = cc'" by (simp add: b')
  show "cc_file_offset (b_column_chunk b') = (if 0 < sint d then d + c else a + c)"
    unfolding cc' eqs by (rule Finish_offsets_fields)
  show "md_isset_dictionary_page_offset (cc_meta_data (b_column_chunk b')) =
         (0 < sint d \<or> md_isset_dictionary_page_offset (cc_meta_data (b_column_chunk b)))"
    unfolding cc' eqs by (rule Finish_offsets_fields)
  show "md_dictionary_page_offset (cc_meta_data (b_column_chunk b')) =
         (if 0 < sint d then d else md_dictionary_page_offset (cc_meta_data (b_column_chunk b)))"
    unfolding cc' eqs by (rule Finish_offsets_fields)
  show "md_data_page_offset (cc_meta_data (b_column_chunk b')) = a"
    unfolding cc' eqs by (rule Finish_offsets_fields)
  show "md_total_compressed_size (cc_meta_data (b_column_chunk b')) = c"
    unfolding cc' eqs by (rule Finish_offsets_fields)
  show "md_total_uncompressed_size (cc_meta_data (b_column_chunk b')) = u"
    unfolding cc' eqs by (rule Finish_offsets_fields)
qed

lemma Finish_encryption_total:
  "(\<exists>cc'. Finish_encryption env props column encryptor cc = Inr cc') =
   (\<not> (encryptor = None \<and>
       EncryptColumnMetaData (props_encrypted_footer props)
         (props_column_encryption_properties props)))"
  unfolding Finish_encryption_def EncryptColumnMetaData_def Let_def
  by (simp split: option.split)

lemma Finish_total:
  "(\<exists>b'. Finish env n d i a c u hdict fb encryptor b = Inr b') =
   (\<not> (PARQUET_ENCRYPTION env \<and> encryptor = None \<and>
       EncryptColumnMetaData (props_encrypted_footer (b_properties b))
         (props_column_encryption_properties (b_properties b))))"
proof (cases "PARQUET_ENCRYPTION env")
  case False
  then show ?thesis by (simp add: Finish_def Let_def)
next
  case True
  have "(\<exists>b'. Finish env n d i a c u hdict fb encryptor b = Inr b') =
      (\<exists>cc'. Finish_encryption env (b_properties b) (b_column b) encryptor
         ((Finish_offsets n d i a c u (b_column_chunk b))
      \<lparr>cc_meta_data := (cc_meta_data (Finish_offsets n d i a c u (b_column_chunk b)))
         \<lparr>md_encodings := Finish_encodings (b_properties b) hdict fb\<rparr>\<rparr>) = Inr cc')"
    using True by (auto simp: Finish_def Let_def split: sum.splits)
  then show ?thesis
    using True by (simp only: Finish_encryption_total simp_thms)
qed

lemma SerializedPageWriter_Close_metadata:
  assumes "SerializedPageWriter_Close env hdict fb pw = Inr pw'"
  shows "Finish env (pw_num_values pw) (pw_dictionary_page_offset pw) (- 1)
           (pw_data_page_offset pw) (pw_total_compressed_size pw)
           (pw_total_uncompressed_size pw) hdict fb
           (pw_meta_encryptor (if PARQUET_ENCRYPTION env \<and> pw_meta_encryptor pw \<noteq> None
                 then UpdateEncryption env kColumnMetaData pw else pw)) (pw_metadata pw)
         = Inr (pw_metadata pw')"
  using assms
  by (auto simp: SerializedPageWriter_Close_def Let_def UpdateEncryption_def
      split: sum.splits if_splits)

lemma BufferedPageWriter_Close_metadata:
  assumes "BufferedPageWriter_Close env hdict fb bpw = Inr bpw'"
  shows "Finish env (pw_num_values (bpw_pager bpw))
           (pw_dictionary_page_offset (bpw_pager bpw) + Tell (bpw_final_sink bpw)) (- 1)
           (pw_data_page_offset (bpw_pager bpw) + Tell (bpw_final_sink bpw))
           (pw_total_compressed_size (bpw_pager bpw))
           (pw_total_uncompressed_size (bpw_pager bpw)) hdict fb None
           (pw_metadata (bpw_pager bpw))
         = Inr (pw_metadata (bpw_pager bpw'))"
  using assms
  by (auto simp: BufferedPageWriter_Close_def Let_def split: sum.splits)

lemma Finish_file_offset_from_metadata:
  assumes fin: "Finish env n d i a c u hdict fb encryptor b = Inr b'"
    and fresh: "\<not> has_dictionary_page (b_column_chunk b)"
  shows "cc_file_offset (b_column_chunk b') =
     (if has_dictionary_page (b_column_chunk b')
      then md_dictionary_page_offset (cc_meta_data (b_column_chunk b'))
      else md_data_page_offset (cc_meta_data (b_column_chunk b')))
     + md_total_compressed_size (cc_meta_data (b_column_chunk b'))"
  using fresh unfolding has_dictionary_page_def Finish_fields [OF fin]
  by simp

text \<open>
  C1. \<open>Finish\<close> sets \<open>file_offset\<close> to \<open>dictionary_page_offset + compressed_size\<close>
  when the dictionary page offset it is given is positive and to
  \<open>data_page_offset + compressed_size\<close> otherwise. Hence, for every chunk closed
  through either page writer on a builder that had no dictionary page offset before, the
  \<open>file_offset\<close> in the metadata is the dictionary page offset of the metadata if the
  metadata has a dictionary page (\<open>has_dictionary_page()\<close>), else its data page offset,
  plus its total compressed size.
\<close>

theorem closed_chunk_file_offset:
  "(Finish env num_values dictionary_page_offset index_page_offset data_page_offset
      compressed_size uncompressed_size has_dictionary fallback encryptor b = Inr b' \<longrightarrow>
    cc_file_offset (b_column_chunk b') =
      (if 0 < sint dictionary_page_offset then dictionary_page_offset + compressed_size
       else data_page_offset + compressed_size)) \<and>
   (pager_Close env has_dictionary fallback pager = Inr pager' \<and>
    \<not> has_dictionary_page (b_column_chunk (pager_metadata pager)) \<longrightarrow>
    cc_file_offset (b_column_chunk (pager_metadata pager')) =
      (if has_dictionary_page (b_column_chunk (pager_metadata pager'))
       then md_dictionary_page_offset (cc_meta_data (b_column_chunk (pager_metadata pager')))
       else md_data_page_offset (cc_meta_data (b_column_chunk (pager_metadata pager'))))
      + md_total_compressed_size (cc_meta_data (b_column_chunk (pager_metadata pager'))))"
proof (intro conjI impI)
  assume "Finish env num_values dictionary_page_offset index_page_offset data_page_offset
      compressed_size uncompressed_size has_dictionary fallback encryptor b = Inr b'"
  then show "cc_file_offset (b_column_chunk b') =
      (if 0 < sint dictionary_page_offset then dictionary_page_offset + compressed_size
       else data_page_offset + compressed_size)"
    by (rule Finish_fields)
next
  assume a: "pager_Close env has_dictionary fallback pager = Inr pager' \<and>
    \<not> has_dictionary_page (b_column_chunk (pager_metadata pager))"
  show "cc_file_offset (b_column_chunk (pager_metadata pager')) =
      (if has_dictionary_page (b_column_chunk (pager_metadata pager'))
       then md_dictionary_page_offset (cc_meta_data (b_column_chunk (pager_metadata pager')))
       else md_data_page_offset (cc_meta_data (b_column_chunk (pager_metadata pager'))))
      + md_total_compressed_size (cc_meta_data (b_column_chunk (pager_metadata pager')))"
  proof (cases pager)
    case (Streaming pw)
    with a obtain pw' where p': "pager' = Streaming pw'"
      and c: "SerializedPageWriter_Close env has_dictionary fallback pw = Inr pw'"
      by (cases "SerializedPageWriter_Close env has_dictionary fallback pw") auto
    from a Streaming have "\<not> has_dictionary_page (b_column_chunk (pw_metadata pw))"
      by (simp add: pager_metadata_def)
    from Finish_file_offset_from_metadata [OF SerializedPageWriter_Close_metadata [OF c] this]
    show ?thesis by (simp add: p' pager_metadata_def)
  next
    case (Buffering bpw)
    with a obtain bpw' where p': "pager' = Buffering bpw'"
      and c: "BufferedPageWriter_Close env has_dictionary fallback bpw = Inr bpw'"
      by (cases "BufferedPageWriter_Close env has_dictionary fallback bpw") auto
    from a Buffering have "\<not> has_dictionary_page (b_column_chunk (pw_metadata (bpw_pager bpw)))"
      by (simp add: pager_metadata_def)
    from Finish_file_offset_from_metadata [OF BufferedPageWriter_Close_metadata [OF c] this]
    show ?thesis by (simp add: p' pager_metadata_def)
  qed
qed

theorem closed_chunk_file_offset_witness:
  "(\<exists>b'. Finish example_env 5 4 (- 1) 10 100 120 True False None
           (ColumnChunkMetaDataBuilder_Init example_properties example_column) = Inr b' \<and>
         cc_file_offset (b_column_chunk b') = 104) \<and>
   (\<exists>pager'. pager_Close example_env False False
        (snd (pager_WriteDataPage example_env (example_page [1, 2, 3]) (example_pager False)))
        = Inr pager' \<and>
      \<not> has_dictionary_page (b_column_chunk (pager_metadata
          (snd (pager_WriteDataPage example_env (example_page [1, 2, 3])
             (example_pager False))))) \<and>
      cc_file_offset (b_column_chunk (pager_metadata pager')) =
        (if has_dictionary_page (b_column_chunk (pager_metadata pager'))
         then md_dictionary_page_offset (cc_meta_data (b_column_chunk (pager_metadata pager')))
         else md_data_page_offset (cc_meta_data (b_column_chunk (pager_metadata pager'))))
        + md_total_compressed_size (cc_meta_data (b_column_chunk (pager_metadata pager'))))"
proof (intro conjI)
  have "\<exists>b'. Finish example_env 5 4 (- 1) 10 100 120 True False None
           (ColumnChunkMetaDataBuilder_Init example_properties example_column) = Inr b'"
    by (simp add: example_defs pager_defs Let_def)
  then obtain b' where f: "Finish example_env 5 4 (- 1) 10 100 120 True False None
           (ColumnChunkMetaDataBuilder_Init example_properties example_column) = Inr b'" ..
  from closed_chunk_file_offset [of example_env 5 4 "- 1" 10 100 120 True False None
      "ColumnChunkMetaDataBuilder_Init example_properties example_column" b'] f
  have "cc_file_offset (b_column_chunk b') = 104" by simp
  with f show "\<exists>b'. Finish example_env 5 4 (- 1) 10 100 120 True False None
           (ColumnChunkMetaDataBuilder_Init example_properties example_column) = Inr b' \<and>
         cc_file_offset (b_column_chunk b') = 104" by blast
next
  let ?P = "snd (pager_WriteDataPage example_env (example_page [1, 2, 3]) (example_pager False))"
  have "\<exists>pager'. pager_Close example_env False False ?P = Inr pager'"
    by (simp add: example_defs pager_defs Let_def)
  then obtain pager' where c: "pager_Close example_env False False ?P = Inr pager'" ..
  have fresh: "\<not> has_dictionary_page (b_column_chunk (pager_metadata ?P))"
    by (simp add: example_defs pager_defs Let_def)
  from closed_chunk_file_offset [where env = example_env and has_dictionary = False
      and fallback = False and pager = ?P and pager' = pager'] c fresh
  have "cc_file_offset (b_column_chunk (pager_metadata pager')) =
        (if has_dictionary_page (b_column_chunk (pager_metadata pager'))
         then md_dictionary_page_offset (cc_meta_data (b_column_chunk (pager_metadata pager')))
         else md_data_page_offset (cc_meta_data (b_column_chunk (pager_metadata pager'))))
        + md_total_compressed_size (cc_meta_data (b_column_chunk (pager_metadata pager')))"
    by blast
  with c fresh show "\<exists>pager'. pager_Close example_env False False ?P = Inr pager' \<and>
      \<not> has_dictionary_page (b_column_chunk (pager_metadata ?P)) \<and>
      cc_file_offset (b_column_chunk (pager_metadata pager')) =
        (if has_dictionary_page (b_column_chunk (pager_metadata pager'))
         then md_dictionary_page_offset (cc_meta_data (b_column_chunk (pager_metadata pager')))
         else md_data_page_offset (cc_meta_data (b_column_chunk (pager_metadata pager'))))
        + md_total_compressed_size (cc_meta_data (b_column_chunk (pager_metadata pager')))"
    by blast
qed


section \<open>Properties of ParseMetaData\<close>

lemmas reader_defs = ParseMetaData_def ParseUnencryptedFileMetadata_def
  ParseMetaDataOfEncryptedFileWithEncryptedFooter_def footer_bytes_def size64_def
  kFooterSize_def kDefaultFooterReadSize_def kParquetMagic_def kParquetEMagic_def
  ReadAt_def SafeLoadAs_uint32_def

text \<open>
  C2. The file of the eight bytes \<open>FF FF FF FF 50 41 52 31\<close> ends in \<open>PAR1\<close> and
  announces a footer of \<open>2^32 - 1\<close> bytes, so that footer length plus 8 exceeds the file
  size. \<open>ParseMetaData\<close> does not throw on it: the sum \<open>kFooterSize + metadata_len\<close>
  wraps to 7 in 32 bits, the test against the file size passes, and the function goes on
  to view \<open>footer_buffer\<close> at offset \<open>-(2^32 - 1)\<close> with length \<open>2^32 - 1\<close>. This holds in
  both builds and whatever the collaborators do.
\<close>

theorem ParseMetaData_footer_length_wraps:
  "ParseMetaData renv [0xFF, 0xFF, 0xFF, 0xFF, 0x50, 0x41, 0x52, 0x31] =
     OutOfBounds (- 4294967295) 4294967295"
  by (simp add: reader_defs Let_def)

theorem ParseMetaData_footer_length_wraps_witness:
  "ParseMetaData example_reader [0xFF, 0xFF, 0xFF, 0xFF, 0x50, 0x41, 0x52, 0x31] =
     OutOfBounds (- 4294967295) 4294967295"
  using ParseMetaData_footer_length_wraps [of example_reader] by simp

section \<open>Properties of the page writer\<close>

lemma sint_scast_ucast_32:
  fixes x :: int64
  shows "sint (scast (ucast x :: int32) :: int64) = signed_take_bit 31 (sint x)"
proof -
  have "sint (scast (ucast x :: int32) :: int64) = sint (ucast x :: int32)"
    by (rule sint_up_scast) (simp add: is_up)
  also have "\<dots> = signed_take_bit 31 (uint x)"
    by (simp add: signed_ucast_eq)
  also have "\<dots> = signed_take_bit 31 (take_bit 64 (sint x))"
    by (simp add: uint_sint)
  also have "\<dots> = signed_take_bit 31 (sint x)"
    by (simp add: signed_take_bit_take_bit)
  finally show ?thesis .
qed

lemma scast_ucast_fits:
  fixes x :: int64
  assumes "- (2 ^ 31) \<le> sint x" "sint x < 2 ^ 31"
  shows "(scast (ucast x :: int32) :: int64) = x"
proof (rule signed_word_eqI)
  show "sint (scast (ucast x :: int32) :: int64) = sint x"
    using assms by (simp add: sint_scast_ucast_32 signed_take_bit_int_eq_self)
qed

lemma sint_size64:
  assumes "length xs < 2 ^ 63"
  shows "sint (size64 xs) = int (length xs)"
  unfolding size64_def using assms
  by (simp add: signed_of_nat signed_take_bit_int_eq_self)

lemma UpdateEncryption_keeps [simp]:
  "pw_pages (UpdateEncryption env m pw) = pw_pages pw"
  "pw_total_uncompressed_size (UpdateEncryption env m pw) = pw_total_uncompressed_size pw"
  "pw_total_compressed_size (UpdateEncryption env m pw) = pw_total_compressed_size pw"
  "pw_sink (UpdateEncryption env m pw) = pw_sink pw"
  "pw_data_page_offset (UpdateEncryption env m pw) = pw_data_page_offset pw"
  "pw_dictionary_page_offset (UpdateEncryption env m pw) = pw_dictionary_page_offset pw"
  "pw_metadata (UpdateEncryption env m pw) = pw_metadata pw"
  "pw_num_values (UpdateEncryption env m pw) = pw_num_values pw"
  "pw_compressor (UpdateEncryption env m pw) = pw_compressor pw"
  by (cases m; simp add: UpdateEncryption_def Let_def)+

lemma encrypt_page_keeps [simp]:
  "pw_pages (snd (encrypt_page env m buf pw)) = pw_pages pw"
  "pw_total_uncompressed_size (snd (encrypt_page env m buf pw)) = pw_total_uncompressed_size pw"
  "pw_total_compressed_size (snd (encrypt_page env m buf pw)) = pw_total_compressed_size pw"
  "pw_sink (snd (encrypt_page env m buf pw)) = pw_sink pw"
  "pw_data_page_offset (snd (encrypt_page env m buf pw)) = pw_data_page_offset pw"
  "pw_dictionary_page_offset (snd (encrypt_page env m buf pw)) = pw_dictionary_page_offset pw"
  "pw_metadata (snd (encrypt_page env m buf pw)) = pw_metadata pw"
  "pw_num_values (snd (encrypt_page env m buf pw)) = pw_num_values pw"
  "pw_compressor (snd (encrypt_page env m buf pw)) = pw_compressor pw"
  by (simp_all add: encrypt_page_def Let_def)

lemma encrypt_page_result:
  assumes "encrypt_page env m buf pw = ((ob, ol), pw1)"
  shows "pw_pages pw1 = pw_pages pw"
    and "pw_total_uncompressed_size pw1 = pw_total_uncompressed_size pw"
    and "pw_total_compressed_size pw1 = pw_total_compressed_size pw"
    and "pw_sink pw1 = pw_sink pw"
    and "pw_data_page_offset pw1 = pw_data_page_offset pw"
    and "pw_dictionary_page_offset pw1 = pw_dictionary_page_offset pw"
    and "pw_metadata pw1 = pw_metadata pw"
    and "pw_num_values pw1 = pw_num_values pw"
    and "pw_compressor pw1 = pw_compressor pw"
  using encrypt_page_keeps [of env m buf pw] assms by simp_all

lemma WriteDataPage_step:
  "\<exists>h header_size.
     pw_pages (snd (WriteDataPage env page pw)) = pw_pages pw @ [(h, header_size)] \<and>
     ph_type h = DATA_PAGE \<and>
     ph_uncompressed_page_size h = ucast (page_uncompressed_size page) \<and>
     pw_total_uncompressed_size (snd (WriteDataPage env page pw)) =
       pw_total_uncompressed_size pw + (page_uncompressed_size page + header_size) \<and>
     pw_total_compressed_size (snd (WriteDataPage env page pw)) =
       pw_total_compressed_size pw + (scast (ph_compressed_page_size h) + header_size)"
proof -
  obtain ob ol pw1 where e: "encrypt_page env kDataPage (page_buffer page) pw = ((ob, ol), pw1)"
    by (metis prod.exhaust)
  note r = encrypt_page_result [OF e]
  show ?thesis
    by (simp add: WriteDataPage_def Let_def e r split: prod.splits)
qed

lemma WriteDictionaryPage_step:
  "\<exists>h header_size.
     pw_pages (snd (WriteDictionaryPage env page pw)) = pw_pages pw @ [(h, header_size)] \<and>
     ph_type h = DICTIONARY_PAGE \<and>
     ph_uncompressed_page_size h = ucast (size64 (dpage_buffer page)) \<and>
     pw_total_uncompressed_size (snd (WriteDictionaryPage env page pw)) =
       pw_total_uncompressed_size pw + (size64 (dpage_buffer page) + header_size) \<and>
     pw_total_compressed_size (snd (WriteDictionaryPage env page pw)) =
       pw_total_compressed_size pw + (scast (ph_compressed_page_size h) + header_size)"
proof -
  obtain ob ol pw1 where e: "encrypt_page env kDictionaryPage
      (if has_compressor pw then Compress pw (dpage_buffer page) else dpage_buffer page) pw
      = ((ob, ol), pw1)"
    by (metis prod.exhaust)
  note r = encrypt_page_result [OF e]
  show ?thesis
    by (simp add: WriteDictionaryPage_def Let_def e r split: prod.splits)
qed

lemmas page_sums = sum_uncompressed_page_size_def sum_compressed_page_size_def
  sum_header_size_def

lemma write_page_totals:
  assumes "page_totals pw" "page_fits op"
  shows "page_totals (write_page env op pw) \<and>
         length (pw_pages (write_page env op pw)) = Suc (length (pw_pages pw))"
proof (cases op)
  case (WriteDictionary page)
  from assms(2) WriteDictionary have len: "length (dpage_buffer page) < 2 ^ 31" by simp
  then have "length (dpage_buffer page) < 2 ^ 63"
    by (rule less_le_trans) simp
  then have s: "sint (size64 (dpage_buffer page)) = int (length (dpage_buffer page))"
    by (rule sint_size64)
  have fit: "(scast (ucast (size64 (dpage_buffer page)) :: int32) :: int64)
      = size64 (dpage_buffer page)"
    by (rule scast_ucast_fits) (use len s in simp_all)
  from WriteDictionaryPage_step [of env page pw] obtain h hs where
    "pw_pages (snd (WriteDictionaryPage env page pw)) = pw_pages pw @ [(h, hs)]"
    "ph_uncompressed_page_size h = ucast (size64 (dpage_buffer page))"
    "pw_total_uncompressed_size (snd (WriteDictionaryPage env page pw)) =
       pw_total_uncompressed_size pw + (size64 (dpage_buffer page) + hs)"
    "pw_total_compressed_size (snd (WriteDictionaryPage env page pw)) =
       pw_total_compressed_size pw + (scast (ph_compressed_page_size h) + hs)"
    by blast
  with assms(1) fit WriteDictionary show ?thesis
    by (simp add: page_totals_def page_sums)
next
  case (WriteData page)
  from assms(2) WriteData have
    fit: "(scast (ucast (page_uncompressed_size page) :: int32) :: int64)
      = page_uncompressed_size page"
    by (intro scast_ucast_fits) simp_all
  from WriteDataPage_step [of env page pw] obtain h hs where
    "pw_pages (snd (WriteDataPage env page pw)) = pw_pages pw @ [(h, hs)]"
    "ph_uncompressed_page_size h = ucast (page_uncompressed_size page)"
    "pw_total_uncompressed_size (snd (WriteDataPage env page pw)) =
       pw_total_uncompressed_size pw + (page_uncompressed_size page + hs)"
    "pw_total_compressed_size (snd (WriteDataPage env page pw)) =
       pw_total_compressed_size pw + (scast (ph_compressed_page_size h) + hs)"
    by blast
  with assms(1) fit WriteData show ?thesis
    by (simp add: page_totals_def page_sums)
qed

lemma write_pages_totals:
  assumes "page_totals pw" "\<forall>op \<in> set ops. page_fits op"
  shows "page_totals (write_pages env ops pw) \<and>
         length (pw_pages (write_pages env ops pw)) = length (pw_pages pw) + length ops"
  using assms
proof (induction ops arbitrary: pw)
  case Nil
  then show ?case by (simp add: write_pages_def)
next
  case (Cons op ops)
  from Cons.prems have "page_totals (write_page env op pw)"
    and l: "length (pw_pages (write_page env op pw)) = Suc (length (pw_pages pw))"
    using write_page_totals [of pw op env] by simp_all
  with Cons.IH [of "write_page env op pw"] Cons.prems show ?case
    by (simp add: write_pages_def)
qed

lemma SerializedPageWriter_new_totals:
  "page_totals (SerializedPageWriter_new env sink codec metadata rg col me de) \<and>
   pw_pages (SerializedPageWriter_new env sink codec metadata rg col me de) = []"
  by (simp add: SerializedPageWriter_new_def InitEncryption_def page_totals_def page_sums Let_def
      split: option.splits)


text \<open>
  C6, as amended. For every chunk whose pages fit the size fields of their headers, the
  total uncompressed size the page writer records is the sum over the pages written of
  \<open>uncompressed_page_size\<close> plus the sum of the serialized lengths of their page
  headers, and likewise the total compressed size with \<open>compressed_page_size\<close>; the
  writer has serialized one header for each page.
\<close>

theorem page_totals_with_headers:
  assumes "\<forall>op \<in> set ops. page_fits op"
  shows "pw_total_uncompressed_size
           (write_pages env ops
              (SerializedPageWriter_new env sink codec metadata rg col me de)) =
         sum_uncompressed_page_size
           (pw_pages (write_pages env ops
              (SerializedPageWriter_new env sink codec metadata rg col me de)))
         + sum_header_size
           (pw_pages (write_pages env ops
              (SerializedPageWriter_new env sink codec metadata rg col me de))) \<and>
         pw_total_compressed_size
           (write_pages env ops
              (SerializedPageWriter_new env sink codec metadata rg col me de)) =
         sum_compressed_page_size
           (pw_pages (write_pages env ops
              (SerializedPageWriter_new env sink codec metadata rg col me de)))
         + sum_header_size
           (pw_pages (write_pages env ops
              (SerializedPageWriter_new env sink codec metadata rg col me de))) \<and>
         length (pw_pages (write_pages env ops
              (SerializedPageWriter_new env sink codec metadata rg col me de))) = length ops"
proof -
  let ?pw0 = "SerializedPageWriter_new env sink codec metadata rg col me de"
  have a: "page_totals ?pw0" and b: "pw_pages ?pw0 = []"
    using SerializedPageWriter_new_totals by blast+
  from write_pages_totals [OF a assms, where env = env] b show ?thesis
    by (simp add: page_totals_def)
qed

theorem page_totals_with_headers_witness:
  "page_fits (WriteDictionary \<lparr>dpage_buffer = [9, 9], dpage_num_values = 1,
                 dpage_encoding = PLAIN, dpage_is_sorted = False\<rparr>) \<and>
   page_fits (WriteData (example_page [1, 2, 3])) \<and>
   pw_total_uncompressed_size
     (write_pages example_env
        [WriteDictionary \<lparr>dpage_buffer = [9, 9], dpage_num_values = 1,
           dpage_encoding = PLAIN, dpage_is_sorted = False\<rparr>,
         WriteData (example_page [1, 2, 3])]
        (SerializedPageWriter_new example_env \<lparr>os_offset = 4, os_data = []\<rparr> UNCOMPRESSED
           (ColumnChunkMetaDataBuilder_Init example_properties example_column) 0 0 None None))
     = 11 \<and>
   sum_uncompressed_page_size
     (pw_pages (write_pages example_env
        [WriteDictionary \<lparr>dpage_buffer = [9, 9], dpage_num_values = 1,
           dpage_encoding = PLAIN, dpage_is_sorted = False\<rparr>,
         WriteData (example_page [1, 2, 3])]
        (SerializedPageWriter_new example_env \<lparr>os_offset = 4, os_data = []\<rparr> UNCOMPRESSED
           (ColumnChunkMetaDataBuilder_Init example_properties example_column) 0 0 None None)))
     = 5 \<and>
   sum_header_size
     (pw_pages (write_pages example_env
        [WriteDictionary \<lparr>dpage_buffer = [9, 9], dpage_num_values = 1,
           dpage_encoding = PLAIN, dpage_is_sorted = False\<rparr>,
         WriteData (example_page [1, 2, 3])]
        (SerializedPageWriter_new example_env \<lparr>os_offset = 4, os_data = []\<rparr> UNCOMPRESSED
           (ColumnChunkMetaDataBuilder_Init example_properties example_column) 0 0 None None)))
     = 6"
proof -
  let ?ops = "[WriteDictionary \<lparr>dpage_buffer = [9, 9], dpage_num_values = 1,
           dpage_encoding = PLAIN, dpage_is_sorted = False\<rparr>,
         WriteData (example_page [1, 2, 3])]"
  have fits: "\<forall>op \<in> set ?ops. page_fits op"
    by (simp add: example_defs size64_def)
  have sums: "sum_uncompressed_page_size
     (pw_pages (write_pages example_env ?ops
        (SerializedPageWriter_new example_env \<lparr>os_offset = 4, os_data = []\<rparr> UNCOMPRESSED
           (ColumnChunkMetaDataBuilder_Init example_properties example_column) 0 0 None None)))
     = 5 \<and>
   sum_header_size
     (pw_pages (write_pages example_env ?ops
        (SerializedPageWriter_new example_env \<lparr>os_offset = 4, os_data = []\<rparr> UNCOMPRESSED
           (ColumnChunkMetaDataBuilder_Init example_properties example_column) 0 0 None None)))
     = 6"
    by (simp add: example_defs pager_defs page_sums write_pages_def Let_def)
  from page_totals_with_headers [OF fits, where env = example_env
      and sink = "\<lparr>os_offset = 4, os_data = []\<rparr>" and codec = UNCOMPRESSED
      and metadata = "ColumnChunkMetaDataBuilder_Init example_properties example_column"
      and rg = 0 and col = 0 and me = None and de = None] sums fits
  show ?thesis by simp
qed

text \<open>
  C6 as stated, without the headers, fails for a single data page of three bytes:
  the total is 6, the sum of \<open>uncompressed_page_size\<close> is 3.
\<close>

theorem page_totals_counterexample:
  "pw_total_uncompressed_size
     (write_pages example_env [WriteData (example_page [1, 2, 3])]
        (SerializedPageWriter_new example_env \<lparr>os_offset = 4, os_data = []\<rparr> UNCOMPRESSED
           (ColumnChunkMetaDataBuilder_Init example_properties example_column) 0 0 None None))
   \<noteq> sum_uncompressed_page_size
     (pw_pages (write_pages example_env [WriteData (example_page [1, 2, 3])]
        (SerializedPageWriter_new example_env \<lparr>os_offset = 4, os_data = []\<rparr> UNCOMPRESSED
           (ColumnChunkMetaDataBuilder_Init example_properties example_column) 0 0 None None)))"
  by (simp add: example_defs pager_defs page_sums write_pages_def Let_def)

lemma WriteDataPage_offset_first:
  "pw_data_page_offset pw = 0 \<Longrightarrow>
   pw_data_page_offset (snd (WriteDataPage env page pw)) = Tell (pw_sink pw)"
proof -
  assume z: "pw_data_page_offset pw = 0"
  obtain ob ol pw1 where e: "encrypt_page env kDataPage (page_buffer page) pw = ((ob, ol), pw1)"
    by (metis prod.exhaust)
  note r = encrypt_page_result [OF e]
  show ?thesis
    by (simp add: WriteDataPage_def Let_def e r z split: prod.splits)
qed

lemma WriteDataPage_offset_kept:
  "pw_data_page_offset pw \<noteq> 0 \<Longrightarrow>
   pw_data_page_offset (snd (WriteDataPage env page pw)) = pw_data_page_offset pw"
proof -
  assume z: "pw_data_page_offset pw \<noteq> 0"
  obtain ob ol pw1 where e: "encrypt_page env kDataPage (page_buffer page) pw = ((ob, ol), pw1)"
    by (metis prod.exhaust)
  note r = encrypt_page_result [OF e]
  show ?thesis
    by (simp add: WriteDataPage_def Let_def e r z split: prod.splits)
qed

lemma WriteDataPage_sink_position:
  "Tell (pw_sink (snd (WriteDataPage env page pw))) =
   Tell (pw_sink pw) + fst (WriteDataPage env page pw)"
proof -
  obtain ob ol pw1 where e: "encrypt_page env kDataPage (page_buffer page) pw = ((ob, ol), pw1)"
    by (metis prod.exhaust)
  note r = encrypt_page_result [OF e]
  show ?thesis
    by (simp add: WriteDataPage_def Let_def e r split: prod.splits)
qed

lemma WriteDataPage_second_call_at_zero:
  assumes "pw_data_page_offset pw = 0" "Tell (pw_sink pw) = 0"
  shows "pw_data_page_offset (snd (WriteDataPage env page2 (snd (WriteDataPage env page1 pw))))
         = fst (WriteDataPage env page1 pw)"
proof -
  have "pw_data_page_offset (snd (WriteDataPage env page1 pw)) = 0"
    using WriteDataPage_offset_first [OF assms(1), of env page1] assms(2) by simp
  from WriteDataPage_offset_first [OF this, of env page2]
  show ?thesis
    by (simp add: WriteDataPage_sink_position assms(2))
qed

text \<open>
  C8. The in-memory sink of a buffered page writer starts at position 0. The first data
  page is written at position 0 and leaves \<open>data_page_offset\<close> at 0, which the second
  \<open>WriteDataPage\<close> takes for "not set yet": it stores its own start, 6, the position of
  the second page.
\<close>

theorem WriteDataPage_offset_moves:
  "Tell (pw_sink (serialized (example_pager True))) = 0 \<and>
   pw_data_page_offset
     (snd (WriteDataPage example_env (example_page [1, 2, 3])
        (serialized (example_pager True)))) = 0 \<and>
   pw_data_page_offset
     (snd (WriteDataPage example_env (example_page [7])
        (snd (WriteDataPage example_env (example_page [1, 2, 3])
           (serialized (example_pager True)))))) = 6"
  by (simp add: example_defs pager_defs Let_def)


section \<open>The column writer: pages and counts\<close>

lemmas writer_defs = example_writer_def example_tenv_def TypedColumnWriterImpl_new_def
  MakeEncoder_def WriteMiniBatch_def WriteDefinitionLevels_def WriteRepetitionLevels_def
  WriteValues_def AddDataPage_def GetValuesBuffer_def RleEncodeLevels_def
  LevelEncoder_MaxBufferSize_def LevelEncoder_Init_def LevelEncoder_Encode_def Resize_def
  le32_def GetPageStatistics_def GetChunkStatistics_def ResetPageStatistics_def
  ColumnWriter_WriteDataPage_def FlushBufferedDataPages_def
  ColumnWriter_WriteDictionaryPage_def CheckDictionarySizeLimit_def ColumnWriter_Close_def
  SetStatistics_def

lemma ColumnWriter_WriteDataPage_keeps [simp]:
  "cw_uncompressed_data (ColumnWriter_WriteDataPage env page st) = cw_uncompressed_data st"
  "cw_fallback (ColumnWriter_WriteDataPage env page st) = cw_fallback st"
  "cw_has_dictionary (ColumnWriter_WriteDataPage env page st) = cw_has_dictionary st"
  "cw_data_pages (ColumnWriter_WriteDataPage env page st) = cw_data_pages st"
  "cw_encoding (ColumnWriter_WriteDataPage env page st) = cw_encoding st"
  "cw_current_encoder (ColumnWriter_WriteDataPage env page st) = cw_current_encoder st"
  "cw_rows_written (ColumnWriter_WriteDataPage env page st) = cw_rows_written st"
  "cw_values_put (ColumnWriter_WriteDataPage env page st) = cw_values_put st"
  "cw_closed (ColumnWriter_WriteDataPage env page st) = cw_closed st"
  "cw_descr (ColumnWriter_WriteDataPage env page st) = cw_descr st"
  "cw_properties (ColumnWriter_WriteDataPage env page st) = cw_properties st"
  "cw_num_buffered_values (ColumnWriter_WriteDataPage env page st) = cw_num_buffered_values st"
  "cw_chunk_statistics (ColumnWriter_WriteDataPage env page st) = cw_chunk_statistics st"
  "cw_page_statistics (ColumnWriter_WriteDataPage env page st) = cw_page_statistics st"
  by (simp_all add: ColumnWriter_WriteDataPage_def Let_def split: prod.splits)

lemma ResetPageStatistics_keeps [simp]:
  "cw_uncompressed_data (ResetPageStatistics tenv st) = cw_uncompressed_data st"
  "cw_fallback (ResetPageStatistics tenv st) = cw_fallback st"
  "cw_has_dictionary (ResetPageStatistics tenv st) = cw_has_dictionary st"
  "cw_data_pages (ResetPageStatistics tenv st) = cw_data_pages st"
  "cw_encoding (ResetPageStatistics tenv st) = cw_encoding st"
  "cw_current_encoder (ResetPageStatistics tenv st) = cw_current_encoder st"
  "cw_rows_written (ResetPageStatistics tenv st) = cw_rows_written st"
  "cw_values_put (ResetPageStatistics tenv st) = cw_values_put st"
  "cw_closed (ResetPageStatistics tenv st) = cw_closed st"
  "cw_descr (ResetPageStatistics tenv st) = cw_descr st"
  "cw_properties (ResetPageStatistics tenv st) = cw_properties st"
  "cw_pager (ResetPageStatistics tenv st) = cw_pager st"
  "cw_num_buffered_values (ResetPageStatistics tenv st) = cw_num_buffered_values st"
  "cw_total_bytes_written (ResetPageStatistics tenv st) = cw_total_bytes_written st"
  "cw_total_compressed_bytes (ResetPageStatistics tenv st) = cw_total_compressed_bytes st"
  by (simp_all add: ResetPageStatistics_def split: option.splits)

lemma AddDataPage_cases:
  fixes st :: "('v, 's) ColumnWriterImpl"
  obtains page and st3 :: "('v, 's) ColumnWriterImpl" where
    "AddDataPage env tenv st =
       (if cw_has_dictionary st \<and> \<not> cw_fallback st
        then st3\<lparr>cw_total_compressed_bytes :=
                   cw_total_compressed_bytes st3
                   + (scast (ucast (size64 (page_buffer page)) :: int32)
                      + sizeof_PageHeader env),
                 cw_data_pages := cw_data_pages st @ [page]\<rparr>
        else ColumnWriter_WriteDataPage env page st3)
       \<lparr>cw_definition_levels_sink := [], cw_repetition_levels_sink := [],
        cw_num_buffered_values := 0, cw_num_buffered_encoded_values := 0\<rparr>"
    and "cw_pager st3 = cw_pager st"
    and "cw_fallback st3 = cw_fallback st"
    and "cw_has_dictionary st3 = cw_has_dictionary st"
    and "cw_encoding st3 = cw_encoding st"
    and "cw_rows_written st3 = cw_rows_written st"
    and "cw_values_put st3 = cw_values_put st"
    and "cw_closed st3 = cw_closed st"
    and "cw_descr st3 = cw_descr st"
    and "cw_properties st3 = cw_properties st"
    and "cw_data_pages st3 = cw_data_pages st"
    and "cw_total_bytes_written st3 = cw_total_bytes_written st"
    and "page_encoding page = cw_encoding st"
    and "page_num_values page = ucast (cw_num_buffered_values st)"
    and "e_encoding (cw_current_encoder st3) = e_encoding (cw_current_encoder st)"
    and "e_use_dictionary (cw_current_encoder st3) = e_use_dictionary (cw_current_encoder st)"
proof -
  define vbuf where "vbuf = fst (GetValuesBuffer tenv st)"
  define st1 where "st1 = snd (GetValuesBuffer tenv st)"
  define D where "D = descr_max_definition_level (cw_descr st1)"
  define R where "R = descr_max_repetition_level (cw_descr st1)"
  define dl where "dl = (if 0 < sint D
             then RleEncodeLevels env (cw_definition_levels_sink st1)
                    (cw_definition_levels_rle st1) D (cw_num_buffered_values st1)
             else (cw_definition_levels_rle st1, 0))"
  define rl where "rl = (if 0 < sint R
             then RleEncodeLevels env (cw_repetition_levels_sink st1)
                    (cw_repetition_levels_rle st1) R (cw_num_buffered_values st1)
             else (cw_repetition_levels_rle st1, 0))"
  define uncompressed_size where "uncompressed_size = snd dl + snd rl + size64 vbuf"
  define uncompressed_data where "uncompressed_data =
            take (nat (sint (snd rl))) (fst rl) @ take (nat (sint (snd dl))) (fst dl) @ vbuf"
  define page_stats where "page_stats =
            (ApplyStatSizeLimits tenv (props_max_statistics_size (cw_properties st1))
               (GetPageStatistics tenv st1))
            \<lparr>is_signed := (SIGNED = descr_sort_order (cw_descr st1))\<rparr>"
  define st2 where "st2 = (ResetPageStatistics tenv st1)
                  \<lparr>cw_definition_levels_rle := fst dl,
                   cw_repetition_levels_rle := fst rl,
                   cw_uncompressed_data := uncompressed_data\<rparr>"
  define st3 where "st3 = (if has_compressor (serialized (cw_pager st2))
                 then st2\<lparr>cw_compressed_data :=
                           Compress (serialized (cw_pager st2)) uncompressed_data\<rparr>
                 else st2)"
  define compressed_data where "compressed_data =
            (if has_compressor (serialized (cw_pager st2)) then cw_compressed_data st3
             else uncompressed_data)"
  define page where "page =
            \<lparr>page_buffer = compressed_data,
             page_num_values = ucast (cw_num_buffered_values st3),
             page_encoding = cw_encoding st3,
             page_definition_level_encoding = RLE,
             page_repetition_level_encoding = RLE,
             page_uncompressed_size = uncompressed_size,
             page_statistics = page_stats\<rparr>"
  have A: "AddDataPage env tenv st =
       (if cw_has_dictionary st3 \<and> \<not> cw_fallback st3
        then st3\<lparr>cw_total_compressed_bytes :=
                   cw_total_compressed_bytes st3
                   + (scast (ucast (size64 (page_buffer page)) :: int32)
                      + sizeof_PageHeader env),
                 cw_data_pages := cw_data_pages st3 @ [page]\<rparr>
        else ColumnWriter_WriteDataPage env page st3)
       \<lparr>cw_definition_levels_sink := [], cw_repetition_levels_sink := [],
        cw_num_buffered_values := 0, cw_num_buffered_encoded_values := 0\<rparr>"
    unfolding AddDataPage_def Let_def split_beta page_def compressed_data_def st3_def st2_def
      page_stats_def uncompressed_data_def uncompressed_size_def rl_def dl_def R_def D_def
      st1_def vbuf_def ..
  have s1: "cw_pager st1 = cw_pager st" "cw_fallback st1 = cw_fallback st"
    "cw_has_dictionary st1 = cw_has_dictionary st" "cw_encoding st1 = cw_encoding st"
    "cw_rows_written st1 = cw_rows_written st" "cw_values_put st1 = cw_values_put st"
    "cw_closed st1 = cw_closed st" "cw_descr st1 = cw_descr st"
    "cw_properties st1 = cw_properties st" "cw_data_pages st1 = cw_data_pages st"
    "cw_total_bytes_written st1 = cw_total_bytes_written st"
    "cw_num_buffered_values st1 = cw_num_buffered_values st"
    "e_encoding (cw_current_encoder st1) = e_encoding (cw_current_encoder st)"
    "e_use_dictionary (cw_current_encoder st1) = e_use_dictionary (cw_current_encoder st)"
    by (simp_all add: st1_def GetValuesBuffer_def)
  have s2: "cw_pager st2 = cw_pager st" "cw_fallback st2 = cw_fallback st"
    "cw_has_dictionary st2 = cw_has_dictionary st" "cw_encoding st2 = cw_encoding st"
    "cw_rows_written st2 = cw_rows_written st" "cw_values_put st2 = cw_values_put st"
    "cw_closed st2 = cw_closed st" "cw_descr st2 = cw_descr st"
    "cw_properties st2 = cw_properties st" "cw_data_pages st2 = cw_data_pages st"
    "cw_total_bytes_written st2 = cw_total_bytes_written st"
    "cw_num_buffered_values st2 = cw_num_buffered_values st"
    "e_encoding (cw_current_encoder st2) = e_encoding (cw_current_encoder st)"
    "e_use_dictionary (cw_current_encoder st2) = e_use_dictionary (cw_current_encoder st)"
    by (simp_all add: st2_def s1)
  have s3: "cw_pager st3 = cw_pager st" "cw_fallback st3 = cw_fallback st"
    "cw_has_dictionary st3 = cw_has_dictionary st" "cw_encoding st3 = cw_encoding st"
    "cw_rows_written st3 = cw_rows_written st" "cw_values_put st3 = cw_values_put st"
    "cw_closed st3 = cw_closed st" "cw_descr st3 = cw_descr st"
    "cw_properties st3 = cw_properties st" "cw_data_pages st3 = cw_data_pages st"
    "cw_total_bytes_written st3 = cw_total_bytes_written st"
    "cw_num_buffered_values st3 = cw_num_buffered_values st"
    "e_encoding (cw_current_encoder st3) = e_encoding (cw_current_encoder st)"
    "e_use_dictionary (cw_current_encoder st3) = e_use_dictionary (cw_current_encoder st)"
    by (simp_all add: st3_def s2)
  show thesis
  proof (rule that [of page st3])
    show "AddDataPage env tenv st =
       (if cw_has_dictionary st \<and> \<not> cw_fallback st
        then st3\<lparr>cw_total_compressed_bytes :=
                   cw_total_compressed_bytes st3
                   + (scast (ucast (size64 (page_buffer page)) :: int32)
                      + sizeof_PageHeader env),
                 cw_data_pages := cw_data_pages st @ [page]\<rparr>
        else ColumnWriter_WriteDataPage env page st3)
       \<lparr>cw_definition_levels_sink := [], cw_repetition_levels_sink := [],
        cw_num_buffered_values := 0, cw_num_buffered_encoded_values := 0\<rparr>"
      unfolding A s3 ..
  qed (simp_all add: s3 page_def)
qed

lemma AddDataPage_keeps [simp]:
  "cw_fallback (AddDataPage env tenv st) = cw_fallback st"
  "cw_has_dictionary (AddDataPage env tenv st) = cw_has_dictionary st"
  "cw_encoding (AddDataPage env tenv st) = cw_encoding st"
  "cw_rows_written (AddDataPage env tenv st) = cw_rows_written st"
  "cw_values_put (AddDataPage env tenv st) = cw_values_put st"
  "cw_closed (AddDataPage env tenv st) = cw_closed st"
  "cw_descr (AddDataPage env tenv st) = cw_descr st"
  "cw_properties (AddDataPage env tenv st) = cw_properties st"
  by (rule AddDataPage_cases [of env tenv st]; simp)+

lemma write_data_pages_keeps [simp]:
  "cw_fallback (write_data_pages env pages st) = cw_fallback st"
  "cw_has_dictionary (write_data_pages env pages st) = cw_has_dictionary st"
  "cw_encoding (write_data_pages env pages st) = cw_encoding st"
  "cw_rows_written (write_data_pages env pages st) = cw_rows_written st"
  "cw_values_put (write_data_pages env pages st) = cw_values_put st"
  "cw_closed (write_data_pages env pages st) = cw_closed st"
  "cw_descr (write_data_pages env pages st) = cw_descr st"
  "cw_properties (write_data_pages env pages st) = cw_properties st"
  "cw_current_encoder (write_data_pages env pages st) = cw_current_encoder st"
  "cw_data_pages (write_data_pages env pages st) = cw_data_pages st"
  "cw_chunk_statistics (write_data_pages env pages st) = cw_chunk_statistics st"
  by (induction pages arbitrary: st; simp)+

lemma FlushBufferedDataPages_keeps [simp]:
  "cw_fallback (FlushBufferedDataPages env tenv st) = cw_fallback st"
  "cw_has_dictionary (FlushBufferedDataPages env tenv st) = cw_has_dictionary st"
  "cw_encoding (FlushBufferedDataPages env tenv st) = cw_encoding st"
  "cw_rows_written (FlushBufferedDataPages env tenv st) = cw_rows_written st"
  "cw_values_put (FlushBufferedDataPages env tenv st) = cw_values_put st"
  "cw_closed (FlushBufferedDataPages env tenv st) = cw_closed st"
  "cw_descr (FlushBufferedDataPages env tenv st) = cw_descr st"
  "cw_properties (FlushBufferedDataPages env tenv st) = cw_properties st"
  "cw_data_pages (FlushBufferedDataPages env tenv st) = []"
  by (simp_all add: FlushBufferedDataPages_def Let_def)

lemma ColumnWriter_WriteDictionaryPage_keeps [simp]:
  "cw_fallback (ColumnWriter_WriteDictionaryPage env tenv st) = cw_fallback st"
  "cw_has_dictionary (ColumnWriter_WriteDictionaryPage env tenv st) = cw_has_dictionary st"
  "cw_encoding (ColumnWriter_WriteDictionaryPage env tenv st) = cw_encoding st"
  "cw_rows_written (ColumnWriter_WriteDictionaryPage env tenv st) = cw_rows_written st"
  "cw_values_put (ColumnWriter_WriteDictionaryPage env tenv st) = cw_values_put st"
  "cw_closed (ColumnWriter_WriteDictionaryPage env tenv st) = cw_closed st"
  "cw_descr (ColumnWriter_WriteDictionaryPage env tenv st) = cw_descr st"
  "cw_properties (ColumnWriter_WriteDictionaryPage env tenv st) = cw_properties st"
  "cw_data_pages (ColumnWriter_WriteDictionaryPage env tenv st) = cw_data_pages st"
  "cw_current_encoder (ColumnWriter_WriteDictionaryPage env tenv st) = cw_current_encoder st"
  "cw_num_buffered_values (ColumnWriter_WriteDictionaryPage env tenv st) =
     cw_num_buffered_values st"
  "cw_chunk_statistics (ColumnWriter_WriteDictionaryPage env tenv st) = cw_chunk_statistics st"
  "cw_page_statistics (ColumnWriter_WriteDictionaryPage env tenv st) = cw_page_statistics st"
  by (simp_all add: ColumnWriter_WriteDictionaryPage_def Let_def split: prod.splits)

lemma CheckDictionarySizeLimit_keeps [simp]:
  "cw_rows_written (CheckDictionarySizeLimit env tenv st) = cw_rows_written st"
  "cw_values_put (CheckDictionarySizeLimit env tenv st) = cw_values_put st"
  "cw_closed (CheckDictionarySizeLimit env tenv st) = cw_closed st"
  "cw_descr (CheckDictionarySizeLimit env tenv st) = cw_descr st"
  "cw_properties (CheckDictionarySizeLimit env tenv st) = cw_properties st"
  "cw_has_dictionary (CheckDictionarySizeLimit env tenv st) = cw_has_dictionary st"
  by (simp_all add: CheckDictionarySizeLimit_def Let_def)

lemma count_values_to_write_eq:
  "count_values_to_write D ls acc = acc + of_nat (length (filter (\<lambda>l. l = D) ls))"
  by (induction ls arbitrary: acc) simp_all

lemma count_rows_eq:
  "count_rows ls acc = acc + of_nat (length (filter (\<lambda>l. l = 0) ls))"
  by (induction ls arbitrary: acc) simp_all


lemma length_Resize: "length (Resize n buf) = nat (sint n)"
  by (simp add: Resize_def)

lemma length_le32: "length (le32 w) = 4"
  by (simp add: le32_def)

lemma LevelEncoder_Encode_length:
  "le_rle_length (snd (LevelEncoder_Encode env n levels le)) =
   ucast (size64 (RleEncoder_buffer env (le_rle_encoder (snd (LevelEncoder_Encode env n levels le)))))"
  by (simp add: LevelEncoder_Encode_def Let_def split: prod.splits)

lemma sint_ucast_size64:
  assumes "length xs < 2 ^ 31"
  shows "sint (ucast (size64 xs) :: int32) = int (length xs)"
proof -
  have "sint (ucast (size64 xs) :: int32) = signed_take_bit 31 (uint (size64 xs))"
    by (simp add: signed_ucast_eq)
  also have "uint (size64 xs) = int (length xs)"
    using assms by (simp add: size64_def unsigned_of_nat take_bit_nat_eq_self)
  also have "signed_take_bit 31 (int (length xs)) = int (length xs)"
    using assms by (simp add: signed_take_bit_int_eq_self)
  finally show ?thesis .
qed

lemma RleEncodeLevels_frame:
  assumes "length (rle_of_levels env max_level n src) < 2 ^ 31 - 4"
  shows "take (nat (sint (snd (RleEncodeLevels env src dest max_level n))))
           (fst (RleEncodeLevels env src dest max_level n))
         = framed (rle_of_levels env max_level n src)"
proof -
  define rle where "rle = rle_of_levels env max_level n src"
  obtain enc le1 where e: "LevelEncoder_Encode env (ucast n) src
      (LevelEncoder_Init env max_level (ucast n)
         (ucast (size64 (Resize (scast (LevelEncoder_MaxBufferSize env max_level (ucast n)) + 4)
            dest) - 4))) = (enc, le1)"
    by (metis prod.exhaust)
  have sz: "size64 (Resize (scast (LevelEncoder_MaxBufferSize env max_level (ucast n)) + 4) dest)
      = of_nat (nat (sint (scast (LevelEncoder_MaxBufferSize env max_level (ucast n)) + 4 :: int64)))"
    by (simp add: size64_def length_Resize)
  have rle_eq: "RleEncoder_buffer env (le_rle_encoder le1) = rle"
    using e unfolding rle_def rle_of_levels_def Let_def sz by simp
  have len: "le_rle_length le1 = ucast (size64 rle)"
    using LevelEncoder_Encode_length [of env "ucast n" src
        "LevelEncoder_Init env max_level (ucast n)
         (ucast (size64 (Resize (scast (LevelEncoder_MaxBufferSize env max_level (ucast n)) + 4)
            dest) - 4))"] e rle_eq
    by simp
  from assms have l31: "length rle < 2 ^ 31" and l4: "int (length rle) + 4 < 2 ^ 31"
    by (simp_all add: rle_def)
  have s32: "sint (ucast (size64 rle) :: int32) = int (length rle)"
    by (rule sint_ucast_size64 [OF l31])
  have "sint (scast (ucast (size64 rle) :: int32) :: int64) = int (length rle)"
    using s32 by (simp add: sint_up_scast is_up)
  then have "sint ((scast (ucast (size64 rle) :: int32) :: int64) + 4) = int (length rle) + 4"
    using l4 by (simp add: sint_word_ariths signed_take_bit_int_eq_self)
  then have n: "nat (sint ((scast (ucast (size64 rle) :: int32) :: int64) + 4)) = 4 + length rle"
    by simp
  show ?thesis
    unfolding rle_def [symmetric]
    by (simp add: RleEncodeLevels_def Let_def e rle_eq len n framed_def length_le32)
qed


text \<open>
  C5. The uncompressed payload that \<open>AddDataPage\<close> assembles is, in this order, the
  RLE-encoded repetition levels behind their 4-byte little-endian length when the maximum
  repetition level is positive, the RLE-encoded definition levels behind their 4-byte
  little-endian length when the maximum definition level is positive, and the buffer that
  the current value encoder flushes. The definition levels are encoded first and copied
  second. Each RLE block is assumed to fit the \<open>int32_t\<close> length that
  \<open>RleEncodeLevels\<close> stores in front of it.
\<close>

theorem AddDataPage_payload:
  assumes "0 < sint (descr_max_repetition_level (cw_descr st)) \<longrightarrow>
           length (rle_of_levels env (descr_max_repetition_level (cw_descr st))
                     (cw_num_buffered_values st) (cw_repetition_levels_sink st)) < 2 ^ 31 - 4"
    and "0 < sint (descr_max_definition_level (cw_descr st)) \<longrightarrow>
         length (rle_of_levels env (descr_max_definition_level (cw_descr st))
                   (cw_num_buffered_values st) (cw_definition_levels_sink st)) < 2 ^ 31 - 4"
  shows "cw_uncompressed_data (AddDataPage env tenv st) =
     (if 0 < sint (descr_max_repetition_level (cw_descr st))
      then framed (rle_of_levels env (descr_max_repetition_level (cw_descr st))
                     (cw_num_buffered_values st) (cw_repetition_levels_sink st))
      else [])
     @ (if 0 < sint (descr_max_definition_level (cw_descr st))
        then framed (rle_of_levels env (descr_max_definition_level (cw_descr st))
                       (cw_num_buffered_values st) (cw_definition_levels_sink st))
        else [])
     @ FlushValues_buffer tenv (cw_current_encoder st)"
proof -
  let ?R = "descr_max_repetition_level (cw_descr st)"
  let ?D = "descr_max_definition_level (cw_descr st)"
  let ?n = "cw_num_buffered_values st"
  have rep: "take (nat (sint (snd (RleEncodeLevels env (cw_repetition_levels_sink st)
                 (cw_repetition_levels_rle st) ?R ?n))))
           (fst (RleEncodeLevels env (cw_repetition_levels_sink st)
                 (cw_repetition_levels_rle st) ?R ?n))
         = framed (rle_of_levels env ?R ?n (cw_repetition_levels_sink st))"
    if "0 < sint ?R"
    using assms(1) that by (intro RleEncodeLevels_frame) simp
  have def: "take (nat (sint (snd (RleEncodeLevels env (cw_definition_levels_sink st)
                 (cw_definition_levels_rle st) ?D ?n))))
           (fst (RleEncodeLevels env (cw_definition_levels_sink st)
                 (cw_definition_levels_rle st) ?D ?n))
         = framed (rle_of_levels env ?D ?n (cw_definition_levels_sink st))"
    if "0 < sint ?D"
    using assms(2) that by (intro RleEncodeLevels_frame) simp
  show ?thesis
    using rep def
    by (simp add: AddDataPage_def GetValuesBuffer_def Let_def split_beta)
qed


theorem AddDataPage_payload_witness:
  "length (rle_of_levels example_env 1 3 [0, 1, 0]) < 2 ^ 31 - 4 \<and>
   length (rle_of_levels example_env 1 3 [1, 0, 1]) < 2 ^ 31 - 4 \<and>
   cw_uncompressed_data
     (AddDataPage example_env example_tenv
        (snd (WriteMiniBatch example_env example_tenv 3 [1, 0, 1] [0, 1, 0] [5, 6]
                (example_writer False False)))) =
   [3, 0, 0, 0, 0, 1, 0, 3, 0, 0, 0, 1, 0, 1, 5, 6]"
proof -
  let ?st = "snd (WriteMiniBatch example_env example_tenv 3 [1, 0, 1] [0, 1, 0] [5, 6]
                (example_writer False False))"
  have st: "descr_max_repetition_level (cw_descr ?st) = 1"
    "descr_max_definition_level (cw_descr ?st) = 1"
    "cw_num_buffered_values ?st = 3"
    "cw_repetition_levels_sink ?st = [0, 1, 0]"
    "cw_definition_levels_sink ?st = [1, 0, 1]"
    "FlushValues_buffer example_tenv (cw_current_encoder ?st) = [5, 6]"
    by (simp_all add: example_defs pager_defs writer_defs Let_def)
  have rle: "rle_of_levels example_env 1 3 [0, 1, 0] = [0, 1, 0]"
    "rle_of_levels example_env 1 3 [1, 0, 1] = [1, 0, 1]"
    by (simp_all add: rle_of_levels_def example_env_def LevelEncoder_MaxBufferSize_def
        LevelEncoder_Init_def LevelEncoder_Encode_def Let_def)
  have h1: "0 < sint (descr_max_repetition_level (cw_descr ?st)) \<longrightarrow>
           length (rle_of_levels example_env (descr_max_repetition_level (cw_descr ?st))
                     (cw_num_buffered_values ?st) (cw_repetition_levels_sink ?st)) < 2 ^ 31 - 4"
    unfolding st rle by simp
  have h2: "0 < sint (descr_max_definition_level (cw_descr ?st)) \<longrightarrow>
         length (rle_of_levels example_env (descr_max_definition_level (cw_descr ?st))
                   (cw_num_buffered_values ?st) (cw_definition_levels_sink ?st)) < 2 ^ 31 - 4"
    unfolding st rle by simp
  from AddDataPage_payload [OF h1 h2, of example_tenv]
  have "cw_uncompressed_data (AddDataPage example_env example_tenv ?st) =
      framed [0, 1, 0] @ framed [1, 0, 1] @ [5, 6]"
    unfolding st rle by simp
  then show ?thesis
    by (simp add: rle framed_def le32_def size64_def)
qed


lemma sint_of_nat_32: "k < 2 ^ 31 \<Longrightarrow> sint (of_nat k :: int32) = int k"
  by (simp add: signed_of_nat signed_take_bit_int_eq_self)

lemma sint_of_nat_64: "k < 2 ^ 63 \<Longrightarrow> sint (of_nat k :: int64) = int k"
  by (simp add: signed_of_nat signed_take_bit_int_eq_self)

lemma ucast_of_nat_64_32: "(ucast (of_nat k :: int64) :: int32) = of_nat k"
proof -
  have "(ucast (of_nat k :: int64) :: int32) = word_of_nat (take_bit 64 k)"
    by (simp add: ucast_eq unsigned_of_nat)
  also have "\<dots> = of_nat k"
    by (simp add: word_of_nat_eq_iff take_bit_take_bit)
  finally show ?thesis .
qed

lemma of_nat_nat_sint: "0 \<le> sint (n :: int64) \<Longrightarrow> (of_nat (nat (sint n)) :: int64) = n"
  by simp

lemma sint_add_of_nat_32:
  assumes "sint (a :: int32) + int k < 2 ^ 31"
  shows "sint (a + of_nat k) = sint a + int k"
proof -
  have "a + of_nat k = word_of_int (sint a + int k)"
    by simp
  then have "sint (a + of_nat k) = signed_take_bit 31 (sint a + int k)"
    by (simp only: signed_of_int) simp
  moreover have "- (2 ^ 31) \<le> sint a + int k"
    using sint_greater_eq [of a] by simp
  ultimately show ?thesis
    using assms by (simp add: signed_take_bit_int_eq_self)
qed


lemma WriteMiniBatch_words:
  fixes st :: "('v, 's) ColumnWriterImpl"
  shows "fst (WriteMiniBatch env tenv n defs reps vals st) =
     (if 0 < sint (descr_max_definition_level (cw_descr st))
      then of_nat (length (filter (\<lambda>l. l = descr_max_definition_level (cw_descr st))
                     (take (nat (sint n)) defs)))
      else n) \<and>
   cw_values_put (snd (WriteMiniBatch env tenv n defs reps vals st)) =
     cw_values_put st
     @ take (nat (sint (ucast (fst (WriteMiniBatch env tenv n defs reps vals st)) :: int32))) vals \<and>
   cw_rows_written (snd (WriteMiniBatch env tenv n defs reps vals st)) =
     cw_rows_written st
     + (if 0 < sint (descr_max_repetition_level (cw_descr st))
        then of_nat (length (filter (\<lambda>l. l = 0) (take (nat (sint n)) reps)))
        else ucast n)"
proof -
  define D where "D = descr_max_definition_level (cw_descr st)"
  define R where "R = descr_max_repetition_level (cw_descr st)"
  define vtw where "vtw =
            (if 0 < sint D
             then count_values_to_write D (take (nat (sint n)) defs) 0
             else n)"
  define st1 where "st1 = (if 0 < sint D then WriteDefinitionLevels n defs st else st)"
  define st2 where "st2 = (if 0 < sint R
                 then WriteRepetitionLevels n reps
                        (st1\<lparr>cw_rows_written :=
                               count_rows (take (nat (sint n)) reps) (cw_rows_written st1)\<rparr>)
                 else st1\<lparr>cw_rows_written := cw_rows_written st1 + ucast n\<rparr>)"
  define st3 where "st3 = WriteValues vtw vals st2"
  define st4 where "st4 = (case cw_page_statistics st3 of
                   None \<Rightarrow> st3
                 | Some page_statistics_obj \<Rightarrow>
                     st3\<lparr>cw_page_statistics :=
                           Some (Statistics_Update tenv vals vtw (n - vtw) page_statistics_obj)\<rparr>)"
  define st5 where "st5 = st4\<lparr>cw_num_buffered_values := cw_num_buffered_values st4 + n,
                    cw_num_buffered_encoded_values :=
                      cw_num_buffered_encoded_values st4 + vtw\<rparr>"
  define st6 where "st6 = (if sint (props_data_pagesize (cw_properties st5))
                      \<le> sint (EstimatedDataEncodedSize tenv (cw_current_encoder st5))
                 then AddDataPage env tenv st5 else st5)"
  define st7 where "st7 = (if cw_has_dictionary st6 \<and> \<not> cw_fallback st6
                 then CheckDictionarySizeLimit env tenv st6 else st6)"
  have W: "WriteMiniBatch env tenv n defs reps vals st = (vtw, st7)"
    unfolding WriteMiniBatch_def st7_def st6_def st5_def st4_def st3_def st2_def st1_def
      vtw_def D_def R_def Let_def ..
  have r7: "cw_rows_written st7 = cw_rows_written st6" "cw_values_put st7 = cw_values_put st6"
    by (simp_all add: st7_def)
  have r6: "cw_rows_written st6 = cw_rows_written st5" "cw_values_put st6 = cw_values_put st5"
    by (simp_all add: st6_def)
  have r5: "cw_rows_written st5 = cw_rows_written st4" "cw_values_put st5 = cw_values_put st4"
    by (simp_all add: st5_def)
  have r4: "cw_rows_written st4 = cw_rows_written st3" "cw_values_put st4 = cw_values_put st3"
    by (simp_all add: st4_def split: option.splits)
  have r3: "cw_rows_written st3 = cw_rows_written st2"
    "cw_values_put st3 = cw_values_put st2 @ take (nat (sint (ucast vtw :: int32))) vals"
    by (simp_all add: st3_def WriteValues_def Let_def)
  have r1: "cw_rows_written st1 = cw_rows_written st" "cw_values_put st1 = cw_values_put st"
    by (simp_all add: st1_def WriteDefinitionLevels_def)
  have r2: "cw_rows_written st2 = cw_rows_written st
     + (if 0 < sint R then of_nat (length (filter (\<lambda>l. l = 0) (take (nat (sint n)) reps)))
        else ucast n)"
    "cw_values_put st2 = cw_values_put st"
    by (simp_all add: st2_def WriteRepetitionLevels_def count_rows_eq r1)
  have v: "vtw = (if 0 < sint D
      then of_nat (length (filter (\<lambda>l. l = D) (take (nat (sint n)) defs))) else n)"
    by (simp add: vtw_def count_values_to_write_eq)
  show ?thesis
    unfolding W fst_conv snd_conv r7 r6 r5 r4 r3 r2
    using v by (simp add: D_def R_def)
qed


lemma count_le_num_levels:
  "values_to_write_count D n defs \<le> nat (sint n)" "rows_count R n reps \<le> nat (sint n)"
  by (simp_all add: values_to_write_count_def rows_count_def
      le_trans [OF length_filter_le])

text \<open>
  C3. A mini-batch of \<open>num_levels\<close> levels hands to the value encoder as many values as
  there are positions whose definition level equals the maximum definition level (all
  \<open>num_levels\<close> when that maximum is 0), returns that count, and adds to
  \<open>rows_written\<close> the number of positions whose repetition level is 0 (all
  \<open>num_levels\<close> when the maximum repetition level is 0). The batch size is assumed
  to fit the \<open>int\<close> counters of the source, the caller to supply at least the counted
  values, and \<open>rows_written\<close> not to overflow.
\<close>

theorem WriteMiniBatch_counts:
  fixes st :: "('v, 's) ColumnWriterImpl"
  assumes n0: "0 \<le> sint num_levels" and n31: "sint num_levels < 2 ^ 31"
    and vals: "values_to_write_count (descr_max_definition_level (cw_descr st)) num_levels
                 def_levels \<le> length vals"
    and rows: "sint (cw_rows_written st)
               + int (rows_count (descr_max_repetition_level (cw_descr st)) num_levels
                        rep_levels) < 2 ^ 31"
  shows "length (cw_values_put
                   (snd (WriteMiniBatch env tenv num_levels def_levels rep_levels vals st))) =
         length (cw_values_put st)
         + values_to_write_count (descr_max_definition_level (cw_descr st)) num_levels
             def_levels \<and>
         sint (fst (WriteMiniBatch env tenv num_levels def_levels rep_levels vals st)) =
         int (values_to_write_count (descr_max_definition_level (cw_descr st)) num_levels
                def_levels) \<and>
         sint (cw_rows_written
                 (snd (WriteMiniBatch env tenv num_levels def_levels rep_levels vals st))) =
         sint (cw_rows_written st)
         + int (rows_count (descr_max_repetition_level (cw_descr st)) num_levels rep_levels)"
proof -
  let ?D = "descr_max_definition_level (cw_descr st)"
  let ?R = "descr_max_repetition_level (cw_descr st)"
  let ?v = "values_to_write_count ?D num_levels def_levels"
  let ?r = "rows_count ?R num_levels rep_levels"
  let ?W = "WriteMiniBatch env tenv num_levels def_levels rep_levels vals st"
  note w = WriteMiniBatch_words [of env tenv num_levels def_levels rep_levels vals st]
  have nn: "(of_nat (nat (sint num_levels)) :: int64) = num_levels"
    using n0 by (rule of_nat_nat_sint)
  have nat31: "nat (sint num_levels) < 2 ^ 31"
    using n0 n31 by (simp add: nat_less_iff)
  have v31: "?v < 2 ^ 31"
    using count_le_num_levels(1) [of ?D num_levels def_levels] nat31 by simp
  have fst_eq: "fst ?W = of_nat ?v"
    using w nn by (simp add: values_to_write_count_def)
  have "?v < 2 ^ 63"
    using v31 by (rule less_trans) simp
  then have s_fst: "sint (fst ?W) = int ?v"
    unfolding fst_eq by (rule sint_of_nat_64)
  have "sint (ucast (fst ?W) :: int32) = int ?v"
    unfolding fst_eq ucast_of_nat_64_32 using v31 by (rule sint_of_nat_32)
  then have put: "cw_values_put (snd ?W) = cw_values_put st @ take ?v vals"
    using w by simp
  have "(ucast num_levels :: int32) = of_nat (nat (sint num_levels))"
    using ucast_of_nat_64_32 [of "nat (sint num_levels)"] nn by simp
  then have "cw_rows_written (snd ?W) = cw_rows_written st + of_nat ?r"
    using w by (simp add: rows_count_def)
  then have s_rows: "sint (cw_rows_written (snd ?W)) = sint (cw_rows_written st) + int ?r"
    using sint_add_of_nat_32 [OF rows] by simp
  from put vals s_fst s_rows show ?thesis
    by simp
qed

theorem WriteMiniBatch_counts_witness:
  "0 \<le> sint (3 :: int64) \<and> sint (3 :: int64) < 2 ^ 31 \<and>
   values_to_write_count 1 3 [1, 0, 1] \<le> length [5, 6 :: uint8] \<and>
   sint (cw_rows_written (example_writer False False)) + int (rows_count 1 3 [0, 1, 0])
     < 2 ^ 31 \<and>
   length (cw_values_put
             (snd (WriteMiniBatch example_env example_tenv 3 [1, 0, 1] [0, 1, 0] [5, 6]
                     (example_writer False False)))) = 2 \<and>
   sint (fst (WriteMiniBatch example_env example_tenv 3 [1, 0, 1] [0, 1, 0] [5, 6]
                (example_writer False False))) = 2 \<and>
   sint (cw_rows_written
           (snd (WriteMiniBatch example_env example_tenv 3 [1, 0, 1] [0, 1, 0] [5, 6]
                   (example_writer False False)))) = 2"
proof -
  let ?st = "example_writer False False"
  have st: "descr_max_repetition_level (cw_descr ?st) = 1"
    "descr_max_definition_level (cw_descr ?st) = 1"
    "cw_rows_written ?st = 0" "cw_values_put ?st = []"
    by (simp_all add: example_defs pager_defs writer_defs Let_def)
  have c: "values_to_write_count 1 3 [1, 0, 1] = 2" "rows_count 1 3 [0, 1, 0] = 2"
    by (simp_all add: values_to_write_count_def rows_count_def)
  have n0: "0 \<le> sint (3 :: int64)" and n31: "sint (3 :: int64) < 2 ^ 31"
    by simp_all
  have v: "values_to_write_count (descr_max_definition_level (cw_descr ?st)) 3 [1, 0, 1]
      \<le> length [5, 6 :: uint8]"
    unfolding st c by simp
  have r: "sint (cw_rows_written ?st)
      + int (rows_count (descr_max_repetition_level (cw_descr ?st)) 3 [0, 1, 0]) < 2 ^ 31"
    unfolding st c by simp
  from WriteMiniBatch_counts [OF n0 n31 v r, of example_env example_tenv]
  show ?thesis
    unfolding st c by simp
qed


section \<open>Dictionary fallback\<close>

lemma serialized_pager_WriteDataPage:
  "serialized (snd (pager_WriteDataPage env page pager)) =
   snd (WriteDataPage env page (serialized pager))"
  by (cases pager) (simp_all add: pager_WriteDataPage_def split_beta)

lemma serialized_pager_WriteDictionaryPage:
  "serialized (snd (pager_WriteDictionaryPage env page pager)) =
   snd (WriteDictionaryPage env page (serialized pager))"
  by (cases pager) (simp_all add: pager_WriteDictionaryPage_def split_beta)

lemma cw_pager_WriteDataPage:
  "cw_pager (ColumnWriter_WriteDataPage env page st) =
   snd (pager_WriteDataPage env page (cw_pager st))"
  by (simp add: ColumnWriter_WriteDataPage_def split_beta)

lemma cw_pager_WriteDictionaryPage:
  "cw_pager (ColumnWriter_WriteDictionaryPage env tenv st) =
   snd (pager_WriteDictionaryPage env
          \<lparr>dpage_buffer = WriteDict tenv (cw_current_encoder st),
           dpage_num_values = num_entries tenv (cw_current_encoder st),
           dpage_encoding = props_dictionary_page_encoding (cw_properties st),
           dpage_is_sorted = False\<rparr>
          (cw_pager st))"
  by (simp add: ColumnWriter_WriteDictionaryPage_def Let_def split_beta)

lemma cw_pager_write_data_pages:
  "cw_pager (write_data_pages env pages st) = pager_write_data_pages env pages (cw_pager st)"
  by (induction pages arbitrary: st)
     (simp_all add: pager_write_data_pages_def cw_pager_WriteDataPage)

lemma AddDataPage_buffers:
  fixes st :: "('v, 's) ColumnWriterImpl"
  assumes "cw_has_dictionary st" "\<not> cw_fallback st"
  shows "\<exists>page. cw_data_pages (AddDataPage env tenv st) = cw_data_pages st @ [page] \<and>
           page_encoding page = cw_encoding st \<and>
           page_num_values page = ucast (cw_num_buffered_values st) \<and>
           cw_pager (AddDataPage env tenv st) = cw_pager st"
proof (rule AddDataPage_cases [of env tenv st])
  fix page and st3 :: "('v, 's) ColumnWriterImpl"
  assume "AddDataPage env tenv st =
       (if cw_has_dictionary st \<and> \<not> cw_fallback st
        then st3\<lparr>cw_total_compressed_bytes :=
                   cw_total_compressed_bytes st3
                   + (scast (ucast (size64 (page_buffer page)) :: int32)
                      + sizeof_PageHeader env),
                 cw_data_pages := cw_data_pages st @ [page]\<rparr>
        else ColumnWriter_WriteDataPage env page st3)
       \<lparr>cw_definition_levels_sink := [], cw_repetition_levels_sink := [],
        cw_num_buffered_values := 0, cw_num_buffered_encoded_values := 0\<rparr>"
    and "cw_pager st3 = cw_pager st"
    and "page_encoding page = cw_encoding st"
    and "page_num_values page = ucast (cw_num_buffered_values st)"
  with assms show ?thesis by simp
qed

lemma AddDataPage_writes:
  fixes st :: "('v, 's) ColumnWriterImpl"
  assumes "\<not> (cw_has_dictionary st \<and> \<not> cw_fallback st)"
  shows "\<exists>page. cw_data_pages (AddDataPage env tenv st) = cw_data_pages st \<and>
           page_encoding page = cw_encoding st \<and>
           cw_pager (AddDataPage env tenv st) =
             snd (pager_WriteDataPage env page (cw_pager st)) \<and>
           e_encoding (cw_current_encoder (AddDataPage env tenv st)) =
             e_encoding (cw_current_encoder st) \<and>
           e_use_dictionary (cw_current_encoder (AddDataPage env tenv st)) =
             e_use_dictionary (cw_current_encoder st)"
proof (rule AddDataPage_cases [of env tenv st])
  fix page and st3 :: "('v, 's) ColumnWriterImpl"
  assume "AddDataPage env tenv st =
       (if cw_has_dictionary st \<and> \<not> cw_fallback st
        then st3\<lparr>cw_total_compressed_bytes :=
                   cw_total_compressed_bytes st3
                   + (scast (ucast (size64 (page_buffer page)) :: int32)
                      + sizeof_PageHeader env),
                 cw_data_pages := cw_data_pages st @ [page]\<rparr>
        else ColumnWriter_WriteDataPage env page st3)
       \<lparr>cw_definition_levels_sink := [], cw_repetition_levels_sink := [],
        cw_num_buffered_values := 0, cw_num_buffered_encoded_values := 0\<rparr>"
    and "cw_pager st3 = cw_pager st"
    and "cw_data_pages st3 = cw_data_pages st"
    and "page_encoding page = cw_encoding st"
    and "e_encoding (cw_current_encoder st3) = e_encoding (cw_current_encoder st)"
    and "e_use_dictionary (cw_current_encoder st3) = e_use_dictionary (cw_current_encoder st)"
  with assms show ?thesis
    by (auto simp: cw_pager_WriteDataPage)
qed








section \<open>Closing the column writer\<close>

lemma Finish_returns:
  "\<not> PARQUET_ENCRYPTION env \<Longrightarrow>
   \<exists>b'. Finish env n d i p c u has_dictionary fallback encryptor b = Inr b'"
  by (simp add: Finish_def Let_def)

lemma pager_Close_returns:
  assumes "\<not> PARQUET_ENCRYPTION env"
  shows "\<exists>pager'. pager_Close env has_dictionary fallback pager = Inr pager'"
proof (cases pager)
  case (Streaming pw)
  obtain b' where
    "Finish env (pw_num_values pw) (pw_dictionary_page_offset pw) (- 1)
       (pw_data_page_offset pw) (pw_total_compressed_size pw) (pw_total_uncompressed_size pw)
       has_dictionary fallback (pw_meta_encryptor pw) (pw_metadata pw) = Inr b'"
    using Finish_returns [OF assms] by blast
  then show ?thesis
    using assms Streaming by (simp add: SerializedPageWriter_Close_def Let_def)
next
  case (Buffering bpw)
  obtain b' where
    "Finish env (pw_num_values (bpw_pager bpw))
       (pw_dictionary_page_offset (bpw_pager bpw) + Tell (bpw_final_sink bpw)) (- 1)
       (pw_data_page_offset (bpw_pager bpw) + Tell (bpw_final_sink bpw))
       (pw_total_compressed_size (bpw_pager bpw)) (pw_total_uncompressed_size (bpw_pager bpw))
       has_dictionary fallback None (pw_metadata (bpw_pager bpw)) = Inr b'"
    using Finish_returns [OF assms] by blast
  then show ?thesis
    using Buffering by (simp add: BufferedPageWriter_Close_def Let_def)
qed

lemma pager_Close_not_Inl:
  assumes "\<not> PARQUET_ENCRYPTION env"
  shows "pager_Close env has_dictionary fallback pager \<noteq> Inl err"
  using pager_Close_returns [OF assms, of has_dictionary fallback pager] by auto

lemma ColumnWriter_Close_returns:
  assumes "\<not> PARQUET_ENCRYPTION env"
  shows "\<exists>n st'. ColumnWriter_Close env tenv st = Inr (n, st')"
  by (simp add: ColumnWriter_Close_def Let_def pager_Close_not_Inl [OF assms]
      split: sum.split)

lemma WriteDataPage_metadata [simp]:
  "pw_metadata (snd (WriteDataPage env page pw)) = pw_metadata pw"
proof -
  obtain ob ol pw1 where e: "encrypt_page env kDataPage (page_buffer page) pw = ((ob, ol), pw1)"
    by (metis prod.exhaust)
  note r = encrypt_page_result [OF e]
  show ?thesis
    by (simp add: WriteDataPage_def Let_def e r split: prod.splits)
qed

lemma WriteDictionaryPage_metadata [simp]:
  "pw_metadata (snd (WriteDictionaryPage env page pw)) = pw_metadata pw"
proof -
  obtain ob ol pw1 where e: "encrypt_page env kDictionaryPage
      (if has_compressor pw then Compress pw (dpage_buffer page) else dpage_buffer page) pw
      = ((ob, ol), pw1)"
    by (metis prod.exhaust)
  note r = encrypt_page_result [OF e]
  show ?thesis
    by (simp add: WriteDictionaryPage_def Let_def e r split: prod.splits)
qed

lemma pager_metadata_WriteDataPage [simp]:
  "pager_metadata (snd (pager_WriteDataPage env page pager)) = pager_metadata pager"
  by (simp add: pager_metadata_def serialized_pager_WriteDataPage)

lemma pager_metadata_WriteDictionaryPage [simp]:
  "pager_metadata (snd (pager_WriteDictionaryPage env page pager)) = pager_metadata pager"
  by (simp add: pager_metadata_def serialized_pager_WriteDictionaryPage)

lemma pager_metadata_write_data_pages [simp]:
  "pager_metadata (pager_write_data_pages env pages pager) = pager_metadata pager"
  by (induction pages arbitrary: pager) (simp_all add: pager_write_data_pages_def)

lemma AddDataPage_metadata [simp]:
  fixes st :: "('v, 's) ColumnWriterImpl"
  shows "pager_metadata (cw_pager (AddDataPage env tenv st)) = pager_metadata (cw_pager st)"
proof (cases "cw_has_dictionary st \<and> \<not> cw_fallback st")
  case True
  with AddDataPage_buffers [of st env tenv] show ?thesis by auto
next
  case False
  from AddDataPage_writes [OF this, of env tenv] show ?thesis by auto
qed

lemma FlushBufferedDataPages_metadata [simp]:
  "pager_metadata (cw_pager (FlushBufferedDataPages env tenv st)) = pager_metadata (cw_pager st)"
  by (simp add: FlushBufferedDataPages_def Let_def cw_pager_write_data_pages)

lemma ColumnWriter_WriteDictionaryPage_metadata [simp]:
  "pager_metadata (cw_pager (ColumnWriter_WriteDictionaryPage env tenv st)) =
   pager_metadata (cw_pager st)"
  by (simp add: cw_pager_WriteDictionaryPage)

lemma pager_Close_pages:
  assumes "pager_Close env hdict fb pager = Inr pager'"
  shows "pw_pages (serialized pager') = pw_pages (serialized pager)"
proof (cases pager)
  case (Streaming pw)
  with assms show ?thesis
    by (auto simp: SerializedPageWriter_Close_def Let_def split: sum.splits if_splits)
next
  case (Buffering bpw)
  with assms show ?thesis
    by (auto simp: BufferedPageWriter_Close_def Let_def split: sum.splits)
qed

lemma serialized_map_serialized [simp]:
  "serialized (map_serialized f pager) = f (serialized pager)"
  by (cases pager) simp_all

lemma UpdateEncryption_meta_None [simp]:
  "(pw_meta_encryptor (UpdateEncryption env m pw) = None) = (pw_meta_encryptor pw = None)"
  by (cases m; simp add: UpdateEncryption_def Let_def)

lemma encrypt_page_meta_None [simp]:
  "(pw_meta_encryptor (snd (encrypt_page env m buf pw)) = None) = (pw_meta_encryptor pw = None)"
  by (simp add: encrypt_page_def Let_def)

lemma WriteDataPage_meta_None [simp]:
  "(pw_meta_encryptor (snd (WriteDataPage env page pw)) = None) = (pw_meta_encryptor pw = None)"
proof -
  obtain ob ol pw1 where e: "encrypt_page env kDataPage (page_buffer page) pw = ((ob, ol), pw1)"
    by (metis prod.exhaust)
  have "(pw_meta_encryptor pw1 = None) = (pw_meta_encryptor pw = None)"
    using encrypt_page_meta_None [of env kDataPage "page_buffer page" pw] by (simp add: e)
  then show ?thesis
    by (simp add: WriteDataPage_def Let_def e split: prod.splits)
qed

lemma WriteDictionaryPage_meta_None [simp]:
  "(pw_meta_encryptor (snd (WriteDictionaryPage env page pw)) = None) =
   (pw_meta_encryptor pw = None)"
proof -
  obtain ob ol pw1 where e: "encrypt_page env kDictionaryPage
      (if has_compressor pw then Compress pw (dpage_buffer page) else dpage_buffer page) pw
      = ((ob, ol), pw1)"
    by (metis prod.exhaust)
  have "(pw_meta_encryptor pw1 = None) = (pw_meta_encryptor pw = None)"
    using encrypt_page_meta_None [of env kDictionaryPage
        "if has_compressor pw then Compress pw (dpage_buffer page) else dpage_buffer page" pw]
    by (simp add: e)
  then show ?thesis
    by (simp add: WriteDictionaryPage_def Let_def e split: prod.splits)
qed

lemma pager_WriteDataPage_encryptor [simp]:
  "(case snd (pager_WriteDataPage env page pager) of
      Streaming pw \<Rightarrow> pw_meta_encryptor pw = None | Buffering bpw \<Rightarrow> True) =
   (case pager of Streaming pw \<Rightarrow> pw_meta_encryptor pw = None | Buffering bpw \<Rightarrow> True)"
  by (cases pager) (simp_all add: pager_WriteDataPage_def split_beta)

lemma pager_WriteDictionaryPage_encryptor [simp]:
  "(case snd (pager_WriteDictionaryPage env page pager) of
      Streaming pw \<Rightarrow> pw_meta_encryptor pw = None | Buffering bpw \<Rightarrow> True) =
   (case pager of Streaming pw \<Rightarrow> pw_meta_encryptor pw = None | Buffering bpw \<Rightarrow> True)"
  by (cases pager) (simp_all add: pager_WriteDictionaryPage_def split_beta)

lemma pager_write_data_pages_encryptor [simp]:
  "(case pager_write_data_pages env pages pager of
      Streaming pw \<Rightarrow> pw_meta_encryptor pw = None | Buffering bpw \<Rightarrow> True) =
   (case pager of Streaming pw \<Rightarrow> pw_meta_encryptor pw = None | Buffering bpw \<Rightarrow> True)"
  by (induction pages arbitrary: pager) (simp_all add: pager_write_data_pages_def)

lemma AddDataPage_encryptor [simp]:
  fixes st :: "('v, 's) ColumnWriterImpl"
  shows "(case cw_pager (AddDataPage env tenv st) of
      Streaming pw \<Rightarrow> pw_meta_encryptor pw = None | Buffering bpw \<Rightarrow> True) =
   (case cw_pager st of Streaming pw \<Rightarrow> pw_meta_encryptor pw = None | Buffering bpw \<Rightarrow> True)"
proof (cases "cw_has_dictionary st \<and> \<not> cw_fallback st")
  case True
  with AddDataPage_buffers [of st env tenv] show ?thesis by auto
next
  case False
  from AddDataPage_writes [OF this, of env tenv] show ?thesis by auto
qed

lemma FlushBufferedDataPages_encryptor [simp]:
  "(case cw_pager (FlushBufferedDataPages env tenv st) of
      Streaming pw \<Rightarrow> pw_meta_encryptor pw = None | Buffering bpw \<Rightarrow> True) =
   (case cw_pager st of Streaming pw \<Rightarrow> pw_meta_encryptor pw = None | Buffering bpw \<Rightarrow> True)"
  by (simp add: FlushBufferedDataPages_def Let_def cw_pager_write_data_pages)

lemma ColumnWriter_WriteDictionaryPage_encryptor [simp]:
  "(case cw_pager (ColumnWriter_WriteDictionaryPage env tenv st) of
      Streaming pw \<Rightarrow> pw_meta_encryptor pw = None | Buffering bpw \<Rightarrow> True) =
   (case cw_pager st of Streaming pw \<Rightarrow> pw_meta_encryptor pw = None | Buffering bpw \<Rightarrow> True)"
  by (simp add: cw_pager_WriteDictionaryPage)

lemma map_serialized_metadata_encryptor [simp]:
  "(case map_serialized (\<lambda>pw. pw\<lparr>pw_metadata := f pw\<rparr>) pager of
      Streaming pw \<Rightarrow> pw_meta_encryptor pw = None | Buffering bpw \<Rightarrow> True) =
   (case pager of Streaming pw \<Rightarrow> pw_meta_encryptor pw = None | Buffering bpw \<Rightarrow> True)"
  by (cases pager) simp_all

lemma Finish_offsets_statistics:
  "md_statistics (cc_meta_data (Finish_offsets n d i a c u cc)) = md_statistics (cc_meta_data cc)"
  by (simp add: Finish_offsets_def Let_def)

lemma Finish_encryption_statistics:
  assumes "Finish_encryption env props column encryptor cc = Inr cc'"
  shows "md_statistics (cc_meta_data cc') = md_statistics (cc_meta_data cc)"
    and "md_num_values (cc_meta_data cc') = md_num_values (cc_meta_data cc)"
    and "md_encodings (cc_meta_data cc') = md_encodings (cc_meta_data cc)"
    and "md_isset_statistics (cc_meta_data cc') =
         (md_isset_statistics (cc_meta_data cc) \<and>
          \<not> (EncryptColumnMetaData (props_encrypted_footer props)
                (props_column_encryption_properties props) \<and>
             \<not> props_encrypted_footer props))"
  using assms
  by (auto simp: Finish_encryption_def EncryptColumnMetaData_def Let_def
      split: option.splits if_splits)

lemma Finish_statistics:
  assumes "Finish env n d i a c u hdict fb encryptor b = Inr b'"
  shows "md_statistics (cc_meta_data (b_column_chunk b')) =
         md_statistics (cc_meta_data (b_column_chunk b))"
    and "md_num_values (cc_meta_data (b_column_chunk b')) = n"
    and "md_isset_statistics (cc_meta_data (b_column_chunk b')) =
         (md_isset_statistics (cc_meta_data (b_column_chunk b)) \<and>
          \<not> (PARQUET_ENCRYPTION env \<and>
             EncryptColumnMetaData (props_encrypted_footer (b_properties b))
               (props_column_encryption_properties (b_properties b)) \<and>
             \<not> props_encrypted_footer (b_properties b)))"
    and "b_properties b' = b_properties b"
    and "md_encodings (cc_meta_data (b_column_chunk b')) =
         Finish_encodings (b_properties b) hdict fb"
proof -
  define cc2 where "cc2 = (Finish_offsets n d i a c u (b_column_chunk b))
      \<lparr>cc_meta_data := (cc_meta_data (Finish_offsets n d i a c u (b_column_chunk b)))
         \<lparr>md_encodings := Finish_encodings (b_properties b) hdict fb\<rparr>\<rparr>"
  have cc2: "md_statistics (cc_meta_data cc2) = md_statistics (cc_meta_data (b_column_chunk b))"
    "md_num_values (cc_meta_data cc2) = n"
    "md_isset_statistics (cc_meta_data cc2) =
       md_isset_statistics (cc_meta_data (b_column_chunk b))"
    "md_encodings (cc_meta_data cc2) = Finish_encodings (b_properties b) hdict fb"
    by (simp_all add: cc2_def Finish_offsets_statistics Finish_offsets_fields)
  have "md_statistics (cc_meta_data (b_column_chunk b')) =
         md_statistics (cc_meta_data (b_column_chunk b)) \<and>
     md_num_values (cc_meta_data (b_column_chunk b')) = n \<and>
     md_isset_statistics (cc_meta_data (b_column_chunk b')) =
         (md_isset_statistics (cc_meta_data (b_column_chunk b)) \<and>
          \<not> (PARQUET_ENCRYPTION env \<and>
             EncryptColumnMetaData (props_encrypted_footer (b_properties b))
               (props_column_encryption_properties (b_properties b)) \<and>
             \<not> props_encrypted_footer (b_properties b))) \<and>
     b_properties b' = b_properties b \<and>
     md_encodings (cc_meta_data (b_column_chunk b')) =
         Finish_encodings (b_properties b) hdict fb"
  proof (cases "PARQUET_ENCRYPTION env")
    case False
    with assms have "b' = b\<lparr>b_column_chunk := cc2\<rparr>"
      by (auto simp: Finish_def Let_def cc2_def)
    then show ?thesis using False by (simp add: cc2)
  next
    case True
    with assms obtain cc3 where
      enc: "Finish_encryption env (b_properties b) (b_column b) encryptor cc2 = Inr cc3"
      and b': "b' = b\<lparr>b_column_chunk := cc3\<rparr>"
      by (auto simp: Finish_def Let_def cc2_def split: sum.splits)
    show ?thesis
      using True by (simp add: b' Finish_encryption_statistics [OF enc] cc2)
  qed
  then show "md_statistics (cc_meta_data (b_column_chunk b')) =
         md_statistics (cc_meta_data (b_column_chunk b))"
    and "md_num_values (cc_meta_data (b_column_chunk b')) = n"
    and "md_isset_statistics (cc_meta_data (b_column_chunk b')) =
         (md_isset_statistics (cc_meta_data (b_column_chunk b)) \<and>
          \<not> (PARQUET_ENCRYPTION env \<and>
             EncryptColumnMetaData (props_encrypted_footer (b_properties b))
               (props_column_encryption_properties (b_properties b)) \<and>
             \<not> props_encrypted_footer (b_properties b)))"
    and "b_properties b' = b_properties b"
    and "md_encodings (cc_meta_data (b_column_chunk b')) =
         Finish_encodings (b_properties b) hdict fb"
    by blast+
qed

lemma writer_failure_Inl: "(x = Inl NullEncryptor) = (\<not> (\<exists>y. x = Inr y))"
  for x :: "writer_failure + 'a"
proof (cases x)
  case (Inl e)
  then show ?thesis by (cases e) simp
next
  case (Inr y)
  then show ?thesis by simp
qed

lemma SerializedPageWriter_Close_returns_iff:
  "(\<exists>pw'. SerializedPageWriter_Close env hdict fb pw = Inr pw') =
   (\<exists>b'. Finish env (pw_num_values pw) (pw_dictionary_page_offset pw) (- 1)
           (pw_data_page_offset pw) (pw_total_compressed_size pw)
           (pw_total_uncompressed_size pw) hdict fb
           (pw_meta_encryptor (if PARQUET_ENCRYPTION env \<and> pw_meta_encryptor pw \<noteq> None
                 then UpdateEncryption env kColumnMetaData pw else pw)) (pw_metadata pw)
         = Inr b')"
  by (auto simp: SerializedPageWriter_Close_def Let_def split: sum.splits if_splits)

lemma BufferedPageWriter_Close_returns_iff:
  "(\<exists>bpw'. BufferedPageWriter_Close env hdict fb bpw = Inr bpw') =
   (\<exists>b'. Finish env (pw_num_values (bpw_pager bpw))
           (pw_dictionary_page_offset (bpw_pager bpw) + Tell (bpw_final_sink bpw)) (- 1)
           (pw_data_page_offset (bpw_pager bpw) + Tell (bpw_final_sink bpw))
           (pw_total_compressed_size (bpw_pager bpw))
           (pw_total_uncompressed_size (bpw_pager bpw)) hdict fb None
           (pw_metadata (bpw_pager bpw))
         = Inr b')"
  by (auto simp: BufferedPageWriter_Close_def Let_def split: sum.splits)

lemma pager_Close_fails_iff:
  "(pager_Close env hdict fb pager = Inl NullEncryptor) =
   (PARQUET_ENCRYPTION env \<and>
    (case pager of Streaming pw \<Rightarrow> pw_meta_encryptor pw = None | Buffering bpw \<Rightarrow> True) \<and>
    EncryptColumnMetaData (props_encrypted_footer (b_properties (pager_metadata pager)))
      (props_column_encryption_properties (b_properties (pager_metadata pager))))"
proof (cases pager)
  case (Streaming pw)
  have "(\<exists>y. pager_Close env hdict fb pager = Inr y) =
        (\<exists>pw'. SerializedPageWriter_Close env hdict fb pw = Inr pw')"
    unfolding Streaming
    by (cases "SerializedPageWriter_Close env hdict fb pw") auto
  then show ?thesis
    unfolding writer_failure_Inl SerializedPageWriter_Close_returns_iff Finish_total
    using Streaming by (auto simp: pager_metadata_def)
next
  case (Buffering bpw)
  have "(\<exists>y. pager_Close env hdict fb pager = Inr y) =
        (\<exists>bpw'. BufferedPageWriter_Close env hdict fb bpw = Inr bpw')"
    unfolding Buffering
    by (cases "BufferedPageWriter_Close env hdict fb bpw") auto
  then show ?thesis
    unfolding writer_failure_Inl BufferedPageWriter_Close_returns_iff Finish_total
    using Buffering by (auto simp: pager_metadata_def)
qed

lemma os_data_WriteTo:
  "os_data (WriteTo env b sink) = os_data sink @ SerializeObject_ColumnChunk env (b_column_chunk b)"
  by (simp add: WriteTo_def Serialize_def Write_def)

lemma pager_Close_sink:
  assumes "pager_Close env hdict fb pager = Inr pager'"
  shows "os_data (case pager' of Streaming pw \<Rightarrow> pw_sink pw
                   | Buffering bpw \<Rightarrow> bpw_final_sink bpw) =
         os_data (case pager of Streaming pw \<Rightarrow> pw_sink pw
                   | Buffering bpw \<Rightarrow> bpw_final_sink bpw)
         @ (case pager of Streaming pw \<Rightarrow> []
              | Buffering bpw \<Rightarrow> os_data (pw_sink (bpw_pager bpw)))
         @ SerializeObject_ColumnChunk env (b_column_chunk (pager_metadata pager'))"
proof (cases pager)
  case (Streaming pw)
  with assms show ?thesis
    by (auto simp: SerializedPageWriter_Close_def Let_def os_data_WriteTo pager_metadata_def
        split: sum.splits if_splits)
next
  case (Buffering bpw)
  with assms show ?thesis
    by (auto simp: BufferedPageWriter_Close_def Let_def os_data_WriteTo pager_metadata_def
        Write_def split: sum.splits)
qed

lemma pager_Close_Finish:
  assumes "pager_Close env hdict fb pager = Inr pager'"
  shows "\<exists>d a encryptor.
           Finish env (pw_num_values (serialized pager)) d (- 1) a
             (pw_total_compressed_size (serialized pager))
             (pw_total_uncompressed_size (serialized pager)) hdict fb encryptor
             (pager_metadata pager) = Inr (pager_metadata pager')"
proof (cases pager)
  case (Streaming pw)
  with assms obtain pw' where p': "pager' = Streaming pw'"
    and c: "SerializedPageWriter_Close env hdict fb pw = Inr pw'"
    by (cases "SerializedPageWriter_Close env hdict fb pw") auto
  from SerializedPageWriter_Close_metadata [OF c] show ?thesis
    unfolding Streaming p' pager_metadata_def serialized.simps by blast
next
  case (Buffering bpw)
  with assms obtain bpw' where p': "pager' = Buffering bpw'"
    and c: "BufferedPageWriter_Close env hdict fb bpw = Inr bpw'"
    by (cases "BufferedPageWriter_Close env hdict fb bpw") auto
  from BufferedPageWriter_Close_metadata [OF c] show ?thesis
    unfolding Buffering p' pager_metadata_def serialized.simps by blast
qed

lemma pager_Close_metadata_fields:
  assumes "pager_Close env hdict fb pager = Inr pager'"
  shows "md_statistics (cc_meta_data (b_column_chunk (pager_metadata pager'))) =
         md_statistics (cc_meta_data (b_column_chunk (pager_metadata pager)))"
    and "md_isset_statistics (cc_meta_data (b_column_chunk (pager_metadata pager'))) =
         (md_isset_statistics (cc_meta_data (b_column_chunk (pager_metadata pager))) \<and>
          \<not> (PARQUET_ENCRYPTION env \<and>
             EncryptColumnMetaData
               (props_encrypted_footer (b_properties (pager_metadata pager)))
               (props_column_encryption_properties (b_properties (pager_metadata pager))) \<and>
             \<not> props_encrypted_footer (b_properties (pager_metadata pager))))"
    and "md_num_values (cc_meta_data (b_column_chunk (pager_metadata pager'))) =
         pw_num_values (serialized pager)"
    and "md_total_compressed_size (cc_meta_data (b_column_chunk (pager_metadata pager'))) =
         pw_total_compressed_size (serialized pager)"
    and "md_total_uncompressed_size (cc_meta_data (b_column_chunk (pager_metadata pager'))) =
         pw_total_uncompressed_size (serialized pager)"
    and "md_encodings (cc_meta_data (b_column_chunk (pager_metadata pager'))) =
         Finish_encodings (b_properties (pager_metadata pager)) hdict fb"
proof -
  from pager_Close_Finish [OF assms] obtain d a encryptor where
    f: "Finish env (pw_num_values (serialized pager)) d (- 1) a
             (pw_total_compressed_size (serialized pager))
             (pw_total_uncompressed_size (serialized pager)) hdict fb encryptor
             (pager_metadata pager) = Inr (pager_metadata pager')"
    by blast
  show "md_statistics (cc_meta_data (b_column_chunk (pager_metadata pager'))) =
         md_statistics (cc_meta_data (b_column_chunk (pager_metadata pager)))"
    by (rule Finish_statistics(1) [OF f])
  show "md_isset_statistics (cc_meta_data (b_column_chunk (pager_metadata pager'))) =
         (md_isset_statistics (cc_meta_data (b_column_chunk (pager_metadata pager))) \<and>
          \<not> (PARQUET_ENCRYPTION env \<and>
             EncryptColumnMetaData
               (props_encrypted_footer (b_properties (pager_metadata pager)))
               (props_column_encryption_properties (b_properties (pager_metadata pager))) \<and>
             \<not> props_encrypted_footer (b_properties (pager_metadata pager))))"
    by (rule Finish_statistics(3) [OF f])
  show "md_num_values (cc_meta_data (b_column_chunk (pager_metadata pager'))) =
         pw_num_values (serialized pager)"
    by (rule Finish_statistics(2) [OF f])
  show "md_total_compressed_size (cc_meta_data (b_column_chunk (pager_metadata pager'))) =
         pw_total_compressed_size (serialized pager)"
    by (rule Finish_fields(5) [OF f])
  show "md_total_uncompressed_size (cc_meta_data (b_column_chunk (pager_metadata pager'))) =
         pw_total_uncompressed_size (serialized pager)"
    by (rule Finish_fields(6) [OF f])
  show "md_encodings (cc_meta_data (b_column_chunk (pager_metadata pager'))) =
         Finish_encodings (b_properties (pager_metadata pager)) hdict fb"
    by (rule Finish_statistics(5) [OF f])
qed

lemma SetStatistics_fields [simp]:
  "b_properties (SetStatistics val b) = b_properties b"
  "md_statistics (cc_meta_data (b_column_chunk (SetStatistics val b))) = ToThrift_Statistics val"
  "md_isset_statistics (cc_meta_data (b_column_chunk (SetStatistics val b)))"
  by (simp_all add: SetStatistics_def)

lemma map_serialized_metadata_keeps [simp]:
  "pager_metadata (map_serialized (\<lambda>pw. pw\<lparr>pw_metadata := f (pw_metadata pw)\<rparr>) pager) =
     f (pager_metadata pager)"
  "pw_pages (serialized (map_serialized (\<lambda>pw. pw\<lparr>pw_metadata := f (pw_metadata pw)\<rparr>) pager)) =
     pw_pages (serialized pager)"
  "pw_num_values
     (serialized (map_serialized (\<lambda>pw. pw\<lparr>pw_metadata := f (pw_metadata pw)\<rparr>) pager)) =
     pw_num_values (serialized pager)"
  "pw_total_compressed_size
     (serialized (map_serialized (\<lambda>pw. pw\<lparr>pw_metadata := f (pw_metadata pw)\<rparr>) pager)) =
     pw_total_compressed_size (serialized pager)"
  "pw_total_uncompressed_size
     (serialized (map_serialized (\<lambda>pw. pw\<lparr>pw_metadata := f (pw_metadata pw)\<rparr>) pager)) =
     pw_total_uncompressed_size (serialized pager)"
  "(case map_serialized (\<lambda>pw. pw\<lparr>pw_metadata := f (pw_metadata pw)\<rparr>) pager of
      Streaming pw \<Rightarrow> pw_sink pw | Buffering bpw \<Rightarrow> bpw_final_sink bpw) =
   (case pager of Streaming pw \<Rightarrow> pw_sink pw | Buffering bpw \<Rightarrow> bpw_final_sink bpw)"
  "(case map_serialized (\<lambda>pw. pw\<lparr>pw_metadata := f (pw_metadata pw)\<rparr>) pager of
      Streaming pw \<Rightarrow> [] | Buffering bpw \<Rightarrow> os_data (pw_sink (bpw_pager bpw))) =
   (case pager of Streaming pw \<Rightarrow> [] | Buffering bpw \<Rightarrow> os_data (pw_sink (bpw_pager bpw)))"
  by (cases pager; simp add: pager_metadata_def)+

text \<open>
  C7. The first \<open>Close\<close> of a column writer does not always return. In a build with
  encryption it fails in \<open>Finish\<close>, on the missing encryptor, exactly when the metadata of
  the column is encrypted separately and the page writer hands no encryptor to
  \<open>Finish\<close>: a \<open>BufferedPageWriter\<close> never hands one, a \<open>SerializedPageWriter\<close> hands
  its \<open>meta_encryptor\<close>. When \<open>Close\<close> returns, the writer is closed, the number
  returned is \<open>total_bytes_written\<close>, and a second \<open>Close\<close> returns the same number and
  the same state; on a closed writer nothing changes. On an open writer the dictionary
  page (when dictionary-encoding without fallback) and the buffered data pages are written
  first, nothing but the page writer changes afterwards, and closing the page writer
  writes no page: the chunk statistics are installed exactly when \<open>rows_written\<close> is
  positive and the statistics are set (and are hidden again only in the redacted metadata
  of an encrypted column under a plaintext footer), the metadata gets the value count, the
  total sizes and the encodings that \<open>has_dictionary\<close> and \<open>fallback\<close> select, and the
  serialized column chunk is written at the end of the chunk, after the buffered bytes of
  a \<open>BufferedPageWriter\<close>.
\<close>

theorem ColumnWriter_Close_first_and_later:
  fixes st :: "('v, 's) ColumnWriterImpl"
  shows
   "((ColumnWriter_Close env tenv st = Inl NullEncryptor) =
       (\<not> cw_closed st \<and> PARQUET_ENCRYPTION env \<and>
        (case cw_pager st of
           Streaming pw \<Rightarrow> pw_meta_encryptor pw = None
         | Buffering bpw \<Rightarrow> True) \<and>
        EncryptColumnMetaData
          (props_encrypted_footer (b_properties (pager_metadata (cw_pager st))))
          (props_column_encryption_properties (b_properties (pager_metadata (cw_pager st)))))) \<and>
    (ColumnWriter_Close env tenv st = Inr (n, st') \<longrightarrow>
       cw_closed st' \<and> n = cw_total_bytes_written st' \<and>
       ColumnWriter_Close env tenv st' = Inr (n, st') \<and>
       (cw_closed st \<longrightarrow> st' = st) \<and>
       (\<not> cw_closed st \<longrightarrow>
          (let st3 = FlushBufferedDataPages env tenv
                       (if cw_has_dictionary st \<and> \<not> cw_fallback st
                        then ColumnWriter_WriteDictionaryPage env tenv (st\<lparr>cw_closed := True\<rparr>)
                        else st\<lparr>cw_closed := True\<rparr>);
               chunk_statistics =
                 (ApplyStatSizeLimits tenv (props_max_statistics_size (cw_properties st))
                    (GetChunkStatistics tenv st3))
                 \<lparr>is_signed := (SIGNED = descr_sort_order (cw_descr st))\<rparr>;
               install = (0 < sint (cw_rows_written st) \<and> is_set tenv chunk_statistics);
               md = pager_metadata (cw_pager st);
               md' = pager_metadata (cw_pager st')
           in st' = st3\<lparr>cw_pager := cw_pager st'\<rparr> \<and>
              n = cw_total_bytes_written st3 \<and>
              pw_pages (serialized (cw_pager st')) = pw_pages (serialized (cw_pager st3)) \<and>
              md_statistics (cc_meta_data (b_column_chunk md')) =
                (if install then ToThrift_Statistics chunk_statistics
                 else md_statistics (cc_meta_data (b_column_chunk md))) \<and>
              md_isset_statistics (cc_meta_data (b_column_chunk md')) =
                ((install \<or> md_isset_statistics (cc_meta_data (b_column_chunk md))) \<and>
                 \<not> (PARQUET_ENCRYPTION env \<and>
                    EncryptColumnMetaData (props_encrypted_footer (b_properties md))
                      (props_column_encryption_properties (b_properties md)) \<and>
                    \<not> props_encrypted_footer (b_properties md))) \<and>
              md_num_values (cc_meta_data (b_column_chunk md')) =
                pw_num_values (serialized (cw_pager st3)) \<and>
              md_total_compressed_size (cc_meta_data (b_column_chunk md')) =
                pw_total_compressed_size (serialized (cw_pager st3)) \<and>
              md_total_uncompressed_size (cc_meta_data (b_column_chunk md')) =
                pw_total_uncompressed_size (serialized (cw_pager st3)) \<and>
              md_encodings (cc_meta_data (b_column_chunk md')) =
                Finish_encodings (b_properties md) (cw_has_dictionary st) (cw_fallback st) \<and>
              os_data (case cw_pager st' of
                         Streaming pw \<Rightarrow> pw_sink pw
                       | Buffering bpw \<Rightarrow> bpw_final_sink bpw) =
                os_data (case cw_pager st3 of
                           Streaming pw \<Rightarrow> pw_sink pw
                         | Buffering bpw \<Rightarrow> bpw_final_sink bpw)
                @ (case cw_pager st3 of
                     Streaming pw \<Rightarrow> []
                   | Buffering bpw \<Rightarrow> os_data (pw_sink (bpw_pager bpw)))
                @ SerializeObject_ColumnChunk env (b_column_chunk md'))))"
proof (cases "cw_closed st")
  case True
  then have c: "ColumnWriter_Close env tenv st = Inr (cw_total_bytes_written st, st)"
    by (simp add: ColumnWriter_Close_def)
  show ?thesis
    unfolding c using True by (auto simp: ColumnWriter_Close_def)
next
  case False
  define st1 where "st1 = st\<lparr>cw_closed := True\<rparr>"
  define st2 where "st2 = (if cw_has_dictionary st1 \<and> \<not> cw_fallback st1
                       then ColumnWriter_WriteDictionaryPage env tenv st1 else st1)"
  define st3 where "st3 = FlushBufferedDataPages env tenv st2"
  define chunk_statistics where "chunk_statistics =
                  (ApplyStatSizeLimits tenv (props_max_statistics_size (cw_properties st3))
                     (GetChunkStatistics tenv st3))
                  \<lparr>is_signed := (SIGNED = descr_sort_order (cw_descr st3))\<rparr>"
  define install where
    "install = (0 < sint (cw_rows_written st3) \<and> is_set tenv chunk_statistics)"
  define st4 where "st4 = (if install
                       then st3\<lparr>cw_pager :=
                                 map_serialized
                                   (\<lambda>pw. pw\<lparr>pw_metadata :=
                                              SetStatistics chunk_statistics (pw_metadata pw)\<rparr>)
                                   (cw_pager st3)\<rparr>
                       else st3)"
  have C: "ColumnWriter_Close env tenv st =
      (case pager_Close env (cw_has_dictionary st4) (cw_fallback st4) (cw_pager st4) of
         Inl err \<Rightarrow> Inl err
       | Inr pager \<Rightarrow> Inr (cw_total_bytes_written st4, st4\<lparr>cw_pager := pager\<rparr>))"
    unfolding ColumnWriter_Close_def st4_def install_def chunk_statistics_def st3_def st2_def
      st1_def Let_def
    using False by simp
  have s2: "cw_closed st2" "cw_rows_written st2 = cw_rows_written st"
    "cw_has_dictionary st2 = cw_has_dictionary st" "cw_fallback st2 = cw_fallback st"
    "cw_descr st2 = cw_descr st" "cw_properties st2 = cw_properties st"
    "pager_metadata (cw_pager st2) = pager_metadata (cw_pager st)"
    "(case cw_pager st2 of Streaming pw \<Rightarrow> pw_meta_encryptor pw = None
      | Buffering bpw \<Rightarrow> True) =
     (case cw_pager st of Streaming pw \<Rightarrow> pw_meta_encryptor pw = None
      | Buffering bpw \<Rightarrow> True)"
    by (simp_all add: st2_def st1_def)
  have s3: "cw_closed st3" "cw_rows_written st3 = cw_rows_written st"
    "cw_has_dictionary st3 = cw_has_dictionary st" "cw_fallback st3 = cw_fallback st"
    "cw_descr st3 = cw_descr st" "cw_properties st3 = cw_properties st"
    "pager_metadata (cw_pager st3) = pager_metadata (cw_pager st)"
    "(case cw_pager st3 of Streaming pw \<Rightarrow> pw_meta_encryptor pw = None
      | Buffering bpw \<Rightarrow> True) =
     (case cw_pager st of Streaming pw \<Rightarrow> pw_meta_encryptor pw = None
      | Buffering bpw \<Rightarrow> True)"
    by (simp_all add: st3_def s2)
  have s4: "cw_closed st4" "cw_total_bytes_written st4 = cw_total_bytes_written st3"
    "cw_has_dictionary st4 = cw_has_dictionary st" "cw_fallback st4 = cw_fallback st"
    "pw_pages (serialized (cw_pager st4)) = pw_pages (serialized (cw_pager st3))"
    "pw_num_values (serialized (cw_pager st4)) = pw_num_values (serialized (cw_pager st3))"
    "pw_total_compressed_size (serialized (cw_pager st4)) =
       pw_total_compressed_size (serialized (cw_pager st3))"
    "pw_total_uncompressed_size (serialized (cw_pager st4)) =
       pw_total_uncompressed_size (serialized (cw_pager st3))"
    "(case cw_pager st4 of Streaming pw \<Rightarrow> pw_sink pw | Buffering bpw \<Rightarrow> bpw_final_sink bpw) =
     (case cw_pager st3 of Streaming pw \<Rightarrow> pw_sink pw | Buffering bpw \<Rightarrow> bpw_final_sink bpw)"
    "(case cw_pager st4 of Streaming pw \<Rightarrow> []
      | Buffering bpw \<Rightarrow> os_data (pw_sink (bpw_pager bpw))) =
     (case cw_pager st3 of Streaming pw \<Rightarrow> []
      | Buffering bpw \<Rightarrow> os_data (pw_sink (bpw_pager bpw)))"
    "(case cw_pager st4 of Streaming pw \<Rightarrow> pw_meta_encryptor pw = None
      | Buffering bpw \<Rightarrow> True) =
     (case cw_pager st of Streaming pw \<Rightarrow> pw_meta_encryptor pw = None
      | Buffering bpw \<Rightarrow> True)"
    "b_properties (pager_metadata (cw_pager st4)) = b_properties (pager_metadata (cw_pager st))"
    "md_statistics (cc_meta_data (b_column_chunk (pager_metadata (cw_pager st4)))) =
       (if install then ToThrift_Statistics chunk_statistics
        else md_statistics (cc_meta_data (b_column_chunk (pager_metadata (cw_pager st)))))"
    "md_isset_statistics (cc_meta_data (b_column_chunk (pager_metadata (cw_pager st4)))) =
       (install \<or>
        md_isset_statistics (cc_meta_data (b_column_chunk (pager_metadata (cw_pager st)))))"
    "st4\<lparr>cw_pager := p\<rparr> = st3\<lparr>cw_pager := p\<rparr>" for p
    by (simp_all add: st4_def s3)
  have fails: "(ColumnWriter_Close env tenv st = Inl NullEncryptor) =
      (pager_Close env (cw_has_dictionary st4) (cw_fallback st4) (cw_pager st4)
       = Inl NullEncryptor)"
    unfolding C
    by (cases "pager_Close env (cw_has_dictionary st4) (cw_fallback st4) (cw_pager st4)")
       simp_all
  have part1: "(ColumnWriter_Close env tenv st = Inl NullEncryptor) =
       (\<not> cw_closed st \<and> PARQUET_ENCRYPTION env \<and>
        (case cw_pager st of
           Streaming pw \<Rightarrow> pw_meta_encryptor pw = None
         | Buffering bpw \<Rightarrow> True) \<and>
        EncryptColumnMetaData
          (props_encrypted_footer (b_properties (pager_metadata (cw_pager st))))
          (props_column_encryption_properties (b_properties (pager_metadata (cw_pager st)))))"
    unfolding fails pager_Close_fails_iff s4 using False by simp
  have st3_eq: "st3 = FlushBufferedDataPages env tenv
                         (if cw_has_dictionary st \<and> \<not> cw_fallback st
                          then ColumnWriter_WriteDictionaryPage env tenv (st\<lparr>cw_closed := True\<rparr>)
                          else st\<lparr>cw_closed := True\<rparr>)"
    by (simp add: st3_def st2_def st1_def)
  have cs_eq: "chunk_statistics =
                   (ApplyStatSizeLimits tenv (props_max_statistics_size (cw_properties st))
                      (GetChunkStatistics tenv st3))
                   \<lparr>is_signed := (SIGNED = descr_sort_order (cw_descr st))\<rparr>"
    by (simp add: chunk_statistics_def s3)
  have in_eq: "install = (0 < sint (cw_rows_written st) \<and> is_set tenv chunk_statistics)"
    by (simp add: install_def s3)
  have part2: "cw_closed st' \<and> n = cw_total_bytes_written st' \<and>
       ColumnWriter_Close env tenv st' = Inr (n, st') \<and>
       st' = st3\<lparr>cw_pager := cw_pager st'\<rparr> \<and>
       n = cw_total_bytes_written st3 \<and>
       pw_pages (serialized (cw_pager st')) = pw_pages (serialized (cw_pager st3)) \<and>
       md_statistics (cc_meta_data (b_column_chunk (pager_metadata (cw_pager st')))) =
         (if install then ToThrift_Statistics chunk_statistics
          else md_statistics (cc_meta_data (b_column_chunk (pager_metadata (cw_pager st))))) \<and>
       md_isset_statistics (cc_meta_data (b_column_chunk (pager_metadata (cw_pager st')))) =
         ((install \<or>
           md_isset_statistics (cc_meta_data (b_column_chunk (pager_metadata (cw_pager st))))) \<and>
          \<not> (PARQUET_ENCRYPTION env \<and>
             EncryptColumnMetaData
               (props_encrypted_footer (b_properties (pager_metadata (cw_pager st))))
               (props_column_encryption_properties
                  (b_properties (pager_metadata (cw_pager st)))) \<and>
             \<not> props_encrypted_footer (b_properties (pager_metadata (cw_pager st))))) \<and>
       md_num_values (cc_meta_data (b_column_chunk (pager_metadata (cw_pager st')))) =
         pw_num_values (serialized (cw_pager st3)) \<and>
       md_total_compressed_size
         (cc_meta_data (b_column_chunk (pager_metadata (cw_pager st')))) =
         pw_total_compressed_size (serialized (cw_pager st3)) \<and>
       md_total_uncompressed_size
         (cc_meta_data (b_column_chunk (pager_metadata (cw_pager st')))) =
         pw_total_uncompressed_size (serialized (cw_pager st3)) \<and>
       md_encodings (cc_meta_data (b_column_chunk (pager_metadata (cw_pager st')))) =
         Finish_encodings (b_properties (pager_metadata (cw_pager st)))
           (cw_has_dictionary st) (cw_fallback st) \<and>
       os_data (case cw_pager st' of
                  Streaming pw \<Rightarrow> pw_sink pw
                | Buffering bpw \<Rightarrow> bpw_final_sink bpw) =
         os_data (case cw_pager st3 of
                    Streaming pw \<Rightarrow> pw_sink pw
                  | Buffering bpw \<Rightarrow> bpw_final_sink bpw)
         @ (case cw_pager st3 of
              Streaming pw \<Rightarrow> []
            | Buffering bpw \<Rightarrow> os_data (pw_sink (bpw_pager bpw)))
         @ SerializeObject_ColumnChunk env
             (b_column_chunk (pager_metadata (cw_pager st')))"
    if close: "ColumnWriter_Close env tenv st = Inr (n, st')"
  proof -
    from close obtain pager where
      pc: "pager_Close env (cw_has_dictionary st4) (cw_fallback st4) (cw_pager st4) = Inr pager"
      and st': "st' = st4\<lparr>cw_pager := pager\<rparr>" and n: "n = cw_total_bytes_written st4"
      unfolding C by (auto split: sum.splits)
    have p: "cw_pager st' = pager" by (simp add: st')
    have closed': "cw_closed st'" and total: "n = cw_total_bytes_written st'"
      by (simp_all add: st' s4 s3 n)
    have again: "ColumnWriter_Close env tenv st' = Inr (n, st')"
      using closed' total by (simp add: ColumnWriter_Close_def)
    have rest: "st' = st3\<lparr>cw_pager := pager\<rparr>"
      unfolding st' by (rule s4)
    have n3: "n = cw_total_bytes_written st3"
      by (simp add: n s4)
    note f = pager_Close_metadata_fields [OF pc, unfolded s4]
    note k = pager_Close_sink [OF pc, unfolded s4]
    note g = pager_Close_pages [OF pc, unfolded s4]
    show ?thesis
      unfolding p
      by (intro conjI; fact closed' total again rest n3 f k g)
  qed
  show ?thesis
    unfolding Let_def st3_eq [symmetric] cs_eq [symmetric] in_eq [symmetric]
    using part1 part2 False by blast
qed

lemmas encrypted_defs = encrypting_env_def encrypted_properties_def encrypted_writer_def
  InitEncryption_def EncryptColumnMetaData_def

lemmas statistics_defs = statistics_tenv_def statistics_writer_def


lemmas page_writer_defs = WriteDataPage_def pager_WriteDataPage_def encrypt_page_def
  Serialize_def Write_def Tell_def size64_def default_EncodedStatistics_def
  pager_write_data_pages_def

theorem ColumnWriter_Close_first_and_later_witness:
  "ColumnWriter_Close encrypting_env example_tenv
     (snd (WriteMiniBatch encrypting_env example_tenv 3 [1, 0, 1] [0, 1, 0] [5, 6]
             (encrypted_writer True))) = Inl NullEncryptor \<and>
   (\<exists>n st'.
      ColumnWriter_Close example_env statistics_tenv
        (snd (WriteMiniBatch example_env statistics_tenv 3 [1, 0, 1] [0, 1, 0] [5, 6]
                (statistics_writer False))) = Inr (n, st') \<and>
      cw_closed st' \<and> n = 19 \<and>
      ColumnWriter_Close example_env statistics_tenv st' = Inr (n, st') \<and>
      md_isset_statistics (cc_meta_data (b_column_chunk (pager_metadata (cw_pager st')))) \<and>
      st_null_count
        (md_statistics (cc_meta_data (b_column_chunk (pager_metadata (cw_pager st'))))) =
        Some 0 \<and>
      md_num_values (cc_meta_data (b_column_chunk (pager_metadata (cw_pager st')))) = 3 \<and>
      md_total_uncompressed_size
        (cc_meta_data (b_column_chunk (pager_metadata (cw_pager st')))) = 19 \<and>
      md_encodings (cc_meta_data (b_column_chunk (pager_metadata (cw_pager st')))) =
        [PLAIN, RLE] \<and>
      os_data (case cw_pager st' of
                 Streaming pw \<Rightarrow> pw_sink pw
               | Buffering bpw \<Rightarrow> bpw_final_sink bpw) =
        [0x15, 16, 16, 3, 0, 0, 0, 0, 1, 0, 3, 0, 0, 0, 1, 0, 1, 5, 6, 0x16])"
proof -
  let ?enc = "snd (WriteMiniBatch encrypting_env example_tenv 3 [1, 0, 1] [0, 1, 0] [5, 6]
             (encrypted_writer True))"
  let ?st = "snd (WriteMiniBatch example_env statistics_tenv 3 [1, 0, 1] [0, 1, 0] [5, 6]
                (statistics_writer False))"
  let ?st3 = "FlushBufferedDataPages example_env statistics_tenv (?st\<lparr>cw_closed := True\<rparr>)"
  have e: "\<not> cw_closed ?enc" "PARQUET_ENCRYPTION encrypting_env"
    "case cw_pager ?enc of Streaming pw \<Rightarrow> pw_meta_encryptor pw = None
     | Buffering bpw \<Rightarrow> True"
    "EncryptColumnMetaData
       (props_encrypted_footer (b_properties (pager_metadata (cw_pager ?enc))))
       (props_column_encryption_properties (b_properties (pager_metadata (cw_pager ?enc))))"
    by (simp_all add: example_defs pager_defs writer_defs encrypted_defs Let_def
        pager_metadata_def)
  have fails: "ColumnWriter_Close encrypting_env example_tenv ?enc = Inl NullEncryptor"
    using ColumnWriter_Close_first_and_later [of encrypting_env example_tenv ?enc] e
    by blast
  have s: "\<not> cw_closed ?st" "\<not> cw_has_dictionary ?st" "cw_rows_written ?st = 2"
    "cw_properties ?st = example_properties\<lparr>props_statistics_enabled := True\<rparr>"
    "descr_sort_order (cw_descr ?st) = SIGNED"
    "md_isset_statistics (cc_meta_data (b_column_chunk (pager_metadata (cw_pager ?st)))) = False"
    "\<not> cw_fallback ?st"
    "b_properties (pager_metadata (cw_pager ?st)) = example_properties"
    by (simp_all add: example_defs pager_defs writer_defs statistics_defs Let_def
        pager_metadata_def)
  have s3: "cw_total_bytes_written ?st3 = 19"
    "GetChunkStatistics statistics_tenv ?st3 =
       default_EncodedStatistics\<lparr>has_null_count := True\<rparr>"
    "pw_num_values (serialized (cw_pager ?st3)) = 3"
    "pw_total_uncompressed_size (serialized (cw_pager ?st3)) = 19"
    "(case cw_pager ?st3 of Streaming pw \<Rightarrow> []
      | Buffering bpw \<Rightarrow> os_data (pw_sink (bpw_pager bpw))) = []"
    "os_data (case cw_pager ?st3 of Streaming pw \<Rightarrow> pw_sink pw
              | Buffering bpw \<Rightarrow> bpw_final_sink bpw) =
       [0x15, 16, 16, 3, 0, 0, 0, 0, 1, 0, 3, 0, 0, 0, 1, 0, 1, 5, 6]"
    by (simp_all add: example_defs pager_defs writer_defs statistics_defs page_writer_defs
        Let_def)
  have "\<not> PARQUET_ENCRYPTION example_env"
    by (simp add: example_env_def)
  from ColumnWriter_Close_returns [OF this, of statistics_tenv ?st]
  obtain n st' where c: "ColumnWriter_Close example_env statistics_tenv ?st = Inr (n, st')"
    by blast
  have t: "ApplyStatSizeLimits statistics_tenv m x = x"
    "is_set statistics_tenv x =
       (has_min x \<or> has_max x \<or> has_null_count x \<or> has_distinct_count x)"
    "SerializeObject_ColumnChunk example_env cc = [0x16]" for m x cc
    by (simp_all add: statistics_tenv_def example_tenv_def example_env_def)
  from ColumnWriter_Close_first_and_later [of example_env statistics_tenv ?st n st'] c
  have eff: "cw_closed st' \<and> n = 19 \<and>
      ColumnWriter_Close example_env statistics_tenv st' = Inr (n, st') \<and>
      md_isset_statistics (cc_meta_data (b_column_chunk (pager_metadata (cw_pager st')))) \<and>
      st_null_count
        (md_statistics (cc_meta_data (b_column_chunk (pager_metadata (cw_pager st'))))) =
        Some 0 \<and>
      md_num_values (cc_meta_data (b_column_chunk (pager_metadata (cw_pager st')))) = 3 \<and>
      md_total_uncompressed_size
        (cc_meta_data (b_column_chunk (pager_metadata (cw_pager st')))) = 19 \<and>
      md_encodings (cc_meta_data (b_column_chunk (pager_metadata (cw_pager st')))) =
        [PLAIN, RLE] \<and>
      os_data (case cw_pager st' of
                 Streaming pw \<Rightarrow> pw_sink pw
               | Buffering bpw \<Rightarrow> bpw_final_sink bpw) =
        [0x15, 16, 16, 3, 0, 0, 0, 0, 1, 0, 3, 0, 0, 0, 1, 0, 1, 5, 6, 0x16]"
    by (auto simp add: Let_def s s3 t ToThrift_Statistics_def default_EncodedStatistics_def
        Finish_encodings_def example_properties_def
        \<open>\<not> PARQUET_ENCRYPTION example_env\<close>)
  from fails c eff show ?thesis
    by blast
qed

end
